theory Spec2Isabelle
  imports Complex_Main "HOL-Library.Sublist"
begin

section \<open>JavaScript values\<close>

text \<open>
  Coordinates are JavaScript numbers; a number is kept as the real it denotes, so overflow and
  the infinities of IEEE doubles are outside the model. The functions of the scripts are first
  written with the exact arithmetic of the reals. For the skeleton renderer, whose outputs are
  compared between frames and between settings, the rounding of every arithmetic operation is
  made explicit in a second rendering of the same functions (section \<open>The skeleton renderer
  with rounding\<close>). A landmark's \<open>visibility\<close> may be missing in the upstream data, and
  the code tests it for truthiness, so that field keeps the three cases apart: the property is
  absent (\<open>undefined\<close>), it is \<open>NaN\<close>, or it is a number.
\<close>

datatype jsnum = Undefined | NaN | Num real

text \<open>JavaScript truthiness of such a value: \<open>undefined\<close>, \<open>NaN\<close> and \<open>0\<close> are falsy.\<close>

fun truthy :: "jsnum \<Rightarrow> bool" where
  "truthy Undefined = False"
| "truthy NaN = False"
| "truthy (Num r) = (r \<noteq> 0)"

text \<open>\<open>a || b\<close>: the left operand when it is truthy, the right one otherwise.\<close>

definition js_or :: "jsnum \<Rightarrow> jsnum \<Rightarrow> jsnum" where
  "js_or a b = (if truthy a then a else b)"

text \<open>\<open>v > t\<close> for a numeric literal \<open>t\<close>: \<open>undefined\<close> converts to \<open>NaN\<close>, and every
  comparison with \<open>NaN\<close> is false.\<close>

fun js_gt :: "jsnum \<Rightarrow> real \<Rightarrow> bool" where
  "js_gt (Num r) t = (t < r)"
| "js_gt Undefined t = False"
| "js_gt NaN t = False"

datatype js_error = TypeError

text \<open>Reading \<open>xs[i]\<close>: \<open>None\<close> stands for \<open>undefined\<close> (index out of range).\<close>

definition nth_opt :: "'a list \<Rightarrow> nat \<Rightarrow> 'a option" where
  "nth_opt xs i = (if i < length xs then Some (xs ! i) else None)"

section \<open>Rounding to binary64\<close>

text \<open>
  A JavaScript number is an IEEE 754 binary64 value: a multiple \<open>m * 2 ^ e\<close> of a power of
  two with \<open>\<bar>m\<bar> < 2 ^ 53\<close> and \<open>- 1074 \<le> e\<close>. The arithmetic operators and
  \<open>Math.sqrt\<close> return the exact result rounded to the nearest such value, a tie going to
  the even \<open>m\<close>. \<open>round64\<close> is this rounding on the reals. \<open>bitlength n\<close> is the number
  of binary digits of \<open>n\<close>, \<open>ilog2 x\<close> the integer part of the binary logarithm of a
  positive \<open>x\<close>, and \<open>pow2 k\<close> the power \<open>2 ^ k\<close> for an integer \<open>k\<close>.
\<close>

function bitlength :: "int \<Rightarrow> int" where
  "bitlength n = (if n \<le> 0 then 0 else 1 + bitlength (n div 2))"
  by pat_completeness auto

termination
  by (relation "measure nat") auto

declare bitlength.simps [simp del]

definition ilog2 :: "real \<Rightarrow> int" where
  "ilog2 x =
     (if 1 \<le> x then bitlength \<lfloor>x\<rfloor> - 1 else - bitlength (\<lceil>1 / x\<rceil> - 1))"

definition pow2 :: "int \<Rightarrow> real" where
  "pow2 k = (if 0 \<le> k then 2 ^ nat k else 1 / 2 ^ nat (- k))"

definition roundHalfEven :: "real \<Rightarrow> int" where
  "roundHalfEven y =
     (let f = \<lfloor>y\<rfloor>
      in if y - of_int f < 1 / 2 then f
         else if 1 / 2 < y - of_int f then f + 1
         else if even f then f else f + 1)"

text \<open>The spacing of the binary64 values around \<open>x\<close> is \<open>2 ^ (ilog2 \<bar>x\<bar> - 52)\<close>, and
  \<open>2 ^ - 1074\<close> in the subnormal range.\<close>

definition round64 :: "real \<Rightarrow> real" where
  "round64 x =
     (if x = 0 then 0
      else (let q = pow2 (max (ilog2 \<bar>x\<bar> - 52) (- 1074))
            in of_int (roundHalfEven (x / q)) * q))"

section \<open>Landmarks\<close>

text \<open>One pose landmark as the pose-estimation engine delivers it: the fields \<open>x\<close>, \<open>y\<close>,
  \<open>z\<close> and \<open>visibility\<close> of the source.\<close>

record landmark =
  lm_x :: real
  lm_y :: real
  lm_z :: real
  lm_visibility :: jsnum

section \<open>The rendering library's vectors and quaternions\<close>

text \<open>
  \<open>THREE.Vector3\<close> and \<open>THREE.Quaternion\<close> belong to the rendering library, which is not
  part of the repository. The vector operations the code calls are modelled by their documented
  meaning over the reals.
\<close>

datatype vec3 = Vec3 (vx: real) (vy: real) (vz: real)

datatype quat = Quat (qx: real) (qy: real) (qz: real) (qw: real)

definition subVectors :: "vec3 \<Rightarrow> vec3 \<Rightarrow> vec3" where
  "subVectors a b = Vec3 (vx a - vx b) (vy a - vy b) (vz a - vz b)"

definition addv :: "vec3 \<Rightarrow> vec3 \<Rightarrow> vec3" where
  "addv a b = Vec3 (vx a + vx b) (vy a + vy b) (vz a + vz b)"

definition multiplyScalar :: "vec3 \<Rightarrow> real \<Rightarrow> vec3" where
  "multiplyScalar a s = Vec3 (vx a * s) (vy a * s) (vz a * s)"

definition dot :: "vec3 \<Rightarrow> vec3 \<Rightarrow> real" where
  "dot a b = vx a * vx b + vy a * vy b + vz a * vz b"

definition cross :: "vec3 \<Rightarrow> vec3 \<Rightarrow> vec3" where
  "cross a b = Vec3 (vy a * vz b - vz a * vy b) (vz a * vx b - vx a * vz b) (vx a * vy b - vy a * vx b)"

definition vlength :: "vec3 \<Rightarrow> real" where
  "vlength a = sqrt (vx a * vx a + vy a * vy a + vz a * vz a)"

text \<open>\<open>normalize\<close> divides by the length; the library leaves the zero vector as it is.\<close>

definition normalize :: "vec3 \<Rightarrow> vec3" where
  "normalize a = (if vlength a = 0 then a else multiplyScalar a (1 / vlength a))"

definition lerp :: "vec3 \<Rightarrow> vec3 \<Rightarrow> real \<Rightarrow> vec3" where
  "lerp a b t = Vec3 (vx a + (vx b - vx a) * t) (vy a + (vy b - vy a) * t) (vz a + (vz b - vz a) * t)"

definition distanceTo :: "vec3 \<Rightarrow> vec3 \<Rightarrow> real" where
  "distanceTo a b = vlength (subVectors a b)"

text \<open>A rotation by the angle \<open>t\<close> about the unit axis \<open>a\<close> is the quaternion
  \<open>(a * sin (t / 2), cos (t / 2))\<close>; \<open>perpendicular a\<close> is a unit vector at a right angle to
  the unit vector \<open>a\<close>.\<close>

definition setFromAxisAngle :: "vec3 \<Rightarrow> real \<Rightarrow> quat" where
  "setFromAxisAngle a t =
     Quat (vx a * sin (t / 2)) (vy a * sin (t / 2)) (vz a * sin (t / 2)) (cos (t / 2))"

definition perpendicular :: "vec3 \<Rightarrow> vec3" where
  "perpendicular a =
     (if \<bar>vx a\<bar> > \<bar>vz a\<bar> then normalize (Vec3 (- vy a) (vx a) 0)
      else normalize (Vec3 0 (- vz a) (vy a)))"

text \<open>
  Modelled from the spec: \<open>Quaternion.setFromUnitVectors\<close> of the rendering library, which is
  missing from the sources. The spec describes it as the shortest-arc rotation between two unit
  vectors: axis \<open>normalize (cross (canonical, direction))\<close>, angle
  \<open>acos (dot (canonical, direction))\<close>, the identity if the vectors are already parallel, and a
  rotation by 180 degrees about any perpendicular axis if they are antiparallel.
\<close>

definition setFromUnitVectors :: "vec3 \<Rightarrow> vec3 \<Rightarrow> quat" where
  "setFromUnitVectors vFrom vTo =
     (if cross vFrom vTo = Vec3 0 0 0 then
        (if 0 \<le> dot vFrom vTo then Quat 0 0 0 1
         else setFromAxisAngle (perpendicular vFrom) pi)
      else setFromAxisAngle (normalize (cross vFrom vTo)) (arccos (dot vFrom vTo)))"

text \<open>What it means for a quaternion to rotate a vector (\<open>Vector3.applyQuaternion\<close>):
  \<open>v + w * t + q \<times> t\<close> with \<open>t = 2 * (q \<times> v)\<close>.\<close>

definition applyQuaternion :: "vec3 \<Rightarrow> quat \<Rightarrow> vec3" where
  "applyQuaternion v q =
     (let u = Vec3 (qx q) (qy q) (qz q);
          t = multiplyScalar (cross u v) 2
      in addv (addv v (multiplyScalar t (qw q))) (cross u t))"

section \<open>The skeleton renderer (pose-mirror/src/skeletonRenderer.js)\<close>

record joint =
  joint_position :: vec3
  joint_visible :: bool

text \<open>The geometries the scripts build: \<open>SphereGeometry (radius)\<close>,
  \<open>BoxGeometry (width, height, depth)\<close> and
  \<open>CylinderGeometry (radiusTop, radiusBottom, height)\<close>; the numbers of segments are left
  out. The height of a cylinder is the length of the segment it draws at scale 1.\<close>

datatype geometry =
    SphereGeometry real
  | BoxGeometry real real real
  | CylinderGeometry real real real


record mesh =
  mesh_position :: vec3
  mesh_scale_y :: real
  mesh_quaternion :: quat
  mesh_visible :: bool
  mesh_geometry :: geometry

text \<open>An entry of \<open>this.bones\<close>: the cylinder and the indices of its two joints.\<close>

record bone =
  bone_mesh :: mesh
  bone_start :: nat
  bone_end :: nat

record SkeletonRenderer =
  sr_joints :: "joint list"
  sr_bones :: "bone list"
  sr_scale :: real
  sr_boneThickness :: real
  sr_showJoints :: bool
  sr_showBones :: bool

text \<open>The bone connections of \<open>createSkeleton\<close>.\<close>

definition connections :: "(nat \<times> nat) list" where
  "connections =
     [(0, 2), (0, 5),
      (11, 12),
      (11, 23), (12, 24),
      (23, 24),
      (11, 13), (13, 15),
      (12, 14), (14, 16),
      (23, 25), (25, 27), (27, 29), (27, 31),
      (24, 26), (26, 28), (28, 30), (28, 32)]"

text \<open>\<open>createSkeleton\<close>: 33 joints and one bone per connection. A new mesh sits at the origin
  with unit scale and the identity rotation; its visibility is the renderer's flag. Every bone
  is a cylinder of height 1 and of the renderer's bone thickness.\<close>

definition createSkeleton :: "SkeletonRenderer \<Rightarrow> SkeletonRenderer" where
  "createSkeleton this =
     this\<lparr>sr_joints := replicate 33
             \<lparr>joint_position = Vec3 0 0 0, joint_visible = sr_showJoints this\<rparr>,
          sr_bones := map (\<lambda>(s, e).
             \<lparr>bone_mesh = \<lparr>mesh_position = Vec3 0 0 0, mesh_scale_y = 1,
                           mesh_quaternion = Quat 0 0 0 1, mesh_visible = sr_showBones this,
                           mesh_geometry =
                             CylinderGeometry (sr_boneThickness this) (sr_boneThickness this) 1\<rparr>,
              bone_start = s, bone_end = e\<rparr>) connections\<rparr>"

text \<open>The constructor's fields, followed by \<open>createSkeleton\<close> as \<open>init\<close> calls it.\<close>

definition SkeletonRenderer_init :: SkeletonRenderer where
  "SkeletonRenderer_init =
     createSkeleton \<lparr>sr_joints = [], sr_bones = [], sr_scale = 1, sr_boneThickness = 0.05,
                     sr_showJoints = True, sr_showBones = True\<rparr>"


text \<open>\<open>setBoneThickness\<close> builds the skeleton anew.\<close>

definition setBoneThickness :: "SkeletonRenderer \<Rightarrow> real \<Rightarrow> SkeletonRenderer" where
  "setBoneThickness this thickness = createSkeleton (this\<lparr>sr_boneThickness := thickness\<rparr>)"

text \<open>\<open>setShowJoints\<close> and \<open>setShowBones\<close>. Nothing ever sets \<open>userData.visible\<close>, so
  the test \<open>userData.visible !== false\<close> holds for every joint and every mesh.\<close>

definition setShowJoints :: "SkeletonRenderer \<Rightarrow> bool \<Rightarrow> SkeletonRenderer" where
  "setShowJoints this sh =
     this\<lparr>sr_showJoints := sh,
          sr_joints := map (\<lambda>j. j\<lparr>joint_visible := sh\<rparr>) (sr_joints this)\<rparr>"


text \<open>The body of the first \<open>forEach\<close> of \<open>updatePose\<close>, for a joint whose landmark exists.\<close>

definition updateJoint :: "SkeletonRenderer \<Rightarrow> landmark \<Rightarrow> joint \<Rightarrow> joint" where
  "updateJoint this lm j =
     (if js_gt (lm_visibility lm) 0.3 then
        (let x = (lm_x lm - 0.5) * 2;
             y = (0.5 - lm_y lm) * 2;
             z = - lm_z lm * 2
         in j\<lparr>joint_position := Vec3 (x * sr_scale this) (y * sr_scale this) (z * sr_scale this),
              joint_visible := sr_showJoints this\<rparr>)
      else j\<lparr>joint_visible := False\<rparr>)"

text \<open>The first \<open>forEach\<close>: joint \<open>i\<close> reads \<open>landmarks[i]\<close>; a joint with no landmark is
  hidden.\<close>

fun updateJoints :: "SkeletonRenderer \<Rightarrow> joint list \<Rightarrow> landmark list \<Rightarrow> joint list" where
  "updateJoints this [] lms = []"
| "updateJoints this (j # js) [] = j\<lparr>joint_visible := False\<rparr> # updateJoints this js []"
| "updateJoints this (j # js) (lm # lms) = updateJoint this lm j # updateJoints this js lms"

text \<open>The body of the second \<open>forEach\<close>, once both joints are known to be visible.\<close>

definition alignMesh :: "SkeletonRenderer \<Rightarrow> joint \<Rightarrow> joint \<Rightarrow> mesh \<Rightarrow> mesh" where
  "alignMesh this startJoint endJoint m =
     (let midX = (vx (joint_position startJoint) + vx (joint_position endJoint)) / 2;
          midY = (vy (joint_position startJoint) + vy (joint_position endJoint)) / 2;
          midZ = (vz (joint_position startJoint) + vz (joint_position endJoint)) / 2;
          m1 = m\<lparr>mesh_position := Vec3 midX midY midZ\<rparr>;
          dx = vx (joint_position endJoint) - vx (joint_position startJoint);
          dy = vy (joint_position endJoint) - vy (joint_position startJoint);
          dz = vz (joint_position endJoint) - vz (joint_position startJoint);
          len = sqrt (dx * dx + dy * dy + dz * dz)
      in if len > 0 then
           m1\<lparr>mesh_scale_y := len, mesh_visible := sr_showBones this,
              mesh_quaternion := setFromUnitVectors (Vec3 0 1 0) (normalize (Vec3 dx dy dz))\<rparr>
         else m1\<lparr>mesh_visible := False\<rparr>)"

text \<open>One bone of the second \<open>forEach\<close>. Reading \<open>visible\<close> of a joint that does not exist
  throws; \<open>&&\<close> does not look at the end joint when the start joint is hidden.\<close>

definition updateBone :: "SkeletonRenderer \<Rightarrow> joint list \<Rightarrow> bone \<Rightarrow> js_error + bone" where
  "updateBone this js b =
     (case nth_opt js (bone_start b) of
        None \<Rightarrow> Inl TypeError
      | Some startJoint \<Rightarrow>
          if \<not> joint_visible startJoint
          then Inr (b\<lparr>bone_mesh := (bone_mesh b)\<lparr>mesh_visible := False\<rparr>\<rparr>)
          else (case nth_opt js (bone_end b) of
                  None \<Rightarrow> Inl TypeError
                | Some endJoint \<Rightarrow>
                    if \<not> joint_visible endJoint
                    then Inr (b\<lparr>bone_mesh := (bone_mesh b)\<lparr>mesh_visible := False\<rparr>\<rparr>)
                    else Inr (b\<lparr>bone_mesh := alignMesh this startJoint endJoint (bone_mesh b)\<rparr>)))"

fun updateBones :: "SkeletonRenderer \<Rightarrow> joint list \<Rightarrow> bone list \<Rightarrow> js_error + bone list" where
  "updateBones this js [] = Inr []"
| "updateBones this js (b # bs) =
     (case updateBone this js b of
        Inl e \<Rightarrow> Inl e
      | Inr b' \<Rightarrow> (case updateBones this js bs of Inl e \<Rightarrow> Inl e | Inr bs' \<Rightarrow> Inr (b' # bs')))"

text \<open>\<open>updatePose (landmarks)\<close>. \<open>None\<close> is an absent argument (\<open>null\<close> or \<open>undefined\<close>).
  The result is the renderer after the call, or the exception the call throws.\<close>

definition updatePose :: "SkeletonRenderer \<Rightarrow> landmark list option \<Rightarrow> js_error + SkeletonRenderer" where
  "updatePose this landmarks =
     (case landmarks of
        None \<Rightarrow> Inr this
      | Some lms \<Rightarrow>
          if length lms \<noteq> 33 then Inr this
          else (let js = updateJoints this (sr_joints this) lms
                in case updateBones this js (sr_bones this) of
                     Inl e \<Rightarrow> Inl e
                   | Inr bs \<Rightarrow> Inr (this\<lparr>sr_joints := js, sr_bones := bs\<rparr>)))"

section \<open>The skeleton renderer with rounding\<close>

text \<open>
  The functions of \<open>updatePose\<close> once more, now with the rounding of the arithmetic: \<open>rnd\<close>
  is applied to the exact result of every addition, subtraction, multiplication, division and
  square root, in the order in which the script evaluates them, and to the literal \<open>0.3\<close>,
  which is not a binary64 value (\<open>0.5\<close> and \<open>2\<close> are, and negation is exact). With
  \<open>round64\<close> for \<open>rnd\<close> this is the computation of the script; with the identity it is the
  exact rendering above. The direction is normalised and turned into a quaternion by the
  rendering library, which stays as modelled above.
\<close>

definition updateJointR :: "(real \<Rightarrow> real) \<Rightarrow> SkeletonRenderer \<Rightarrow> landmark \<Rightarrow> joint \<Rightarrow> joint" where
  "updateJointR rnd this lm j =
     (if js_gt (lm_visibility lm) (rnd 0.3) then
        (let x = rnd (rnd (lm_x lm - 0.5) * 2);
             y = rnd (rnd (0.5 - lm_y lm) * 2);
             z = rnd (- lm_z lm * 2)
         in j\<lparr>joint_position :=
                Vec3 (rnd (x * sr_scale this)) (rnd (y * sr_scale this)) (rnd (z * sr_scale this)),
              joint_visible := sr_showJoints this\<rparr>)
      else j\<lparr>joint_visible := False\<rparr>)"

fun updateJointsR :: "(real \<Rightarrow> real) \<Rightarrow> SkeletonRenderer \<Rightarrow> joint list \<Rightarrow> landmark list \<Rightarrow> joint list" where
  "updateJointsR rnd this [] lms = []"
| "updateJointsR rnd this (j # js) [] = j\<lparr>joint_visible := False\<rparr> # updateJointsR rnd this js []"
| "updateJointsR rnd this (j # js) (lm # lms) =
     updateJointR rnd this lm j # updateJointsR rnd this js lms"

definition alignMeshR :: "(real \<Rightarrow> real) \<Rightarrow> SkeletonRenderer \<Rightarrow> joint \<Rightarrow> joint \<Rightarrow> mesh \<Rightarrow> mesh" where
  "alignMeshR rnd this startJoint endJoint m =
     (let midX = rnd (rnd (vx (joint_position startJoint) + vx (joint_position endJoint)) / 2);
          midY = rnd (rnd (vy (joint_position startJoint) + vy (joint_position endJoint)) / 2);
          midZ = rnd (rnd (vz (joint_position startJoint) + vz (joint_position endJoint)) / 2);
          m1 = m\<lparr>mesh_position := Vec3 midX midY midZ\<rparr>;
          dx = rnd (vx (joint_position endJoint) - vx (joint_position startJoint));
          dy = rnd (vy (joint_position endJoint) - vy (joint_position startJoint));
          dz = rnd (vz (joint_position endJoint) - vz (joint_position startJoint));
          len = rnd (sqrt (rnd (rnd (rnd (dx * dx) + rnd (dy * dy)) + rnd (dz * dz))))
      in if len > 0 then
           m1\<lparr>mesh_scale_y := len, mesh_visible := sr_showBones this,
              mesh_quaternion := setFromUnitVectors (Vec3 0 1 0) (normalize (Vec3 dx dy dz))\<rparr>
         else m1\<lparr>mesh_visible := False\<rparr>)"

definition updateBoneR :: "(real \<Rightarrow> real) \<Rightarrow> SkeletonRenderer \<Rightarrow> joint list \<Rightarrow> bone \<Rightarrow> js_error + bone" where
  "updateBoneR rnd this js b =
     (case nth_opt js (bone_start b) of
        None \<Rightarrow> Inl TypeError
      | Some startJoint \<Rightarrow>
          if \<not> joint_visible startJoint
          then Inr (b\<lparr>bone_mesh := (bone_mesh b)\<lparr>mesh_visible := False\<rparr>\<rparr>)
          else (case nth_opt js (bone_end b) of
                  None \<Rightarrow> Inl TypeError
                | Some endJoint \<Rightarrow>
                    if \<not> joint_visible endJoint
                    then Inr (b\<lparr>bone_mesh := (bone_mesh b)\<lparr>mesh_visible := False\<rparr>\<rparr>)
                    else Inr (b\<lparr>bone_mesh :=
                                  alignMeshR rnd this startJoint endJoint (bone_mesh b)\<rparr>)))"

fun updateBonesR :: "(real \<Rightarrow> real) \<Rightarrow> SkeletonRenderer \<Rightarrow> joint list \<Rightarrow> bone list \<Rightarrow> js_error + bone list" where
  "updateBonesR rnd this js [] = Inr []"
| "updateBonesR rnd this js (b # bs) =
     (case updateBoneR rnd this js b of
        Inl e \<Rightarrow> Inl e
      | Inr b' \<Rightarrow>
          (case updateBonesR rnd this js bs of Inl e \<Rightarrow> Inl e | Inr bs' \<Rightarrow> Inr (b' # bs')))"

definition updatePoseR :: "(real \<Rightarrow> real) \<Rightarrow> SkeletonRenderer \<Rightarrow> landmark list option \<Rightarrow> js_error + SkeletonRenderer" where
  "updatePoseR rnd this landmarks =
     (case landmarks of
        None \<Rightarrow> Inr this
      | Some lms \<Rightarrow>
          if length lms \<noteq> 33 then Inr this
          else (let js = updateJointsR rnd this (sr_joints this) lms
                in case updateBonesR rnd this js (sr_bones this) of
                     Inl e \<Rightarrow> Inl e
                   | Inr bs \<Rightarrow> Inr (this\<lparr>sr_joints := js, sr_bones := bs\<rparr>)))"

section \<open>The pose exporter (poseExporter.js)\<close>

text \<open>A landmark of the relay's wire format: the upstream fields and, added by the exporter,
  \<open>id\<close> and \<open>name\<close>.\<close>

record wire_landmark = landmark +
  lm_id :: nat
  lm_name :: string

record pose =
  personId :: nat
  landmarks :: "wire_landmark list"
  worldLandmarks :: "wire_landmark list"

record videoInfo =
  vi_width :: jsnum
  vi_height :: jsnum

text \<open>The published frame. The receivers test \<open>poses\<close> for absence, so the field is
  optional; the exporter always sets it.\<close>

record poseData =
  pd_timestamp :: real
  pd_frameCount :: nat
  pd_poses :: "pose list option"
  pd_videoInfo :: videoInfo

text \<open>The detection result handed to \<open>exportPose\<close>: one landmark array per person, and
  optionally one world-landmark array per person.\<close>

record detection =
  det_landmarks :: "landmark list list option"
  det_worldLandmarks :: "landmark list list option"

datatype readyState = WS_CONNECTING | WS_OPEN | WS_CLOSING | WS_CLOSED

text \<open>The exporter. \<open>channel\<close> is \<open>None\<close> when the platform has no BroadcastChannel, and
  otherwise tells whether the channel has been closed; \<open>websocket\<close> is \<open>None\<close> when no
  socket was configured, and otherwise its ready state.\<close>

record PoseExporter =
  pe_channel :: "bool option"
  pe_websocket :: "readyState option"
  pe_enabled :: bool
  pe_frameCount :: nat
  pe_lastExportTime :: real

text \<open>What a publish does to the outside: a message posted on the channel, a frame sent on
  the socket, an event dispatched to the same-page listeners, a line on the error console.\<close>

datatype effect =
    PostMessage poseData
  | WebSocketSend poseData
  | DispatchEvent poseData
  | ConsoleError string

definition landmarkNames :: "string list" where
  "landmarkNames =
     [''nose'', ''left_eye_inner'', ''left_eye'', ''left_eye_outer'', ''right_eye_inner'',
      ''right_eye'', ''right_eye_outer'', ''left_ear'', ''right_ear'', ''mouth_left'',
      ''mouth_right'', ''left_shoulder'', ''right_shoulder'', ''left_elbow'', ''right_elbow'',
      ''left_wrist'', ''right_wrist'', ''left_pinky'', ''right_pinky'', ''left_index'',
      ''right_index'', ''left_thumb'', ''right_thumb'', ''left_hip'', ''right_hip'',
      ''left_knee'', ''right_knee'', ''left_ankle'', ''right_ankle'', ''left_heel'',
      ''right_heel'', ''left_foot_index'', ''right_foot_index'']"

definition digit_char :: "nat \<Rightarrow> char" where
  "digit_char d = char_of (48 + d)"

text \<open>The decimal digits of an index, as the template string prints it.\<close>

fun show_nat :: "nat \<Rightarrow> string" where
  "show_nat n = (if n < 10 then [digit_char n] else show_nat (n div 10) @ [digit_char (n mod 10)])"

definition getLandmarkName :: "nat \<Rightarrow> string" where
  "getLandmarkName index =
     (case nth_opt landmarkNames index of
        Some name \<Rightarrow> name
      | None \<Rightarrow> ''landmark_'' @ show_nat index)"

text \<open>The object built for one landmark; \<open>visibility: landmark.visibility || 1.0\<close>.\<close>

definition exportLandmark :: "landmark \<Rightarrow> nat \<Rightarrow> wire_landmark" where
  "exportLandmark landmark idx =
     \<lparr>lm_x = lm_x landmark, lm_y = lm_y landmark, lm_z = lm_z landmark,
      lm_visibility = js_or (lm_visibility landmark) (Num 1.0),
      lm_id = idx, lm_name = getLandmarkName idx\<rparr>"

text \<open>\<open>array.map ((landmark, idx) => ...)\<close>.\<close>

definition exportLandmarks :: "landmark list \<Rightarrow> wire_landmark list" where
  "exportLandmarks lms = map (\<lambda>(landmark, idx). exportLandmark landmark idx) (zip lms [0 ..< length lms])"

text \<open>\<open>result.worldLandmarks?.[index]?.map (...) || []\<close>.\<close>

definition exportWorldLandmarks :: "landmark list list option \<Rightarrow> nat \<Rightarrow> wire_landmark list" where
  "exportWorldLandmarks wl index =
     (case wl of
        None \<Rightarrow> []
      | Some ws \<Rightarrow> (case nth_opt ws index of None \<Rightarrow> [] | Some lms \<Rightarrow> exportLandmarks lms))"

definition exportPoses :: "detection \<Rightarrow> landmark list list \<Rightarrow> pose list" where
  "exportPoses result ls =
     map (\<lambda>(lms, index).
            \<lparr>personId = index, landmarks = exportLandmarks lms,
             worldLandmarks = exportWorldLandmarks (det_worldLandmarks result) index\<rparr>)
         (zip ls [0 ..< length ls])"

text \<open>\<open>exportPose (result, timestamp, videoInfo)\<close>: the exporter after the call and what the
  call did to the outside, in order. \<open>postMessage\<close> on a closed channel throws, and the
  \<open>catch\<close> turns that into a console line.\<close>

definition exportPose :: "PoseExporter \<Rightarrow> detection \<Rightarrow> real \<Rightarrow> videoInfo \<Rightarrow> PoseExporter \<times> effect list" where
  "exportPose this result timestamp vi =
     (case det_landmarks result of
        None \<Rightarrow> (this, [])
      | Some ls \<Rightarrow>
          if \<not> pe_enabled this \<or> length ls = 0 then (this, [])
          else
            (let d = \<lparr>pd_timestamp = timestamp, pd_frameCount = pe_frameCount this,
                       pd_poses = Some (exportPoses result ls), pd_videoInfo = vi\<rparr>;
                 viaChannel =
                   (case pe_channel this of
                      None \<Rightarrow> []
                    | Some isClosed \<Rightarrow>
                        if isClosed then [ConsoleError ''PoseExporter: BroadcastChannel error'']
                        else [PostMessage d]);
                 viaSocket =
                   (case pe_websocket this of
                      None \<Rightarrow> []
                    | Some rs \<Rightarrow> if rs = WS_OPEN then [WebSocketSend d] else [])
             in (this\<lparr>pe_frameCount := pe_frameCount this + 1, pe_lastExportTime := timestamp\<rparr>,
                 viaChannel @ viaSocket @ [DispatchEvent d])))"

definition setEnabled :: "PoseExporter \<Rightarrow> bool \<Rightarrow> PoseExporter" where
  "setEnabled this enabled = this\<lparr>pe_enabled := enabled\<rparr>"

text \<open>\<open>destroy ()\<close> closes the channel and the socket and keeps both objects in their fields;
  \<open>close\<close> on a socket that is not yet closed starts the closing handshake.\<close>

definition destroy :: "PoseExporter \<Rightarrow> PoseExporter" where
  "destroy this =
     this\<lparr>pe_channel := map_option (\<lambda>isClosed. True) (pe_channel this),
          pe_websocket :=
            map_option (\<lambda>rs. if rs = WS_CLOSED then WS_CLOSED else WS_CLOSING) (pe_websocket this)\<rparr>"

section \<open>The skeleton viewer of the receiving page (webTest/modelViewer.js)\<close>

text \<open>A bone cylinder: the height of its geometry, its position and its rotation.\<close>

record cylinder =
  cyl_length :: real
  cyl_position :: vec3
  cyl_quaternion :: quat

text \<open>\<open>jointSpheres\<close> is keyed by the indices \<open>0 .. 32\<close> and is modelled as a list; a segment
  is shown exactly when \<open>boneCylinders\<close> holds a cylinder for it.\<close>

record PoseModelViewer =
  mv_jointSpheres :: "joint list"
  mv_boneCylinders :: "cylinder list"
  mv_showSkeleton :: bool
  mv_boneConnections :: "(nat \<times> nat) list"

definition boneConnections :: "(nat \<times> nat) list" where
  "boneConnections =
     [(0, 1), (1, 2), (2, 3), (3, 7),
      (0, 4), (4, 5), (5, 6), (6, 8),
      (9, 10),
      (11, 12),
      (11, 13), (13, 15),
      (12, 14), (14, 16),
      (15, 17), (15, 19), (15, 21),
      (16, 18), (16, 20), (16, 22),
      (11, 23), (12, 24), (23, 24),
      (23, 25), (25, 27),
      (24, 26), (26, 28),
      (27, 29), (27, 31),
      (28, 30), (28, 32)]"

text \<open>The constructor with \<open>createSkeletonStructure\<close>: 33 hidden spheres.\<close>

definition PoseModelViewer_init :: PoseModelViewer where
  "PoseModelViewer_init =
     \<lparr>mv_jointSpheres = replicate 33 \<lparr>joint_position = Vec3 0 0 0, joint_visible = False\<rparr>,
      mv_boneCylinders = [], mv_showSkeleton = True, mv_boneConnections = boneConnections\<rparr>"

text \<open>The body of \<open>landmarks.forEach\<close> in \<open>updateVisualization\<close>; \<open>world\<close> is
  \<open>pose.worldLandmarks.length > 0\<close>.\<close>

definition updateSphere :: "bool \<Rightarrow> wire_landmark \<Rightarrow> joint \<Rightarrow> joint" where
  "updateSphere world landmark sphere =
     (let (x, y, z) =
            (if world then (- lm_x landmark, - lm_y landmark, - lm_z landmark)
             else ((lm_x landmark - 0.5) * 2, - (lm_y landmark - 0.5) * 2, - lm_z landmark))
      in sphere\<lparr>joint_position := Vec3 x (y + 1) z,
                 joint_visible := js_gt (lm_visibility landmark) 0.5\<rparr>)"

text \<open>The loop runs over the landmarks; an index with no sphere is skipped, and a sphere with
  no landmark is not touched.\<close>

fun updateSpheres :: "bool \<Rightarrow> joint list \<Rightarrow> wire_landmark list \<Rightarrow> joint list" where
  "updateSpheres world [] lms = []"
| "updateSpheres world (s # ss) [] = s # ss"
| "updateSpheres world (s # ss) (lm # lms) = updateSphere world lm s # updateSpheres world ss lms"

text \<open>The cylinder of one connection whose two spheres are visible, if the loop creates one.
  \<open>multiplyScalar\<close> halves \<open>direction\<close> in place, so the vector that is normalised afterwards
  is the halved one.\<close>

definition makeCylinder :: "joint \<Rightarrow> joint \<Rightarrow> cylinder option" where
  "makeCylinder startSphere endSphere =
     (let direction = subVectors (joint_position endSphere) (joint_position startSphere);
          len = vlength direction
      in if len > 0.01 then
           (let halved = multiplyScalar direction 0.5
            in Some \<lparr>cyl_length = len,
                     cyl_position = addv (joint_position startSphere) halved,
                     cyl_quaternion = setFromUnitVectors (Vec3 0 1 0) (normalize halved)\<rparr>)
         else None)"

text \<open>One connection of the loop in \<open>updateBones\<close>: an exception, no cylinder, or a
  cylinder.\<close>

definition segmentCylinder :: "joint list \<Rightarrow> nat \<times> nat \<Rightarrow> js_error + cylinder option" where
  "segmentCylinder spheres c =
     (case nth_opt spheres (fst c) of
        None \<Rightarrow> Inl TypeError
      | Some startSphere \<Rightarrow>
          if \<not> joint_visible startSphere then Inr None
          else (case nth_opt spheres (snd c) of
                  None \<Rightarrow> Inl TypeError
                | Some endSphere \<Rightarrow>
                    if \<not> joint_visible endSphere then Inr None
                    else Inr (makeCylinder startSphere endSphere)))"

fun segmentCylinders :: "joint list \<Rightarrow> (nat \<times> nat) list \<Rightarrow> js_error + cylinder list" where
  "segmentCylinders spheres [] = Inr []"
| "segmentCylinders spheres (c # cs) =
     (case segmentCylinder spheres c of
        Inl e \<Rightarrow> Inl e
      | Inr r \<Rightarrow>
          (case segmentCylinders spheres cs of
             Inl e \<Rightarrow> Inl e
           | Inr rs \<Rightarrow> Inr ((case r of None \<Rightarrow> [] | Some cyl \<Rightarrow> [cyl]) @ rs)))"

text \<open>\<open>updateBones ()\<close> of the viewer.\<close>

definition mv_updateBones :: "PoseModelViewer \<Rightarrow> js_error + PoseModelViewer" where
  "mv_updateBones this =
     (if \<not> mv_showSkeleton this then Inr (this\<lparr>mv_boneCylinders := []\<rparr>)
      else (case segmentCylinders (mv_jointSpheres this) (mv_boneConnections this) of
              Inl e \<Rightarrow> Inl e
            | Inr cs \<Rightarrow> Inr (this\<lparr>mv_boneCylinders := cs\<rparr>)))"

text \<open>\<open>updateVisualization (poseData)\<close>.\<close>

definition updateVisualization :: "PoseModelViewer \<Rightarrow> poseData \<Rightarrow> js_error + PoseModelViewer" where
  "updateVisualization this pd =
     (case pd_poses pd of
        None \<Rightarrow> Inr this
      | Some [] \<Rightarrow> Inr this
      | Some (p # ps) \<Rightarrow>
          (let world = (length (worldLandmarks p) > 0);
               lms = (if world then worldLandmarks p else landmarks p)
           in mv_updateBones
                (this\<lparr>mv_jointSpheres := updateSpheres world (mv_jointSpheres this) lms\<rparr>)))"

section \<open>The character viewer (webTest/characterViewer.js)\<close>

subsection \<open>State\<close>

text \<open>An object of a loaded model's scene graph. A loaded scene is the list of its objects in
  the order \<open>traverse\<close> visits them, the root first; bones are referred to by their index in
  that list, so that two roles holding the same object share its rotation.\<close>

record obj =
  obj_name :: string
  obj_position :: vec3
  obj_scale :: vec3
  obj_quaternion :: quat

text \<open>What the loader hands to the success callback: the scene, and the size and centre of
  its bounding box as the library measures them.\<close>

record gltf =
  gltf_scene :: "obj list"
  gltf_size :: vec3
  gltf_center :: vec3

text \<open>\<open>characterModel\<close> is either a group of procedural primitives (its name and position)
  or the very object \<open>loadedGLTFModel\<close> holds.\<close>

datatype characterModel = ProceduralGroup string vec3 | LoadedScene

datatype notice = Log string | Warn string | Error string | Alert string

text \<open>The fields of the viewer that the pose update and the model loading read or write;
  \<open>cv_console\<close> collects the console lines and alerts. Lines of \<open>console.log\<close> that only
  trace progress are left out.\<close>

record CharacterPoseViewer =
  cv_characterModel :: "characterModel option"
  cv_bones :: "string \<rightharpoonup> mesh"
  cv_loadedGLTFModel :: "obj list option"
  cv_gltfBones :: "(string \<times> nat) list"
  cv_modelType :: string
  cv_console :: "notice list"

subsection \<open>The procedural rig\<close>

definition newMesh :: "geometry \<Rightarrow> vec3 \<Rightarrow> mesh" where
  "newMesh g p = \<lparr>mesh_position = p, mesh_scale_y = 1, mesh_quaternion = Quat 0 0 0 1,
                  mesh_visible = True, mesh_geometry = g\<rparr>"

text \<open>\<open>createLimb (name, startPos, bodyMaterial, jointMaterial, length)\<close>: two cylinders of
  height \<open>length\<close> and two spheres.\<close>

definition createLimb :: "(string \<rightharpoonup> mesh) \<Rightarrow> string \<Rightarrow> vec3 \<Rightarrow> real \<Rightarrow> (string \<rightharpoonup> mesh)" where
  "createLimb bones name startPos len =
     bones(name @ ''Upper'' \<mapsto>
             newMesh (CylinderGeometry 0.05 0.05 len)
               (Vec3 (vx startPos) (vy startPos - len / 2) (vz startPos)),
           name @ ''Joint'' \<mapsto>
             newMesh (SphereGeometry 0.06) (Vec3 (vx startPos) (vy startPos - len) (vz startPos)),
           name @ ''Lower'' \<mapsto>
             newMesh (CylinderGeometry 0.045 0.04 len)
               (Vec3 (vx startPos) (vy startPos - len * 1.5) (vz startPos)),
           name @ ''End'' \<mapsto>
             newMesh (SphereGeometry 0.05) (Vec3 (vx startPos) (vy startPos - len * 2) (vz startPos)))"

definition createProceduralCharacter :: "CharacterPoseViewer \<Rightarrow> CharacterPoseViewer" where
  "createProceduralCharacter this =
     (let b0 = (cv_bones this)(''head'' \<mapsto> newMesh (SphereGeometry 0.15) (Vec3 0 1.5 0),
                               ''torso'' \<mapsto> newMesh (BoxGeometry 0.4 0.6 0.25) (Vec3 0 1.1 0),
                               ''hips'' \<mapsto> newMesh (BoxGeometry 0.45 0.2 0.25) (Vec3 0 0.75 0));
          b1 = createLimb b0 ''leftArm'' (Vec3 (- 0.25) 1.3 0) 0.4;
          b2 = createLimb b1 ''rightArm'' (Vec3 0.25 1.3 0) 0.4;
          b3 = createLimb b2 ''leftLeg'' (Vec3 (- 0.15) 0.65 0) 0.5;
          b4 = createLimb b3 ''rightLeg'' (Vec3 0.15 0.65 0) 0.5
      in this\<lparr>cv_characterModel := Some (ProceduralGroup ''character'' (Vec3 0 0 0)),
              cv_bones := b4\<rparr>)"




text \<open>The constructor: the fields, then \<open>createProceduralCharacter\<close>.\<close>

definition CharacterPoseViewer_init :: CharacterPoseViewer where
  "CharacterPoseViewer_init =
     createProceduralCharacter
       \<lparr>cv_characterModel = None, cv_bones = Map.empty, cv_loadedGLTFModel = None,
        cv_gltfBones = [], cv_modelType = ''humanoid'', cv_console = []\<rparr>"

subsection \<open>Matching the bones of a loaded model\<close>

definition commonBoneNames :: "(string \<times> string list) list" where
  "commonBoneNames =
     [(''head'', [''head'', ''Head'', ''HEAD'', ''neck'', ''Neck'', ''cranium'', ''mixamorigHead'',
                  ''mixamorigNeck'']),
      (''spine'', [''spine'', ''Spine'', ''SPINE'', ''torso'', ''Torso'', ''chest'', ''Chest'', ''back'',
                   ''mixamorigSpine'', ''mixamorigSpine1'', ''mixamorigSpine2'']),
      (''hips'', [''hips'', ''Hips'', ''HIPS'', ''pelvis'', ''Pelvis'', ''root'', ''mixamorigHips'']),
      (''leftShoulder'', [''LeftShoulder'', ''L_Shoulder'', ''shoulder.L'', ''LeftArm'', ''shoulder_L'',
                          ''upperarm_l'', ''mixamorigLeftShoulder'', ''mixamorigLeftArm'']),
      (''rightShoulder'', [''RightShoulder'', ''R_Shoulder'', ''shoulder.R'', ''RightArm'',
                           ''shoulder_R'', ''upperarm_r'', ''mixamorigRightShoulder'',
                           ''mixamorigRightArm'']),
      (''leftElbow'', [''LeftElbow'', ''L_Elbow'', ''elbow.L'', ''LeftForeArm'', ''forearm_l'',
                       ''lowerarm_l'', ''mixamorigLeftForeArm'']),
      (''rightElbow'', [''RightElbow'', ''R_Elbow'', ''elbow.R'', ''RightForeArm'', ''forearm_r'',
                        ''lowerarm_r'', ''mixamorigRightForeArm'']),
      (''leftWrist'', [''LeftHand'', ''L_Hand'', ''hand.L'', ''LeftWrist'', ''hand_l'',
                       ''mixamorigLeftHand'']),
      (''rightWrist'', [''RightHand'', ''R_Hand'', ''hand.R'', ''RightWrist'', ''hand_r'',
                        ''mixamorigRightHand'']),
      (''leftHip'', [''LeftHip'', ''L_Hip'', ''hip.L'', ''LeftUpLeg'', ''thigh_l'', ''upperleg_l'',
                     ''mixamorigLeftUpLeg'']),
      (''rightHip'', [''RightHip'', ''R_Hip'', ''hip.R'', ''RightUpLeg'', ''thigh_r'', ''upperleg_r'',
                      ''mixamorigRightUpLeg'']),
      (''leftKnee'', [''LeftKnee'', ''L_Knee'', ''knee.L'', ''LeftLeg'', ''shin_l'', ''lowerleg_l'',
                      ''calf_l'', ''mixamorigLeftLeg'']),
      (''rightKnee'', [''RightKnee'', ''R_Knee'', ''knee.R'', ''RightLeg'', ''shin_r'', ''lowerleg_r'',
                       ''calf_r'', ''mixamorigRightLeg'']),
      (''leftAnkle'', [''LeftAnkle'', ''L_Ankle'', ''ankle.L'', ''LeftFoot'', ''foot_l'',
                       ''mixamorigLeftFoot'']),
      (''rightAnkle'', [''RightAnkle'', ''R_Ankle'', ''ankle.R'', ''RightFoot'', ''foot_r'',
                        ''mixamorigRightFoot''])]"

text \<open>\<open>toLowerCase\<close> on the ASCII letters; names outside ASCII are outside the model.\<close>

definition lower_char :: "char \<Rightarrow> char" where
  "lower_char c =
     (case map_of (zip ''ABCDEFGHIJKLMNOPQRSTUVWXYZ'' ''abcdefghijklmnopqrstuvwxyz'') c of
        None \<Rightarrow> c
      | Some l \<Rightarrow> l)"

definition toLowerCase :: "string \<Rightarrow> string" where
  "toLowerCase s = map lower_char s"

text \<open>\<open>s.includes (a)\<close>: \<open>a\<close> occurs in \<open>s\<close> as a contiguous substring.\<close>

fun js_includes :: "string \<Rightarrow> string \<Rightarrow> bool" where
  "js_includes [] a = (a = [])"
| "js_includes (c # cs) a = (prefix a (c # cs) \<or> js_includes cs a)"

text \<open>The inner loop over the aliases of one role, for the object with index \<open>ob\<close> and name
  \<open>name\<close>: the first alias the name contains ends the loop, and the object is stored only if the
  role has none yet.\<close>

fun tryAliases :: "(string \<times> nat) list \<Rightarrow> string \<Rightarrow> nat \<Rightarrow> string \<Rightarrow> string list \<Rightarrow> (string \<times> nat) list" where
  "tryAliases gb key ob name [] = gb"
| "tryAliases gb key ob name (alias # aliases) =
     (if js_includes (toLowerCase name) (toLowerCase alias)
      then (if map_of gb key = None then gb @ [(key, ob)] else gb)
      else tryAliases gb key ob name aliases)"

text \<open>The loop over the roles of the alias table, for one object.\<close>

fun tryRoles :: "(string \<times> nat) list \<Rightarrow> nat \<Rightarrow> string \<Rightarrow> (string \<times> string list) list \<Rightarrow> (string \<times> nat) list" where
  "tryRoles gb ob name [] = gb"
| "tryRoles gb ob name ((key, aliases) # table) =
     tryRoles (tryAliases gb key ob name aliases) ob name table"

text \<open>The traversal of the scene: every object is an \<open>Object3D\<close>, so the test
  \<open>isBone || isObject3D\<close> holds for each. \<open>i\<close> is the index of the first object of the
  list.\<close>

fun traverseBones :: "(string \<times> string list) list \<Rightarrow> (string \<times> nat) list \<Rightarrow> nat \<Rightarrow> obj list \<Rightarrow> (string \<times> nat) list" where
  "traverseBones table gb i [] = gb"
| "traverseBones table gb i (ob # obs) =
     traverseBones table (tryRoles gb i (obj_name ob) table) (Suc i) obs"

definition findGLTFBones :: "CharacterPoseViewer \<Rightarrow> gltf \<Rightarrow> CharacterPoseViewer" where
  "findGLTFBones this g =
     (let gb = traverseBones commonBoneNames [] 0 (gltf_scene g);
          this1 = this\<lparr>cv_gltfBones := gb\<rparr>
      in if length gb = 0
         then this1\<lparr>cv_console := cv_console this1 @
                [Log ''No bones found by name matching. Checking for SkinnedMesh...'']\<rparr>
         else this1)"

subsection \<open>Loading a model\<close>

datatype load_outcome = Loaded gltf | LoadFailed

text \<open>The start of \<open>loadGLTFModel\<close>: the old model leaves the scene and both bone tables are
  emptied.\<close>

definition removeOldModel :: "CharacterPoseViewer \<Rightarrow> CharacterPoseViewer" where
  "removeOldModel this =
     (if cv_characterModel this \<noteq> None
      then this\<lparr>cv_bones := Map.empty, cv_gltfBones := []\<rparr> else this)"

text \<open>The success callback. The root of the scene is scaled to a height of about two units
  and centred; a bounding box of size zero is outside the model (the script divides by it).\<close>

definition onLoad :: "CharacterPoseViewer \<Rightarrow> gltf \<Rightarrow> CharacterPoseViewer" where
  "onLoad this g =
     (let size = gltf_size g;
          maxDim = max (max (vx size) (vy size)) (vz size);
          scale = 2 / maxDim;
          center = gltf_center g;
          place = (\<lambda>r. r\<lparr>obj_scale := Vec3 scale scale scale,
                              obj_position := Vec3 (- vx center * scale) 0 (- vz center * scale)\<rparr>);
          scene = (case gltf_scene g of [] \<Rightarrow> [] | r # rest \<Rightarrow> place r # rest);
          this1 = this\<lparr>cv_modelType := ''custom'', cv_loadedGLTFModel := Some scene,
                       cv_characterModel := Some LoadedScene\<rparr>
      in findGLTFBones this1 (g\<lparr>gltf_scene := scene\<rparr>))"

text \<open>The error callback: an alert, two console errors, and the procedural humanoid as the
  fallback.\<close>

definition onError :: "CharacterPoseViewer \<Rightarrow> CharacterPoseViewer" where
  "onError this =
     createProceduralCharacter
       (this\<lparr>cv_console := cv_console this @
          [Error ''Error loading GLTF model:'', Alert ''Failed to load'', Error ''Full error:'']\<rparr>)"

text \<open>\<open>loadGLTFModel\<close> with the outcome of the asynchronous load.\<close>

definition loadGLTFModel :: "CharacterPoseViewer \<Rightarrow> load_outcome \<Rightarrow> CharacterPoseViewer" where
  "loadGLTFModel this outcome =
     (case outcome of
        Loaded g \<Rightarrow> onLoad (removeOldModel this) g
      | LoadFailed \<Rightarrow> onError (removeOldModel this))"

subsection \<open>Driving the rig from a pose\<close>

text \<open>\<open>getPos\<close>, the same helper in \<open>updateCharacterFromPose\<close> and in
  \<open>updateGLTFModelFromPose\<close>; \<open>world\<close> is \<open>pose.worldLandmarks.length > 0\<close>. It is
  called only for indices below 33, after the length test of the caller.\<close>

definition getPos :: "bool \<Rightarrow> wire_landmark list \<Rightarrow> nat \<Rightarrow> vec3" where
  "getPos world lms index =
     (let lm = lms ! index
      in if world then Vec3 (- lm_x lm) (- lm_y lm + 1.5) (- lm_z lm)
         else Vec3 ((lm_x lm - 0.5) * 2) (- (lm_y lm - 0.5) * 2 + 1.5) (- lm_z lm * 2))"

definition NOSE :: nat where "NOSE = 0"
definition LEFT_SHOULDER :: nat where "LEFT_SHOULDER = 11"
definition RIGHT_SHOULDER :: nat where "RIGHT_SHOULDER = 12"
definition LEFT_ELBOW :: nat where "LEFT_ELBOW = 13"
definition RIGHT_ELBOW :: nat where "RIGHT_ELBOW = 14"
definition LEFT_WRIST :: nat where "LEFT_WRIST = 15"
definition RIGHT_WRIST :: nat where "RIGHT_WRIST = 16"
definition LEFT_HIP :: nat where "LEFT_HIP = 23"
definition RIGHT_HIP :: nat where "RIGHT_HIP = 24"
definition LEFT_KNEE :: nat where "LEFT_KNEE = 25"
definition RIGHT_KNEE :: nat where "RIGHT_KNEE = 26"
definition LEFT_ANKLE :: nat where "LEFT_ANKLE = 27"
definition RIGHT_ANKLE :: nat where "RIGHT_ANKLE = 28"

text \<open>A write to a part of the procedural rig that is guarded by \<open>if (this.bones[key])\<close>.\<close>

definition withBone :: "(string \<rightharpoonup> mesh) \<Rightarrow> string \<Rightarrow> (mesh \<Rightarrow> mesh) \<Rightarrow> (string \<rightharpoonup> mesh)" where
  "withBone bones key f = (case bones key of None \<Rightarrow> bones | Some m \<Rightarrow> bones(key \<mapsto> f m))"

text \<open>\<open>updateLimb (name, startIdx, midIdx, endIdx, getPos)\<close>.\<close>

definition updateLimb :: "(string \<rightharpoonup> mesh) \<Rightarrow> string \<Rightarrow> nat \<Rightarrow> nat \<Rightarrow> nat \<Rightarrow> (nat \<Rightarrow> vec3) \<Rightarrow> (string \<rightharpoonup> mesh)" where
  "updateLimb bones name startIdx midIdx endIdx gp =
     (let start = gp startIdx;
          mid = gp midIdx;
          endp = gp endIdx;
          b1 = withBone bones (name @ ''Upper'')
                 (\<lambda>m. m\<lparr>mesh_position := lerp start mid 0.5,
                         mesh_quaternion :=
                           setFromUnitVectors (Vec3 0 (- 1) 0) (normalize (subVectors mid start)),
                         mesh_scale_y := distanceTo start mid / 0.4\<rparr>);
          b2 = withBone b1 (name @ ''Joint'') (\<lambda>m. m\<lparr>mesh_position := mid\<rparr>);
          b3 = withBone b2 (name @ ''Lower'')
                 (\<lambda>m. m\<lparr>mesh_position := lerp mid endp 0.5,
                         mesh_quaternion :=
                           setFromUnitVectors (Vec3 0 (- 1) 0) (normalize (subVectors endp mid)),
                         mesh_scale_y := distanceTo mid endp / 0.4\<rparr>)
      in withBone b3 (name @ ''End'') (\<lambda>m. m\<lparr>mesh_position := endp\<rparr>))"

text \<open>The head, torso and hips blocks of the procedural branch of
  \<open>updateCharacterFromPose\<close>. In the torso block \<open>shoulderCenter.lerp (hipCenter, 0.5)\<close>
  changes \<open>shoulderCenter\<close> in place, so the direction is taken from the torso's position to the
  hip centre.\<close>

definition rigBase :: "(string \<rightharpoonup> mesh) \<Rightarrow> wire_landmark list \<Rightarrow> (nat \<Rightarrow> vec3) \<Rightarrow> (string \<rightharpoonup> mesh)" where
  "rigBase bones lms gp =
     (let b1 = (if js_gt (lm_visibility (lms ! NOSE)) 0.5
                then withBone bones ''head'' (\<lambda>m. m\<lparr>mesh_position := gp NOSE\<rparr>)
                else bones);
          b2 = withBone b1 ''torso''
                 (\<lambda>m. let shoulderCenter = lerp (gp LEFT_SHOULDER) (gp RIGHT_SHOULDER) 0.5;
                           hipCenter = lerp (gp LEFT_HIP) (gp RIGHT_HIP) 0.5;
                           torsoPos = lerp shoulderCenter hipCenter 0.5;
                           torsoDir = normalize (subVectors torsoPos hipCenter)
                       in m\<lparr>mesh_position := torsoPos,
                            mesh_quaternion := setFromUnitVectors (Vec3 0 1 0) torsoDir\<rparr>)
      in withBone b2 ''hips''
                 (\<lambda>m. m\<lparr>mesh_position := lerp (gp LEFT_HIP) (gp RIGHT_HIP) 0.5\<rparr>))"

text \<open>The procedural branch of \<open>updateCharacterFromPose\<close>: those three blocks, then the four
  limbs.\<close>

definition updateProceduralRig :: "(string \<rightharpoonup> mesh) \<Rightarrow> wire_landmark list \<Rightarrow> (nat \<Rightarrow> vec3) \<Rightarrow> (string \<rightharpoonup> mesh)" where
  "updateProceduralRig bones lms gp =
     (let b3 = rigBase bones lms gp;
          b4 = updateLimb b3 ''leftArm'' LEFT_SHOULDER LEFT_ELBOW LEFT_WRIST gp;
          b5 = updateLimb b4 ''rightArm'' RIGHT_SHOULDER RIGHT_ELBOW RIGHT_WRIST gp;
          b6 = updateLimb b5 ''leftLeg'' LEFT_HIP LEFT_KNEE LEFT_ANKLE gp
      in updateLimb b6 ''rightLeg'' RIGHT_HIP RIGHT_KNEE RIGHT_ANKLE gp)"

text \<open>\<open>characterModel.position.copy (p)\<close>, guarded by \<open>if (this.characterModel)\<close>.\<close>

definition setModelPosition :: "CharacterPoseViewer \<Rightarrow> vec3 \<Rightarrow> CharacterPoseViewer" where
  "setModelPosition this p =
     (case cv_characterModel this of
        None \<Rightarrow> this
      | Some (ProceduralGroup n q) \<Rightarrow> this\<lparr>cv_characterModel := Some (ProceduralGroup n p)\<rparr>
      | Some LoadedScene \<Rightarrow>
          (case cv_loadedGLTFModel this of
             Some (r # rest) \<Rightarrow> this\<lparr>cv_loadedGLTFModel := Some (r\<lparr>obj_position := p\<rparr> # rest)\<rparr>
           | _ \<Rightarrow> this))"

text \<open>\<open>setLimbRotation (bone, startPos, endPos)\<close> on the objects of the loaded scene;
  \<open>bone\<close> is the index the role holds, if it holds one.\<close>

definition setLimbRotation :: "obj list \<Rightarrow> nat option \<Rightarrow> vec3 \<Rightarrow> vec3 \<Rightarrow> obj list" where
  "setLimbRotation objs bone startPos endPos =
     (case bone of
        None \<Rightarrow> objs
      | Some i \<Rightarrow>
          (let direction = subVectors endPos startPos;
               len = vlength direction
           in if len > 0.01
              then objs[i := (objs ! i)\<lparr>obj_quaternion :=
                     setFromUnitVectors (Vec3 0 1 0) (normalize direction)\<rparr>]
              else objs))"

text \<open>The rotations of the rigged branch, in the order of the source.\<close>

definition rotateGLTFBones :: "(string \<times> nat) list \<Rightarrow> (nat \<Rightarrow> vec3) \<Rightarrow> obj list \<Rightarrow> obj list" where
  "rotateGLTFBones gb gp objs =
     (let hipCenter = lerp (gp LEFT_HIP) (gp RIGHT_HIP) 0.5;
          shoulderCenter = lerp (gp LEFT_SHOULDER) (gp RIGHT_SHOULDER) 0.5;
          o1 = setLimbRotation objs (map_of gb ''head'') shoulderCenter (gp NOSE);
          o2 = setLimbRotation o1 (map_of gb ''spine'') hipCenter shoulderCenter;
          o3 = setLimbRotation o2 (map_of gb ''leftShoulder'') (gp LEFT_SHOULDER) (gp LEFT_ELBOW);
          o4 = setLimbRotation o3 (map_of gb ''leftElbow'') (gp LEFT_ELBOW) (gp LEFT_WRIST);
          o5 = setLimbRotation o4 (map_of gb ''rightShoulder'') (gp RIGHT_SHOULDER) (gp RIGHT_ELBOW);
          o6 = setLimbRotation o5 (map_of gb ''rightElbow'') (gp RIGHT_ELBOW) (gp RIGHT_WRIST);
          o7 = setLimbRotation o6 (map_of gb ''leftHip'') (gp LEFT_HIP) (gp LEFT_KNEE);
          o8 = setLimbRotation o7 (map_of gb ''leftKnee'') (gp LEFT_KNEE) (gp LEFT_ANKLE);
          o9 = setLimbRotation o8 (map_of gb ''rightHip'') (gp RIGHT_HIP) (gp RIGHT_KNEE)
      in setLimbRotation o9 (map_of gb ''rightKnee'') (gp RIGHT_KNEE) (gp RIGHT_ANKLE))"

text \<open>\<open>updateGLTFModelFromPose (landmarks, useWorldCoords)\<close>: the whole model follows the
  hip centre; the bones are rotated if any was matched, and a warning is printed otherwise.\<close>

definition updateGLTFModelFromPose :: "CharacterPoseViewer \<Rightarrow> wire_landmark list \<Rightarrow> bool \<Rightarrow> CharacterPoseViewer" where
  "updateGLTFModelFromPose this lms useWorldCoords =
     (let gp = getPos useWorldCoords lms;
          hipCenter = lerp (gp LEFT_HIP) (gp RIGHT_HIP) 0.5;
          this1 = setModelPosition this (Vec3 (vx hipCenter) (vy hipCenter - 1.0) (vz hipCenter))
      in if length (cv_gltfBones this1) > 0
         then this1\<lparr>cv_console := cv_console this1 @ [Log ''Updating bones with pose data''],
                    cv_loadedGLTFModel :=
                      map_option (rotateGLTFBones (cv_gltfBones this1) gp) (cv_loadedGLTFModel this1)\<rparr>
         else this1\<lparr>cv_console := cv_console this1 @
                [Warn ''No bones found - model may not be rigged or bone names don't match'']\<rparr>)"

text \<open>\<open>updateCharacterFromPose (poseData)\<close>.\<close>

definition updateCharacterFromPose :: "CharacterPoseViewer \<Rightarrow> poseData \<Rightarrow> CharacterPoseViewer" where
  "updateCharacterFromPose this pd =
     (case pd_poses pd of
        None \<Rightarrow> this
      | Some [] \<Rightarrow> this
      | Some (p # ps) \<Rightarrow>
          (let world = (length (worldLandmarks p) > 0);
               lms = (if world then worldLandmarks p else landmarks p)
           in if length lms < 33 then this
              else if cv_modelType this = ''custom'' \<and> cv_loadedGLTFModel this \<noteq> None
              then updateGLTFModelFromPose this lms world
              else this\<lparr>cv_bones := updateProceduralRig (cv_bones this) lms (getPos world lms)\<rparr>))"

section \<open>Vocabulary of the properties\<close>

text \<open>The frames a list of effects carries to the transports and listeners.\<close>

definition frames_of :: "effect list \<Rightarrow> poseData list" where
  "frames_of effs =
     concat (map (\<lambda>e. case e of
                       PostMessage d \<Rightarrow> [d]
                     | WebSocketSend d \<Rightarrow> [d]
                     | DispatchEvent d \<Rightarrow> [d]
                     | ConsoleError m \<Rightarrow> []) effs)"

text \<open>The visibility a published landmark is to carry: the upstream value when that is a number
  other than zero, and 1.0 when it is absent, zero or not a number.\<close>

definition publishedVisibility :: "jsnum \<Rightarrow> jsnum" where
  "publishedVisibility v =
     (case v of
        Num r \<Rightarrow> if r = 0 then Num 1 else Num r
      | Undefined \<Rightarrow> Num 1
      | NaN \<Rightarrow> Num 1)"

text \<open>The landmark list a receiver works on: the world landmarks when the pose has any, the
  normalised ones otherwise.\<close>

definition selectedLandmarks :: "pose \<Rightarrow> wire_landmark list" where
  "selectedLandmarks p = (if length (worldLandmarks p) > 0 then worldLandmarks p else landmarks p)"

text \<open>A name contains one of the aliases, case-insensitively; a bone matches a role of the
  alias table when its name contains one of the role's aliases.\<close>

definition nameMatches :: "string \<Rightarrow> string list \<Rightarrow> bool" where
  "nameMatches name aliases =
     list_ex (\<lambda>alias. js_includes (toLowerCase name) (toLowerCase alias)) aliases"

definition roleMatches :: "string \<Rightarrow> obj \<Rightarrow> bool" where
  "roleMatches role ob =
     (case map_of commonBoneNames role of
        None \<Rightarrow> False
      | Some aliases \<Rightarrow> nameMatches (obj_name ob) aliases)"

text \<open>The index of the first element of a list that satisfies a predicate, counted from
  \<open>i\<close>.\<close>

fun firstIndex :: "('a \<Rightarrow> bool) \<Rightarrow> nat \<Rightarrow> 'a list \<Rightarrow> nat option" where
  "firstIndex P i [] = None"
| "firstIndex P i (x # xs) = (if P x then Some i else firstIndex P (Suc i) xs)"

definition unriggedWarning :: notice where
  "unriggedWarning = Warn ''No bones found - model may not be rigged or bone names don't match''"

text \<open>A landmark moved by a fixed vector; its confidence stays.\<close>

definition translate :: "vec3 \<Rightarrow> landmark \<Rightarrow> landmark" where
  "translate t l = l\<lparr>lm_x := lm_x l + vx t, lm_y := lm_y l + vy t, lm_z := lm_z l + vz t\<rparr>"

text \<open>What the skeleton renderer puts out for a segment: orientation, scale and visibility;
  and the outputs of all segments after a call of \<open>updatePose\<close>.\<close>

definition segmentOutput :: "bone \<Rightarrow> quat \<times> real \<times> bool" where
  "segmentOutput b =
     (mesh_quaternion (bone_mesh b), mesh_scale_y (bone_mesh b), mesh_visible (bone_mesh b))"

definition segmentOutputs :: "js_error + SkeletonRenderer \<Rightarrow> js_error + (quat \<times> real \<times> bool) list" where
  "segmentOutputs r =
     (case r of Inl e \<Rightarrow> Inl e | Inr this \<Rightarrow> Inr (map segmentOutput (sr_bones this)))"

text \<open>Two joints that are equally visible and, when visible, lie apart by the vector \<open>d\<close>;
  and the vector by which a translation of the landmarks moves the joints.\<close>

definition shifted :: "vec3 \<Rightarrow> joint \<Rightarrow> joint \<Rightarrow> bool" where
  "shifted d j1 j2 \<longleftrightarrow>
     joint_visible j2 = joint_visible j1 \<and>
     (joint_visible j1 \<longrightarrow> joint_position j2 = addv (joint_position j1) d)"

definition jointShift :: "SkeletonRenderer \<Rightarrow> vec3 \<Rightarrow> vec3" where
  "jointShift this t =
     Vec3 (2 * vx t * sr_scale this) (- 2 * vy t * sr_scale this) (- 2 * vz t * sr_scale this)"

text \<open>A renderer as \<open>createSkeleton\<close> leaves it: 33 joints, and bones between joints that
  exist.\<close>

definition sr_wf :: "SkeletonRenderer \<Rightarrow> bool" where
  "sr_wf this \<longleftrightarrow>
     length (sr_joints this) = 33 \<and>
     list_all (\<lambda>b. bone_start b < 33 \<and> bone_end b < 33) (sr_bones this)"

text \<open>The mesh of bone \<open>k\<close> and joint \<open>i\<close> after a call of \<open>updatePose\<close>; \<open>None\<close> if the
  call threw or there is no such bone or joint.\<close>

definition sr_mesh :: "js_error + SkeletonRenderer \<Rightarrow> nat \<Rightarrow> mesh option" where
  "sr_mesh r k =
     (case r of Inl e \<Rightarrow> None | Inr this \<Rightarrow> map_option bone_mesh (nth_opt (sr_bones this) k))"

definition sr_joint :: "js_error + SkeletonRenderer \<Rightarrow> nat \<Rightarrow> joint option" where
  "sr_joint r i = (case r of Inl e \<Rightarrow> None | Inr this \<Rightarrow> nth_opt (sr_joints this) i)"

text \<open>The conversion of a normalised landmark with depth scale 2, as the spec writes it; the
  place of a landmark in the skeleton renderer's rig (centred, then scaled); and the length of
  the segment between two landmarks there.\<close>

definition centred :: "landmark \<Rightarrow> vec3" where
  "centred lm = Vec3 ((lm_x lm - 0.5) * 2) (- (lm_y lm - 0.5) * 2) (- lm_z lm * 2)"

definition jointPosition :: "SkeletonRenderer \<Rightarrow> landmark \<Rightarrow> vec3" where
  "jointPosition this lm = multiplyScalar (centred lm) (sr_scale this)"

definition segmentLength :: "SkeletonRenderer \<Rightarrow> landmark \<Rightarrow> landmark \<Rightarrow> real" where
  "segmentLength this a b = distanceTo (jointPosition this b) (jointPosition this a)"

text \<open>With rounding: the place the skeleton renderer computes for a landmark, and the length
  it computes for the segment from the joint at \<open>a\<close> to the joint at \<open>b\<close>.\<close>

definition jointPositionR :: "(real \<Rightarrow> real) \<Rightarrow> SkeletonRenderer \<Rightarrow> landmark \<Rightarrow> vec3" where
  "jointPositionR rnd this lm =
     Vec3 (rnd (rnd (rnd (lm_x lm - 0.5) * 2) * sr_scale this))
          (rnd (rnd (rnd (0.5 - lm_y lm) * 2) * sr_scale this))
          (rnd (rnd (- lm_z lm * 2) * sr_scale this))"

definition measuredLength :: "(real \<Rightarrow> real) \<Rightarrow> vec3 \<Rightarrow> vec3 \<Rightarrow> real" where
  "measuredLength rnd a b =
     (let dx = rnd (vx b - vx a);
          dy = rnd (vy b - vy a);
          dz = rnd (vz b - vz a)
      in rnd (sqrt (rnd (rnd (rnd (dx * dx) + rnd (dy * dy)) + rnd (dz * dz)))))"

text \<open>The joints \<open>updatePose\<close> computes from a frame, with rounding.\<close>

definition jointsOf :: "(real \<Rightarrow> real) \<Rightarrow> SkeletonRenderer \<Rightarrow> landmark list \<Rightarrow> joint list" where
  "jointsOf rnd this lms = updateJointsR rnd this (sr_joints this) lms"

text \<open>A frame whose landmarks are centred and scaled without any rounding error: the computed
  place of every landmark is the exact one.\<close>

definition exactConversion :: "(real \<Rightarrow> real) \<Rightarrow> SkeletonRenderer \<Rightarrow> landmark list \<Rightarrow> bool" where
  "exactConversion rnd this lms =
     list_all (\<lambda>lm. jointPositionR rnd this lm = jointPosition this lm) lms"


text \<open>A skeleton viewer as its constructor leaves it: 33 spheres, and connections between
  spheres that exist.\<close>

definition mv_wf :: "PoseModelViewer \<Rightarrow> bool" where
  "mv_wf this \<longleftrightarrow>
     length (mv_jointSpheres this) = 33 \<and>
     list_all (\<lambda>c. fst c < 33 \<and> snd c < 33) (mv_boneConnections this)"

text \<open>The cylinder \<open>updateBones\<close> draws for a connection in the viewer's present state, if it
  draws one; and the place the viewer gives a landmark.\<close>

definition mv_segment :: "PoseModelViewer \<Rightarrow> nat \<times> nat \<Rightarrow> cylinder option" where
  "mv_segment this c =
     (if mv_showSkeleton this
      then (case segmentCylinder (mv_jointSpheres this) c of Inl e \<Rightarrow> None | Inr r \<Rightarrow> r)
      else None)"

definition viewerPosition :: "bool \<Rightarrow> wire_landmark \<Rightarrow> vec3" where
  "viewerPosition world lm =
     (if world then Vec3 (- lm_x lm) (- lm_y lm + 1) (- lm_z lm)
      else Vec3 ((lm_x lm - 0.5) * 2) (- (lm_y lm - 0.5) * 2 + 1) (- lm_z lm))"

text \<open>A character viewer that drives its procedural rig.\<close>

definition procedural :: "CharacterPoseViewer \<Rightarrow> bool" where
  "procedural viewer \<longleftrightarrow>
     \<not> (cv_modelType viewer = ''custom'' \<and> cv_loadedGLTFModel viewer \<noteq> None)"






text \<open>A viewer that shows a loaded model none of whose objects holds a bone role.\<close>

definition unrigged :: "CharacterPoseViewer \<Rightarrow> bool" where
  "unrigged viewer \<longleftrightarrow>
     cv_modelType viewer = ''custom'' \<and> cv_characterModel viewer = Some LoadedScene \<and>
     cv_loadedGLTFModel viewer \<noteq> None \<and> cv_gltfBones viewer = []"

text \<open>A frame that passes the guards of \<open>updateCharacterFromPose\<close>: it has a pose, and the
  selected landmark list of the first pose has at least 33 entries.\<close>

definition fullFrame :: "poseData \<Rightarrow> bool" where
  "fullFrame pd =
     (case pd_poses pd of
        None \<Rightarrow> False
      | Some [] \<Rightarrow> False
      | Some (p # ps) \<Rightarrow> 33 \<le> length (selectedLandmarks p))"

text \<open>The centre of the hips of a frame's first pose as \<open>getPos\<close> places it, lowered by 1;
  and a scene whose root object has been moved.\<close>

definition loweredHipCentre :: "pose \<Rightarrow> vec3" where
  "loweredHipCentre p =
     (let world = (0 < length (worldLandmarks p));
          c = lerp (getPos world (selectedLandmarks p) LEFT_HIP)
                   (getPos world (selectedLandmarks p) RIGHT_HIP) 0.5
      in Vec3 (vx c) (vy c - 1) (vz c))"

definition moveRoot :: "vec3 \<Rightarrow> obj list \<Rightarrow> obj list" where
  "moveRoot p objs = (case objs of [] \<Rightarrow> [] | r # rest \<Rightarrow> r\<lparr>obj_position := p\<rparr> # rest)"

section \<open>Example inputs\<close>

definition wireLandmark :: "real \<Rightarrow> real \<Rightarrow> real \<Rightarrow> jsnum \<Rightarrow> wire_landmark" where
  "wireLandmark x y z v =
     \<lparr>lm_x = x, lm_y = y, lm_z = z, lm_visibility = v, lm_id = 0, lm_name = []\<rparr>"

text \<open>A received frame with one person.\<close>

definition frameOf :: "wire_landmark list \<Rightarrow> wire_landmark list \<Rightarrow> poseData" where
  "frameOf lms wlms =
     \<lparr>pd_timestamp = 0, pd_frameCount = 0,
      pd_poses = Some [\<lparr>personId = 0, landmarks = lms, worldLandmarks = wlms\<rparr>],
      pd_videoInfo = \<lparr>vi_width = Undefined, vi_height = Undefined\<rparr>\<rparr>"

text \<open>A camera frame of 33 fully confident landmarks, all at the centre of the image but the
  right shoulder (index 12), which sits at the right edge.\<close>

definition demoLandmark :: "nat \<Rightarrow> landmark" where
  "demoLandmark i =
     \<lparr>lm_x = (if i = 12 then 1 else 0.5), lm_y = 0.5, lm_z = 0, lm_visibility = Num 1\<rparr>"

definition demoFrame :: "landmark list" where
  "demoFrame = map demoLandmark [0 ..< 33]"

definition namedObj :: "string \<Rightarrow> obj" where
  "namedObj n =
     \<lparr>obj_name = n, obj_position = Vec3 0 0 0, obj_scale = Vec3 1 1 1,
      obj_quaternion = Quat 0 0 0 1\<rparr>"

text \<open>A model without a skeleton, and a rigged one.\<close>

definition cubeModel :: gltf where
  "cubeModel =
     \<lparr>gltf_scene = [namedObj ''Scene'', namedObj ''Cube''],
      gltf_size = Vec3 1 1 1, gltf_center = Vec3 0 0 0\<rparr>"

definition riggedModel :: gltf where
  "riggedModel =
     \<lparr>gltf_scene = [namedObj ''Armature'', namedObj ''mixamorigNeck'', namedObj ''mixamorigHead''],
      gltf_size = Vec3 1 2 1, gltf_center = Vec3 0 1 0\<rparr>"

text \<open>A detection of one person with two landmarks: one of confidence zero, one without a
  confidence.\<close>

definition demoDetection :: detection where
  "demoDetection =
     \<lparr>det_landmarks = Some [[\<lparr>lm_x = 0.5, lm_y = 0.5, lm_z = 0, lm_visibility = Num 0\<rparr>,
                              \<lparr>lm_x = 0.25, lm_y = 0.5, lm_z = 0, lm_visibility = Undefined\<rparr>]],
      det_worldLandmarks = None\<rparr>"

definition demoExporter :: PoseExporter where
  "demoExporter =
     \<lparr>pe_channel = Some False, pe_websocket = Some WS_CONNECTING, pe_enabled = True,
      pe_frameCount = 0, pe_lastExportTime = 0\<rparr>"

text \<open>A frame of world landmarks, all at the origin but the right shoulder, which lies 0.01 to
  the side.\<close>

definition boundaryLandmark :: "nat \<Rightarrow> wire_landmark" where
  "boundaryLandmark i = wireLandmark (if i = 12 then - 0.01 else 0) 0 0 (Num 1)"

definition boundaryFrame :: poseData where
  "boundaryFrame = frameOf [] (map boundaryLandmark [0 ..< 33])"

text \<open>A camera frame of 33 fully confident landmarks at \<open>(1/8, 1/2, 0)\<close>, of which the right
  shoulder (index 12) lies \<open>2 ^ - 54\<close> to the right; all coordinates are binary64 values, and
  so are those of the frame moved by \<open>2 ^ - 55\<close> along \<open>x\<close>.\<close>

definition closeLandmark :: "nat \<Rightarrow> landmark" where
  "closeLandmark i =
     \<lparr>lm_x = (if i = 12 then 1 / 8 + 1 / 2 ^ 54 else 1 / 8), lm_y = 1 / 2, lm_z = 0,
      lm_visibility = Num 1\<rparr>"

definition closeFrame :: "landmark list" where
  "closeFrame = map closeLandmark [0 ..< 33]"



section \<open>Properties of the pose exporter\<close>

lemma nth_exportLandmarks:
  "k < length lms \<Longrightarrow> exportLandmarks lms ! k = exportLandmark (lms ! k) k"
  by (simp add: exportLandmarks_def)

lemma nth_exportPoses:
  "i < length ls \<Longrightarrow> exportPoses result ls ! i =
     \<lparr>personId = i, landmarks = exportLandmarks (ls ! i),
      worldLandmarks = exportWorldLandmarks (det_worldLandmarks result) i\<rparr>"
  by (simp add: exportPoses_def)

lemma exportLandmark_visibility:
  "lm_visibility (exportLandmark l k) = publishedVisibility (lm_visibility l)"
  by (simp add: exportLandmark_def js_or_def publishedVisibility_def split: jsnum.splits)

lemma exportWorldLandmarks_nth:
  "i < length ws \<Longrightarrow> exportWorldLandmarks (Some ws) i = exportLandmarks (ws ! i)"
  by (simp add: exportWorldLandmarks_def nth_opt_def)

lemma frames_of_exportPose:
  "d \<in> set (frames_of (snd (exportPose this result t vi))) \<Longrightarrow>
   \<exists>ls. det_landmarks result = Some ls \<and> pd_poses d = Some (exportPoses result ls)"
  by (auto simp: exportPose_def frames_of_def Let_def split: option.splits if_splits)

lemma demoExporter_fields:
  "pe_enabled demoExporter" "pe_channel demoExporter = Some False"
  "pe_websocket demoExporter = Some WS_CONNECTING" "pe_frameCount demoExporter = 0"
  by (simp_all add: demoExporter_def)

lemma destroy_fields:
  "pe_enabled (destroy this) = pe_enabled this"
  "pe_frameCount (destroy this) = pe_frameCount this"
  "pe_channel (destroy this) = map_option (\<lambda>c. True) (pe_channel this)"
  "pe_websocket (destroy this) \<noteq> Some WS_OPEN"
  by (auto simp: destroy_def)

lemma demoDetection_landmarks:
  "det_landmarks demoDetection = Some (the (det_landmarks demoDetection))"
  "the (det_landmarks demoDetection) \<noteq> []"
  by (simp_all add: demoDetection_def)

text \<open>
  C9, as the spec states it, fails for the channel: once \<open>destroy\<close> has closed the channel,
  a publish on the still enabled exporter does not skip that transport silently but prints an
  error on the console (the listeners still get the frame).
\<close>

theorem publish_closed_channel_counterexample:
  "pe_enabled (destroy demoExporter) \<and>
   pe_channel (destroy demoExporter) = Some True \<and>
   snd (exportPose (destroy demoExporter) demoDetection 7
          \<lparr>vi_width = Num 640, vi_height = Num 480\<rparr>) =
     [ConsoleError ''PoseExporter: BroadcastChannel error'',
      DispatchEvent \<lparr>pd_timestamp = 7, pd_frameCount = 0,
                     pd_poses = Some (exportPoses demoDetection (the (det_landmarks demoDetection))),
                     pd_videoInfo = \<lparr>vi_width = Num 640, vi_height = Num 480\<rparr>\<rparr>]"
  by (simp add: exportPose_def destroy_def demoExporter_def demoDetection_def Let_def)

text \<open>
  C9, amended. A publish on a disabled exporter changes nothing and has no effect: nothing is
  posted, sent, dispatched or printed. A publish of a non-empty detection on an enabled exporter
  always dispatches the frame to the listeners, and to each transport it does the following,
  independently of the other one. Socket: the frame is sent if the socket is open; a socket that
  is missing or not open is skipped without any effect. Channel: the frame is posted if there is
  a channel and it is open; a missing channel is skipped without any effect; a channel that has
  been closed gets nothing, and the publish prints one error line on the console for it.
\<close>

theorem publish_disabled_or_disconnected:
  "(\<not> pe_enabled this \<longrightarrow> exportPose this result t vi = (this, [])) \<and>
   (pe_enabled this \<longrightarrow> det_landmarks result = Some ls \<longrightarrow> ls \<noteq> [] \<longrightarrow>
      (let d = \<lparr>pd_timestamp = t, pd_frameCount = pe_frameCount this,
                 pd_poses = Some (exportPoses result ls), pd_videoInfo = vi\<rparr>;
           effs = snd (exportPose this result t vi)
       in effs =
            (case pe_channel this of
               None \<Rightarrow> []
             | Some isClosed \<Rightarrow>
                 if isClosed then [ConsoleError ''PoseExporter: BroadcastChannel error'']
                 else [PostMessage d])
            @ (if pe_websocket this = Some WS_OPEN then [WebSocketSend d] else [])
            @ [DispatchEvent d] \<and>
          (pe_websocket this \<noteq> Some WS_OPEN \<longrightarrow> (\<forall>f. WebSocketSend f \<notin> set effs)) \<and>
          (pe_channel this \<noteq> Some False \<longrightarrow> (\<forall>f. PostMessage f \<notin> set effs)) \<and>
          ((\<exists>m. ConsoleError m \<in> set effs) \<longleftrightarrow> pe_channel this = Some True)))"
proof (intro conjI impI)
  assume "\<not> pe_enabled this"
  then show "exportPose this result t vi = (this, [])"
    by (simp add: exportPose_def split: option.splits)
next
  assume a: "pe_enabled this" "det_landmarks result = Some ls" "ls \<noteq> []"
  define d where "d = \<lparr>pd_timestamp = t, pd_frameCount = pe_frameCount this,
                 pd_poses = Some (exportPoses result ls), pd_videoInfo = vi\<rparr>"
  define c where "c = (case pe_channel this of
               None \<Rightarrow> []
             | Some isClosed \<Rightarrow>
                 if isClosed then [ConsoleError ''PoseExporter: BroadcastChannel error'']
                 else [PostMessage d])"
  define s where "s = (if pe_websocket this = Some WS_OPEN then [WebSocketSend d] else [])"
  have effs: "snd (exportPose this result t vi) = c @ s @ [DispatchEvent d]"
    using a by (simp add: exportPose_def Let_def c_def s_def d_def split: option.splits)
  have c: "(\<forall>f. WebSocketSend f \<notin> set c) \<and> (\<forall>f. DispatchEvent f \<notin> set c) \<and>
           (pe_channel this \<noteq> Some False \<longrightarrow> (\<forall>f. PostMessage f \<notin> set c)) \<and>
           ((\<exists>m. ConsoleError m \<in> set c) \<longleftrightarrow> pe_channel this = Some True)"
    unfolding c_def by (cases "pe_channel this") auto
  have s: "(\<forall>f. PostMessage f \<notin> set s) \<and> (\<forall>m. ConsoleError m \<notin> set s) \<and>
           (pe_websocket this \<noteq> Some WS_OPEN \<longrightarrow> s = [])"
    unfolding s_def by simp
  show "let d = \<lparr>pd_timestamp = t, pd_frameCount = pe_frameCount this,
                 pd_poses = Some (exportPoses result ls), pd_videoInfo = vi\<rparr>;
           effs = snd (exportPose this result t vi)
       in effs =
            (case pe_channel this of
               None \<Rightarrow> []
             | Some isClosed \<Rightarrow>
                 if isClosed then [ConsoleError ''PoseExporter: BroadcastChannel error'']
                 else [PostMessage d])
            @ (if pe_websocket this = Some WS_OPEN then [WebSocketSend d] else [])
            @ [DispatchEvent d] \<and>
          (pe_websocket this \<noteq> Some WS_OPEN \<longrightarrow> (\<forall>f. WebSocketSend f \<notin> set effs)) \<and>
          (pe_channel this \<noteq> Some False \<longrightarrow> (\<forall>f. PostMessage f \<notin> set effs)) \<and>
          ((\<exists>m. ConsoleError m \<in> set effs) \<longleftrightarrow> pe_channel this = Some True)"
    unfolding Let_def d_def[symmetric] c_def[symmetric] s_def[symmetric] effs
    using c s by auto
qed

theorem publish_disabled_or_disconnected_witness:
  "exportPose (setEnabled demoExporter False) demoDetection 7 \<lparr>vi_width = Num 640, vi_height = Num 480\<rparr>
     = (setEnabled demoExporter False, []) \<and>
   snd (exportPose demoExporter demoDetection 7 \<lparr>vi_width = Num 640, vi_height = Num 480\<rparr>) =
     [PostMessage \<lparr>pd_timestamp = 7, pd_frameCount = 0,
                   pd_poses = Some (exportPoses demoDetection (the (det_landmarks demoDetection))),
                   pd_videoInfo = \<lparr>vi_width = Num 640, vi_height = Num 480\<rparr>\<rparr>,
      DispatchEvent \<lparr>pd_timestamp = 7, pd_frameCount = 0,
                     pd_poses = Some (exportPoses demoDetection (the (det_landmarks demoDetection))),
                     pd_videoInfo = \<lparr>vi_width = Num 640, vi_height = Num 480\<rparr>\<rparr>] \<and>
   snd (exportPose (destroy demoExporter) demoDetection 7
          \<lparr>vi_width = Num 640, vi_height = Num 480\<rparr>) =
     [ConsoleError ''PoseExporter: BroadcastChannel error'',
      DispatchEvent \<lparr>pd_timestamp = 7, pd_frameCount = 0,
                     pd_poses = Some (exportPoses demoDetection (the (det_landmarks demoDetection))),
                     pd_videoInfo = \<lparr>vi_width = Num 640, vi_height = Num 480\<rparr>\<rparr>]"
proof -
  let ?vi = "\<lparr>vi_width = Num 640, vi_height = Num 480\<rparr>"
  have off: "\<not> pe_enabled (setEnabled demoExporter False)"
    by (simp add: setEnabled_def)
  from publish_disabled_or_disconnected
         [where this = "setEnabled demoExporter False" and result = demoDetection and t = 7
            and vi = ?vi, THEN conjunct1, rule_format, OF off]
  have 1: "exportPose (setEnabled demoExporter False) demoDetection 7 ?vi
             = (setEnabled demoExporter False, [])" .
  from publish_disabled_or_disconnected
         [where this = demoExporter and result = demoDetection and t = 7 and vi = ?vi
            and ls = "the (det_landmarks demoDetection)", unfolded Let_def, THEN conjunct2,
          rule_format, OF demoExporter_fields(1) demoDetection_landmarks, THEN conjunct1]
  have 2: "snd (exportPose demoExporter demoDetection 7 ?vi) =
     [PostMessage \<lparr>pd_timestamp = 7, pd_frameCount = 0,
                   pd_poses = Some (exportPoses demoDetection (the (det_landmarks demoDetection))),
                   pd_videoInfo = ?vi\<rparr>,
      DispatchEvent \<lparr>pd_timestamp = 7, pd_frameCount = 0,
                     pd_poses = Some (exportPoses demoDetection (the (det_landmarks demoDetection))),
                     pd_videoInfo = ?vi\<rparr>]"
    by (simp only: demoExporter_fields option.case if_False readyState.distinct option.inject
          append_Nil append_Cons)
  have on: "pe_enabled (destroy demoExporter)"
    by (simp add: destroy_fields demoExporter_fields)
  from publish_disabled_or_disconnected
         [where this = "destroy demoExporter" and result = demoDetection and t = 7 and vi = ?vi
            and ls = "the (det_landmarks demoDetection)", unfolded Let_def, THEN conjunct2,
          rule_format, OF on demoDetection_landmarks, THEN conjunct1]
  have 3: "snd (exportPose (destroy demoExporter) demoDetection 7 ?vi) =
     [ConsoleError ''PoseExporter: BroadcastChannel error'',
      DispatchEvent \<lparr>pd_timestamp = 7, pd_frameCount = 0,
                     pd_poses = Some (exportPoses demoDetection (the (det_landmarks demoDetection))),
                     pd_videoInfo = ?vi\<rparr>]"
    by (simp only: destroy_fields demoExporter_fields option.case option.map if_True if_False
          append_Nil append_Cons)
  show ?thesis by (rule conjI[OF 1 conjI[OF 2 3]])
qed

text \<open>
  C10: in every frame the exporter publishes, the visibility of each landmark and of each world
  landmark of person \<open>i\<close> is the upstream visibility when that is a number other than zero, and
  is 1.0 when the upstream visibility is absent, when it is exactly 0 (so a landmark of
  confidence zero goes out as fully visible), and when it is \<open>NaN\<close>.
\<close>

theorem published_visibility:
  assumes "d \<in> set (frames_of (snd (exportPose this result t vi)))"
    and "det_landmarks result = Some ls" and "i < length ls"
  shows "\<exists>ps. pd_poses d = Some ps \<and>
           (\<forall>k<length (ls ! i).
              lm_visibility (landmarks (ps ! i) ! k) =
                publishedVisibility (lm_visibility (ls ! i ! k))) \<and>
           (\<forall>ws. det_worldLandmarks result = Some ws \<longrightarrow> i < length ws \<longrightarrow>
              (\<forall>k<length (ws ! i).
                 lm_visibility (worldLandmarks (ps ! i) ! k) =
                   publishedVisibility (lm_visibility (ws ! i ! k)))) \<and>
           publishedVisibility Undefined = Num 1 \<and> publishedVisibility (Num 0) = Num 1 \<and>
           (\<forall>r. r \<noteq> 0 \<longrightarrow> publishedVisibility (Num r) = Num r)"
  using frames_of_exportPose[OF assms(1)] assms(2-)
  by (auto simp: nth_exportPoses nth_exportLandmarks exportLandmark_visibility
        exportWorldLandmarks_nth publishedVisibility_def)

theorem published_visibility_witness:
  "\<exists>ps. pd_poses \<lparr>pd_timestamp = 7, pd_frameCount = 0,
                   pd_poses = Some (exportPoses demoDetection (the (det_landmarks demoDetection))),
                   pd_videoInfo = \<lparr>vi_width = Num 640, vi_height = Num 480\<rparr>\<rparr> = Some ps \<and>
        lm_visibility (landmarks (ps ! 0) ! 0) = Num 1 \<and>
        lm_visibility (landmarks (ps ! 0) ! 1) = Num 1"
proof -
  let ?vi = "\<lparr>vi_width = Num 640, vi_height = Num 480\<rparr>"
  let ?d = "\<lparr>pd_timestamp = 7, pd_frameCount = 0,
             pd_poses = Some (exportPoses demoDetection (the (det_landmarks demoDetection))),
             pd_videoInfo = ?vi\<rparr>"
  let ?ls = "[[\<lparr>lm_x = 0.5, lm_y = 0.5, lm_z = 0, lm_visibility = Num 0\<rparr>,
               \<lparr>lm_x = 0.25, lm_y = 0.5, lm_z = 0, lm_visibility = Undefined\<rparr>]]"
  have 1: "?d \<in> set (frames_of (snd (exportPose demoExporter demoDetection 7 ?vi)))"
    by (simp add: exportPose_def frames_of_def demoExporter_def demoDetection_def Let_def)
  have 2: "det_landmarks demoDetection = Some ?ls"
    by (simp add: demoDetection_def)
  have 3: "0 < length ?ls"
    by simp
  from published_visibility[OF 1 2 3] obtain ps where ps: "pd_poses ?d = Some ps"
    and v: "\<forall>k<length (?ls ! 0).
              lm_visibility (landmarks (ps ! 0) ! k) =
                publishedVisibility (lm_visibility (?ls ! 0 ! k))"
    by blast
  from v have "lm_visibility (landmarks (ps ! 0) ! 0) = Num 1"
    by (simp add: publishedVisibility_def)
  moreover from v have "lm_visibility (landmarks (ps ! 0) ! 1) = Num 1"
    by (simp add: publishedVisibility_def)
  ultimately show ?thesis using ps by blast
qed

section \<open>Malformed frames\<close>

lemma withBone_other: "k \<noteq> key \<Longrightarrow> withBone bones key f k = bones k"
  by (simp add: withBone_def split: option.splits)

lemma withBone_same: "withBone bones key f key = map_option f (bones key)"
  by (simp add: withBone_def split: option.splits)

lemma updateLimb_other:
  "k \<notin> {name @ ''Upper'', name @ ''Joint'', name @ ''Lower'', name @ ''End''} \<Longrightarrow>
   updateLimb bones name s m e gp k = bones k"
  by (simp add: updateLimb_def Let_def withBone_other)

lemma updateProceduralRig_head:
  "js_gt (lm_visibility (lms ! NOSE)) 0.5 \<Longrightarrow>
   updateProceduralRig bones lms gp ''head'' =
     map_option (\<lambda>m. m\<lparr>mesh_position := gp NOSE\<rparr>) (bones ''head'')"
  by (simp add: updateProceduralRig_def rigBase_def Let_def updateLimb_other withBone_other
        withBone_same)

lemma init_fields:
  "cv_characterModel CharacterPoseViewer_init = Some (ProceduralGroup ''character'' (Vec3 0 0 0))"
  "cv_bones CharacterPoseViewer_init ''head'' = Some (newMesh (SphereGeometry 0.15) (Vec3 0 1.5 0))"
  "cv_modelType CharacterPoseViewer_init = ''humanoid''"
  by (simp_all add: CharacterPoseViewer_init_def createProceduralCharacter_def createLimb_def Let_def)

text \<open>
  C1, as the spec states it, fails on the character viewer: its guard is
  \<open>landmarks.length < 33\<close>, so a frame of 34 landmarks, whose count is not 33, is not rejected
  and moves the head of the rig.
\<close>

theorem malformed_frame_counterexample:
  "length (replicate 34 (wireLandmark 1 0 0 (Num 1))) \<noteq> 33 \<and>
   updateCharacterFromPose CharacterPoseViewer_init
       (frameOf (replicate 34 (wireLandmark 1 0 0 (Num 1))) []) \<noteq> CharacterPoseViewer_init"
proof -
  let ?lms = "replicate 34 (wireLandmark 1 0 0 (Num 1))"
  let ?r = "updateCharacterFromPose CharacterPoseViewer_init (frameOf ?lms [])"
  have r: "?r = CharacterPoseViewer_init\<lparr>cv_bones :=
             updateProceduralRig (cv_bones CharacterPoseViewer_init) ?lms (getPos False ?lms)\<rparr>"
    by (simp add: updateCharacterFromPose_def frameOf_def init_fields Let_def)
  have vis: "js_gt (lm_visibility (?lms ! NOSE)) 0.5"
    by (simp add: NOSE_def wireLandmark_def)
  have "cv_bones ?r ''head'' =
          Some ((newMesh (SphereGeometry 0.15) (Vec3 0 1.5 0))\<lparr>mesh_position := getPos False ?lms NOSE\<rparr>)"
    by (simp add: r updateProceduralRig_head[OF vis] init_fields)
  moreover have "getPos False ?lms NOSE = Vec3 1 2.5 0"
    by (simp add: getPos_def NOSE_def wireLandmark_def)
  ultimately have "cv_bones ?r ''head'' \<noteq> cv_bones CharacterPoseViewer_init ''head''"
    by (simp add: init_fields newMesh_def)
  then have "?r \<noteq> CharacterPoseViewer_init" by auto
  then show ?thesis by simp
qed

text \<open>
  C1, amended: the skeleton renderer's \<open>updatePose\<close> returns without an error and leaves the
  renderer as it was for every absent landmark array and every array whose length is not 33; the
  character viewer's \<open>updateCharacterFromPose\<close> leaves the viewer as it was for every frame
  whose pose list is absent or empty and every frame whose selected landmark list has fewer than
  33 entries.
\<close>

theorem malformed_frame_no_update:
  "((arg = None \<or> (\<exists>lms. arg = Some lms \<and> length lms \<noteq> 33)) \<longrightarrow>
      updatePose this arg = Inr this) \<and>
   ((pd_poses pd = None \<or> pd_poses pd = Some [] \<or>
     (\<exists>p ps. pd_poses pd = Some (p # ps) \<and> length (selectedLandmarks p) < 33)) \<longrightarrow>
      updateCharacterFromPose viewer pd = viewer)"
  by (auto simp: updatePose_def updateCharacterFromPose_def selectedLandmarks_def Let_def)

theorem malformed_frame_no_update_witness:
  "updatePose SkeletonRenderer_init (Some (take 20 demoFrame)) = Inr SkeletonRenderer_init \<and>
   updateCharacterFromPose CharacterPoseViewer_init
       (frameOf (replicate 20 (wireLandmark 1 0 0 (Num 1))) []) = CharacterPoseViewer_init"
  using malformed_frame_no_update
          [of "Some (take 20 demoFrame)" SkeletonRenderer_init
              "frameOf (replicate 20 (wireLandmark 1 0 0 (Num 1))) []" CharacterPoseViewer_init]
  by (simp add: demoFrame_def frameOf_def selectedLandmarks_def)


section \<open>Bone matching\<close>

lemma tryAliases_eq:
  "tryAliases gb key ob name aliases =
     (if nameMatches name aliases \<and> map_of gb key = None then gb @ [(key, ob)] else gb)"
  by (induction aliases) (auto simp: nameMatches_def)

lemma map_of_snoc:
  "map_of (gb @ [(k, v)]) key =
     (case map_of gb key of Some w \<Rightarrow> Some w | None \<Rightarrow> if key = k then Some v else None)"
  by (simp add: map_add_def split: option.splits)

lemma map_of_tryRoles:
  "map_of (tryRoles gb ob name table) key =
     (case map_of gb key of
        Some w \<Rightarrow> Some w
      | None \<Rightarrow> if (\<exists>aliases. (key, aliases) \<in> set table \<and> nameMatches name aliases)
                then Some ob else None)"
proof (induction table arbitrary: gb)
  case Nil
  then show ?case by (simp split: option.splits)
next
  case (Cons entry table)
  obtain k al where entry: "entry = (k, al)" by (cases entry)
  show ?case
    unfolding entry tryRoles.simps Cons.IH tryAliases_eq
    by (auto simp: map_of_snoc split: option.splits)
qed

lemma map_of_traverseBones:
  "map_of (traverseBones table gb i obs) key =
     (case map_of gb key of
        Some w \<Rightarrow> Some w
      | None \<Rightarrow> firstIndex (\<lambda>ob. \<exists>aliases. (key, aliases) \<in> set table \<and>
                                    nameMatches (obj_name ob) aliases) i obs)"
proof (induction obs arbitrary: gb i)
  case Nil
  then show ?case by (simp split: option.splits)
next
  case (Cons ob obs)
  show ?case
    unfolding traverseBones.simps Cons.IH map_of_tryRoles
    by (auto split: option.splits)
qed

lemma firstIndex_Some_iff:
  "firstIndex P i xs = Some v \<longleftrightarrow>
     (\<exists>n<length xs. v = i + n \<and> P (xs ! n) \<and> (\<forall>m<n. \<not> P (xs ! m)))"
proof (induction xs arbitrary: i)
  case Nil
  then show ?case by simp
next
  case (Cons x xs)
  show ?case
  proof (cases "P x")
    case True
    have "(\<exists>n<length (x # xs). v = i + n \<and> P ((x # xs) ! n) \<and> (\<forall>m<n. \<not> P ((x # xs) ! m)))
            \<longleftrightarrow> v = i"
    proof
      assume "\<exists>n<length (x # xs). v = i + n \<and> P ((x # xs) ! n) \<and> (\<forall>m<n. \<not> P ((x # xs) ! m))"
      then obtain n where n: "v = i + n" "\<forall>m<n. \<not> P ((x # xs) ! m)" by blast
      have "n = 0"
      proof (rule ccontr)
        assume "n \<noteq> 0"
        then have "0 < n" by simp
        with n(2) have "\<not> P ((x # xs) ! 0)" by blast
        with True show False by simp
      qed
      with n(1) show "v = i" by simp
    next
      assume "v = i"
      with True
      show "\<exists>n<length (x # xs). v = i + n \<and> P ((x # xs) ! n) \<and> (\<forall>m<n. \<not> P ((x # xs) ! m))"
        by (intro exI[of _ 0]) simp
    qed
    with True show ?thesis by auto
  next
    case False
    have "(\<exists>n<length (x # xs). v = i + n \<and> P ((x # xs) ! n) \<and> (\<forall>m<n. \<not> P ((x # xs) ! m))) \<longleftrightarrow>
          (\<exists>n<length xs. v = Suc i + n \<and> P (xs ! n) \<and> (\<forall>m<n. \<not> P (xs ! m)))"
      (is "?L \<longleftrightarrow> ?R")
    proof
      assume ?L
      then obtain n where n: "n < length (x # xs)" "v = i + n" "P ((x # xs) ! n)"
        "\<forall>m<n. \<not> P ((x # xs) ! m)" by blast
      from n(3) False obtain n' where n': "n = Suc n'" by (cases n) auto
      have "\<forall>m<n'. \<not> P (xs ! m)"
      proof (intro allI impI)
        fix m assume "m < n'"
        then have "Suc m < n" using n' by simp
        with n(4) have "\<not> P ((x # xs) ! Suc m)" by blast
        then show "\<not> P (xs ! m)" by simp
      qed
      with n n' show ?R by (intro exI[of _ n']) simp
    next
      assume ?R
      then obtain n where n: "n < length xs" "v = Suc i + n" "P (xs ! n)" "\<forall>m<n. \<not> P (xs ! m)"
        by blast
      have "\<forall>m<Suc n. \<not> P ((x # xs) ! m)"
      proof (intro allI impI)
        fix m assume m: "m < Suc n"
        show "\<not> P ((x # xs) ! m)"
        proof (cases m)
          case 0
          with False show ?thesis by simp
        next
          case (Suc m')
          with m n(4) show ?thesis by simp
        qed
      qed
      with n show ?L by (intro exI[of _ "Suc n"]) simp
    qed
    with False Cons.IH[of "Suc i"] show ?thesis by simp
  qed
qed

lemma distinct_commonBoneNames: "distinct (map fst commonBoneNames)"
  by (simp add: commonBoneNames_def)

lemma commonBoneNames_entry:
  "(\<exists>aliases. (key, aliases) \<in> set commonBoneNames \<and> nameMatches (obj_name ob) aliases)
     = roleMatches key ob"
proof -
  have "\<And>aliases. (key, aliases) \<in> set commonBoneNames \<longleftrightarrow>
          map_of commonBoneNames key = Some aliases"
    using map_of_eq_Some_iff[OF distinct_commonBoneNames] by simp
  then show ?thesis
    by (auto simp: roleMatches_def split: option.splits)
qed

lemma findGLTFBones_gltfBones:
  "cv_gltfBones (findGLTFBones this g) = traverseBones commonBoneNames [] 0 (gltf_scene g)"
  by (simp add: findGLTFBones_def Let_def)

text \<open>
  C7: after \<open>findGLTFBones\<close> a role of the alias table holds the object with index \<open>i\<close> of
  the loaded scene exactly when that object's name contains, case-insensitively, one of the
  role's aliases and no object visited before it does: the first match claims the role, and no
  later match overwrites it. Which of the aliases matched makes no difference to the result.
\<close>

theorem bone_role_matching:
  "map_of (cv_gltfBones (findGLTFBones this g)) role = Some i \<longleftrightarrow>
     i < length (gltf_scene g) \<and> roleMatches role (gltf_scene g ! i) \<and>
     (\<forall>j<i. \<not> roleMatches role (gltf_scene g ! j))"
  by (auto simp: findGLTFBones_gltfBones map_of_traverseBones commonBoneNames_entry
        firstIndex_Some_iff)

theorem bone_role_matching_witness:
  "map_of (cv_gltfBones (findGLTFBones CharacterPoseViewer_init riggedModel)) ''head'' = Some 1 \<and>
   roleMatches ''head'' (gltf_scene riggedModel ! 2)"
proof -
  have 0: "\<not> roleMatches ''head'' (gltf_scene riggedModel ! 0)"
    by code_simp
  have 1: "roleMatches ''head'' (gltf_scene riggedModel ! 1)"
    by code_simp
  have 2: "roleMatches ''head'' (gltf_scene riggedModel ! 2)"
    by code_simp
  have len: "1 < length (gltf_scene riggedModel)"
    by (simp add: riggedModel_def)
  have "map_of (cv_gltfBones (findGLTFBones CharacterPoseViewer_init riggedModel)) ''head'' = Some 1"
    using bone_role_matching[of CharacterPoseViewer_init riggedModel "''head''" 1] 0 1 len
    by simp
  with 2 show ?thesis by simp
qed

section \<open>Models without matching bones\<close>

lemma onLoad_gltfBones:
  "cv_gltfBones (onLoad this g) = traverseBones commonBoneNames [] 0 (gltf_scene g)"
proof (cases "gltf_scene g")
  case Nil
  then show ?thesis by (simp add: onLoad_def findGLTFBones_def Let_def)
next
  case (Cons r rest)
  then show ?thesis by (simp add: onLoad_def findGLTFBones_def Let_def)
qed

lemma onLoad_fields:
  "cv_modelType (onLoad this g) = ''custom''"
  "cv_characterModel (onLoad this g) = Some LoadedScene"
  "cv_bones (onLoad this g) = cv_bones this"
  "cv_loadedGLTFModel (onLoad this g) \<noteq> None"
  by (simp_all add: onLoad_def findGLTFBones_def Let_def)

lemma setModelPosition_fields:
  "cv_gltfBones (setModelPosition this p) = cv_gltfBones this"
  "cv_bones (setModelPosition this p) = cv_bones this"
  "cv_console (setModelPosition this p) = cv_console this"
  "cv_modelType (setModelPosition this p) = cv_modelType this"
  "cv_characterModel this = Some LoadedScene \<Longrightarrow>
     cv_characterModel (setModelPosition this p) = Some LoadedScene"
  "map_option (map obj_quaternion) (cv_loadedGLTFModel (setModelPosition this p)) =
     map_option (map obj_quaternion) (cv_loadedGLTFModel this)"
  by (auto simp: setModelPosition_def split: option.splits characterModel.splits list.splits)

lemma loaded_unrigged:
  assumes "cv_gltfBones (loadGLTFModel this (Loaded g)) = []"
  shows "unrigged (loadGLTFModel this (Loaded g))"
    and "cv_bones (loadGLTFModel this (Loaded g)) = cv_bones (removeOldModel this)"
  using assms by (simp_all add: unrigged_def loadGLTFModel_def onLoad_fields)

lemma setModelPosition_scene:
  "cv_characterModel this = Some LoadedScene \<Longrightarrow>
   cv_loadedGLTFModel (setModelPosition this p) = map_option (moveRoot p) (cv_loadedGLTFModel this)"
  by (auto simp: setModelPosition_def moveRoot_def split: option.splits list.splits)

lemma unrigged_update:
  assumes "unrigged viewer" and "pd_poses pd = Some (p # ps)"
    and "33 \<le> length (selectedLandmarks p)"
  shows "unrigged (updateCharacterFromPose viewer pd)"
    and "cv_console (updateCharacterFromPose viewer pd) = cv_console viewer @ [unriggedWarning]"
    and "cv_characterModel (updateCharacterFromPose viewer pd) = Some LoadedScene"
    and "cv_bones (updateCharacterFromPose viewer pd) = cv_bones viewer"
    and "cv_loadedGLTFModel (updateCharacterFromPose viewer pd) =
           map_option (moveRoot (loweredHipCentre p)) (cv_loadedGLTFModel viewer)"
proof -
  from assms(1) have v: "cv_modelType viewer = ''custom''" "cv_characterModel viewer = Some LoadedScene"
    "cv_loadedGLTFModel viewer \<noteq> None" "cv_gltfBones viewer = []"
    by (simp_all add: unrigged_def)
  have sel: "\<not> length (if 0 < length (worldLandmarks p) then worldLandmarks p else landmarks p) < 33"
    using assms(3) by (simp add: selectedLandmarks_def)
  have u: "updateCharacterFromPose viewer pd =
      updateGLTFModelFromPose viewer (selectedLandmarks p) (length (worldLandmarks p) > 0)"
    using assms(2) sel v(3)
    by (simp add: updateCharacterFromPose_def Let_def v(1) selectedLandmarks_def)
  define q where "q = loweredHipCentre p"
  have g: "updateGLTFModelFromPose viewer (selectedLandmarks p) (length (worldLandmarks p) > 0) =
             (setModelPosition viewer q)\<lparr>cv_console := cv_console viewer @ [unriggedWarning]\<rparr>"
    by (simp add: updateGLTFModelFromPose_def Let_def setModelPosition_fields(1-4) v(4)
          unriggedWarning_def q_def loweredHipCentre_def)
  show "cv_console (updateCharacterFromPose viewer pd) = cv_console viewer @ [unriggedWarning]"
    unfolding u g by simp
  show cm: "cv_characterModel (updateCharacterFromPose viewer pd) = Some LoadedScene"
    unfolding u g using setModelPosition_fields(5)[OF v(2)] by simp
  show "cv_bones (updateCharacterFromPose viewer pd) = cv_bones viewer"
    unfolding u g by (simp add: setModelPosition_fields(1-4))
  show sc: "cv_loadedGLTFModel (updateCharacterFromPose viewer pd) =
           map_option (moveRoot (loweredHipCentre p)) (cv_loadedGLTFModel viewer)"
    unfolding u g q_def[symmetric] by (simp add: setModelPosition_scene[OF v(2)])
  have mt: "cv_modelType (updateCharacterFromPose viewer pd) = ''custom''"
    unfolding u g by (simp add: setModelPosition_fields(1-4) v(1))
  have gb: "cv_gltfBones (updateCharacterFromPose viewer pd) = []"
    unfolding u g by (simp add: setModelPosition_fields(1-4) v(4))
  from v(3) have "cv_loadedGLTFModel (updateCharacterFromPose viewer pd) \<noteq> None"
    unfolding sc by simp
  with mt gb cm show "unrigged (updateCharacterFromPose viewer pd)"
    unfolding unrigged_def by blast
qed

lemma unrigged_updates:
  assumes "list_all fullFrame pds" and "unrigged viewer"
  shows "unrigged (foldl updateCharacterFromPose viewer pds) \<and>
         cv_console (foldl updateCharacterFromPose viewer pds) =
           cv_console viewer @ replicate (length pds) unriggedWarning \<and>
         cv_bones (foldl updateCharacterFromPose viewer pds) = cv_bones viewer"
  using assms
proof (induction pds arbitrary: viewer)
  case Nil
  then show ?case by simp
next
  case (Cons pd pds)
  from Cons.prems(1) obtain p ps where p: "pd_poses pd = Some (p # ps)"
    "33 \<le> length (selectedLandmarks p)"
    by (auto simp: fullFrame_def split: option.splits list.splits)
  from Cons.prems(1) have rest: "list_all fullFrame pds" by simp
  note u = unrigged_update[OF Cons.prems(2) p]
  from Cons.IH[OF rest u(1)] show ?case
    by (simp add: u(2,4))
qed

lemma cube_unmatched: "traverseBones commonBoneNames [] 0 (gltf_scene cubeModel) = []"
  by code_simp

lemma cube_loaded:
  "cv_gltfBones (loadGLTFModel CharacterPoseViewer_init (Loaded cubeModel)) = []"
  "cv_characterModel (loadGLTFModel CharacterPoseViewer_init (Loaded cubeModel)) = Some LoadedScene"
  "cv_bones (loadGLTFModel CharacterPoseViewer_init (Loaded cubeModel)) = Map.empty"
  by (simp_all add: loadGLTFModel_def onLoad_gltfBones cube_unmatched onLoad_fields
        removeOldModel_def init_fields)

lemma cube_scene:
  "cv_loadedGLTFModel (loadGLTFModel CharacterPoseViewer_init (Loaded cubeModel)) =
     Some [(namedObj ''Scene'')\<lparr>obj_scale := Vec3 2 2 2, obj_position := Vec3 0 0 0\<rparr>,
           namedObj ''Cube'']"
  unfolding loadGLTFModel_def load_outcome.case onLoad_def findGLTFBones_def Let_def
  by (simp add: cubeModel_def)

lemma demo_pose:
  "pd_poses (frameOf (replicate 33 (wireLandmark 1 0 0 (Num 1))) []) =
     Some (\<lparr>personId = 0, landmarks = replicate 33 (wireLandmark 1 0 0 (Num 1)),
            worldLandmarks = []\<rparr> # [])"
  "33 \<le> length (selectedLandmarks
     \<lparr>personId = 0, landmarks = replicate 33 (wireLandmark 1 0 0 (Num 1)), worldLandmarks = []\<rparr>)"
  by (simp_all add: frameOf_def selectedLandmarks_def)

lemma demo_fullFrame: "fullFrame (frameOf (replicate 33 (wireLandmark 1 0 0 (Num 1))) [])"
  by (simp add: fullFrame_def frameOf_def selectedLandmarks_def)

lemma demo_hips:
  "loweredHipCentre
     \<lparr>personId = 0, landmarks = replicate 33 (wireLandmark 1 0 0 (Num 1)), worldLandmarks = []\<rparr> =
   Vec3 1 (3 / 2) 0"
  by (simp add: loweredHipCentre_def selectedLandmarks_def getPos_def LEFT_HIP_def RIGHT_HIP_def
        wireLandmark_def lerp_def Let_def)

text \<open>
  C8, as the spec states it, fails: a model none of whose objects matches an alias stays the
  displayed model after loading and after a pose update; the procedural rig, which the load
  emptied, is not put back (its head is missing), so there is no fallback.
\<close>

theorem unrigged_fallback_counterexample:
  "cv_gltfBones (loadGLTFModel CharacterPoseViewer_init (Loaded cubeModel)) = [] \<and>
   cv_characterModel (loadGLTFModel CharacterPoseViewer_init (Loaded cubeModel)) = Some LoadedScene \<and>
   cv_bones (loadGLTFModel CharacterPoseViewer_init (Loaded cubeModel)) ''head'' = None \<and>
   cv_characterModel
     (updateCharacterFromPose (loadGLTFModel CharacterPoseViewer_init (Loaded cubeModel))
        (frameOf (replicate 33 (wireLandmark 1 0 0 (Num 1))) [])) = Some LoadedScene \<and>
   cv_bones
     (updateCharacterFromPose (loadGLTFModel CharacterPoseViewer_init (Loaded cubeModel))
        (frameOf (replicate 33 (wireLandmark 1 0 0 (Num 1))) [])) ''head'' = None"
  using unrigged_update(3,4)[OF loaded_unrigged(1)[OF cube_loaded(1)] demo_pose]
  by (simp add: cube_loaded)

text \<open>
  C8, amended. Whenever a loaded model yields no bone-role match, the viewer keeps the loaded
  model as its character (model type \<open>custom\<close>, no bone held by any role), and the
  procedural rig stays as the load left it: there is no fallback. In that state every pose
  update with at least 33 landmarks prints the warning that no bones were found and does nothing
  else than to move the root object of the model to the centre of the hips lowered by 1: no
  object is rotated, no other object is moved, and the viewer is again in that state, so that a
  sequence of such updates prints the warning once per update. The procedural humanoid is the
  fallback of a failed load only.
\<close>

theorem unrigged_model_warns:
  "(cv_gltfBones (loadGLTFModel this (Loaded g)) = [] \<longrightarrow>
      unrigged (loadGLTFModel this (Loaded g)) \<and>
      cv_bones (loadGLTFModel this (Loaded g)) = cv_bones (removeOldModel this)) \<and>
   (unrigged viewer \<longrightarrow> pd_poses pd = Some (p # ps) \<longrightarrow> 33 \<le> length (selectedLandmarks p) \<longrightarrow>
      (let updated = updateCharacterFromPose viewer pd
       in unrigged updated \<and>
          cv_console updated = cv_console viewer @ [unriggedWarning] \<and>
          cv_characterModel updated = Some LoadedScene \<and>
          cv_bones updated = cv_bones viewer \<and>
          cv_loadedGLTFModel updated =
            map_option (moveRoot (loweredHipCentre p)) (cv_loadedGLTFModel viewer))) \<and>
   (unrigged viewer \<longrightarrow> list_all fullFrame pds \<longrightarrow>
      unrigged (foldl updateCharacterFromPose viewer pds) \<and>
      cv_console (foldl updateCharacterFromPose viewer pds) =
        cv_console viewer @ replicate (length pds) unriggedWarning \<and>
      cv_bones (foldl updateCharacterFromPose viewer pds) = cv_bones viewer) \<and>
   cv_characterModel (loadGLTFModel this LoadFailed) =
     Some (ProceduralGroup ''character'' (Vec3 0 0 0))"
proof (intro conjI impI)
  assume a: "cv_gltfBones (loadGLTFModel this (Loaded g)) = []"
  show "unrigged (loadGLTFModel this (Loaded g))" by (rule loaded_unrigged(1)[OF a])
  show "cv_bones (loadGLTFModel this (Loaded g)) = cv_bones (removeOldModel this)"
    by (rule loaded_unrigged(2)[OF a])
next
  assume a: "unrigged viewer" "pd_poses pd = Some (p # ps)" "33 \<le> length (selectedLandmarks p)"
  show "let updated = updateCharacterFromPose viewer pd
       in unrigged updated \<and>
          cv_console updated = cv_console viewer @ [unriggedWarning] \<and>
          cv_characterModel updated = Some LoadedScene \<and>
          cv_bones updated = cv_bones viewer \<and>
          cv_loadedGLTFModel updated =
            map_option (moveRoot (loweredHipCentre p)) (cv_loadedGLTFModel viewer)"
    unfolding Let_def using unrigged_update[OF a] by blast
next
  assume a: "unrigged viewer" "list_all fullFrame pds"
  from unrigged_updates[OF a(2,1)]
  show "unrigged (foldl updateCharacterFromPose viewer pds)"
    and "cv_console (foldl updateCharacterFromPose viewer pds) =
        cv_console viewer @ replicate (length pds) unriggedWarning"
    and "cv_bones (foldl updateCharacterFromPose viewer pds) = cv_bones viewer"
    by blast+
next
  show "cv_characterModel (loadGLTFModel this LoadFailed) =
     Some (ProceduralGroup ''character'' (Vec3 0 0 0))"
    by (simp add: loadGLTFModel_def onError_def createProceduralCharacter_def Let_def)
qed

theorem unrigged_model_warns_witness:
  "unrigged (loadGLTFModel CharacterPoseViewer_init (Loaded cubeModel)) \<and>
   cv_console
     (updateCharacterFromPose (loadGLTFModel CharacterPoseViewer_init (Loaded cubeModel))
        (frameOf (replicate 33 (wireLandmark 1 0 0 (Num 1))) [])) =
     cv_console (loadGLTFModel CharacterPoseViewer_init (Loaded cubeModel)) @ [unriggedWarning] \<and>
   map_option (map obj_position)
     (cv_loadedGLTFModel
        (updateCharacterFromPose (loadGLTFModel CharacterPoseViewer_init (Loaded cubeModel))
           (frameOf (replicate 33 (wireLandmark 1 0 0 (Num 1))) []))) =
     Some [Vec3 1 (3 / 2) 0, Vec3 0 0 0] \<and>
   cv_console
     (foldl updateCharacterFromPose (loadGLTFModel CharacterPoseViewer_init (Loaded cubeModel))
        [frameOf (replicate 33 (wireLandmark 1 0 0 (Num 1))) [],
         frameOf (replicate 33 (wireLandmark 1 0 0 (Num 1))) []]) =
     cv_console (loadGLTFModel CharacterPoseViewer_init (Loaded cubeModel)) @
       [unriggedWarning, unriggedWarning]"
proof -
  let ?loaded = "loadGLTFModel CharacterPoseViewer_init (Loaded cubeModel)"
  let ?pd = "frameOf (replicate 33 (wireLandmark 1 0 0 (Num 1))) []"
  note inst = unrigged_model_warns[where this = CharacterPoseViewer_init and g = cubeModel
      and viewer = ?loaded and pd = ?pd and pds = "[?pd, ?pd]"
      and p = "\<lparr>personId = 0, landmarks = replicate 33 (wireLandmark 1 0 0 (Num 1)),
                 worldLandmarks = []\<rparr>" and ps = "[]", unfolded Let_def]
  from inst[THEN conjunct1, rule_format, OF cube_loaded(1)]
  have u: "unrigged ?loaded" by blast
  from inst[THEN conjunct2, THEN conjunct1, rule_format, OF u demo_pose]
  have c1: "cv_console (updateCharacterFromPose ?loaded ?pd) = cv_console ?loaded @ [unriggedWarning]"
    and sc: "cv_loadedGLTFModel (updateCharacterFromPose ?loaded ?pd) =
      map_option (moveRoot (loweredHipCentre
        \<lparr>personId = 0, landmarks = replicate 33 (wireLandmark 1 0 0 (Num 1)),
           worldLandmarks = []\<rparr>)) (cv_loadedGLTFModel ?loaded)"
    by blast+
  have pos: "map_option (map obj_position) (cv_loadedGLTFModel (updateCharacterFromPose ?loaded ?pd)) =
     Some [Vec3 1 (3 / 2) 0, Vec3 0 0 0]"
    unfolding sc demo_hips cube_scene by (simp add: moveRoot_def namedObj_def)
  have full: "list_all fullFrame [?pd, ?pd]"
    by (simp add: demo_fullFrame)
  from inst[THEN conjunct2, THEN conjunct2, THEN conjunct1, rule_format, OF u full]
  have c2: "cv_console (foldl updateCharacterFromPose ?loaded [?pd, ?pd]) =
     cv_console ?loaded @ replicate (length [?pd, ?pd]) unriggedWarning"
    by blast
  have c2': "cv_console (foldl updateCharacterFromPose ?loaded [?pd, ?pd]) =
     cv_console ?loaded @ [unriggedWarning, unriggedWarning]"
    unfolding c2 by (simp add: numeral_2_eq_2)
  show ?thesis by (rule conjI[OF u conjI[OF c1 conjI[OF pos c2']]])
qed


section \<open>Vectors and the orientation quaternion\<close>

lemma sum_squares_pos_iff:
  "0 < sqrt (a * a + b * b + c * c) \<longleftrightarrow> a \<noteq> 0 \<or> b \<noteq> 0 \<or> c \<noteq> (0::real)"
proof -
  have nn: "0 \<le> a * a" "0 \<le> b * b" "0 \<le> c * c" "0 \<le> a * a + b * b"
    by simp_all
  have "a * a + b * b + c * c = 0 \<longleftrightarrow> a = 0 \<and> b = 0 \<and> c = 0"
    using nn by (simp add: add_nonneg_eq_0_iff)
  moreover have "0 \<le> a * a + b * b + c * c"
    using nn by simp
  ultimately show ?thesis
    by (metis less_le real_sqrt_gt_0_iff)
qed

lemma vlength_nonneg: "0 \<le> vlength v"
  by (simp add: vlength_def)

lemma vlength_normalize: "0 < vlength v \<Longrightarrow> vlength (normalize v) = 1"
proof -
  assume pos: "0 < vlength v"
  obtain a b c where v: "v = Vec3 a b c" by (cases v)
  let ?l = "vlength v"
  have l2: "?l * ?l = a * a + b * b + c * c"
    by (simp add: v vlength_def)
  have "a * (1 / ?l) * (a * (1 / ?l)) + b * (1 / ?l) * (b * (1 / ?l)) + c * (1 / ?l) * (c * (1 / ?l))
        = (a * a + b * b + c * c) / (?l * ?l)"
    by (simp add: add_divide_distrib)
  also have "\<dots> = 1" using pos by (simp add: l2[symmetric])
  finally show ?thesis
    using pos by (simp add: normalize_def v multiplyScalar_def vlength_def[of "Vec3 _ _ _"])
qed

lemma rotate_up_onto:
  assumes unit: "vlength d = 1"
  shows "applyQuaternion (Vec3 0 1 0) (setFromUnitVectors (Vec3 0 1 0) d) = d"
proof -
  obtain a b c where d: "d = Vec3 a b c" by (cases d)
  from unit have sq: "a * a + b * b + c * c = 1"
    by (simp add: d vlength_def)
  have cr: "cross (Vec3 0 1 0) d = Vec3 c 0 (- a)"
    by (simp add: cross_def d)
  have dt: "dot (Vec3 0 1 0) d = b"
    by (simp add: dot_def d)
  show ?thesis
  proof (cases "a = 0 \<and> c = 0")
    case True
    then have a0: "a = 0" and c0: "c = 0" by simp_all
    with sq have "b * b = 1" by simp
    then have b: "b = 1 \<or> b = - 1"
      by (metis square_eq_1_iff)
    have cr0: "cross (Vec3 0 1 0) d = Vec3 0 0 0" by (simp add: cr a0 c0)
    show ?thesis
    proof (cases "0 \<le> b")
      case True
      with b have b1: "b = 1" by auto
      have q: "setFromUnitVectors (Vec3 0 1 0) d = Quat 0 0 0 1"
        by (simp add: setFromUnitVectors_def cr0 dt b1)
      have "applyQuaternion (Vec3 0 1 0) (Quat 0 0 0 1) = Vec3 0 1 0"
        by (simp add: applyQuaternion_def Let_def cross_def multiplyScalar_def addv_def)
      then show ?thesis unfolding q by (simp add: d a0 c0 b1)
    next
      case False
      with b have b1: "b = - 1" by auto
      have p: "perpendicular (Vec3 0 1 0) = Vec3 0 0 1"
        by (simp add: perpendicular_def normalize_def vlength_def multiplyScalar_def)
      have q: "setFromUnitVectors (Vec3 0 1 0) d = Quat 0 0 1 0"
        by (simp add: setFromUnitVectors_def cr0 dt b1 p setFromAxisAngle_def)
      have "applyQuaternion (Vec3 0 1 0) (Quat 0 0 1 0) = Vec3 0 (- 1) 0"
        by (simp add: applyQuaternion_def Let_def cross_def multiplyScalar_def addv_def)
      then show ?thesis unfolding q by (simp add: d a0 c0 b1)
    qed
  next
    case False
    define s where "s = sqrt (c * c + a * a)"
    have spos: "0 < s"
      using False sum_squares_pos_iff[of c 0 a] by (auto simp: s_def)
    have s2: "s * s = c * c + a * a"
      by (simp add: s_def)
    have babs: "\<bar>b\<bar> \<le> 1"
    proof -
      have "b * b \<le> 1" using sq
        by (smt (verit) zero_le_square)
      then have "b\<^sup>2 \<le> 1" by (simp add: power2_eq_square)
      then show ?thesis by (simp add: abs_square_le_1)
    qed
    define t where "t = arccos b"
    have ct: "cos t = b" using babs by (simp add: t_def cos_arccos_abs)
    have st: "sin t = s"
    proof -
      have "sin t = sqrt (1 - b\<^sup>2)" using babs by (simp add: t_def sin_arccos_abs)
      also have "1 - b\<^sup>2 = c * c + a * a" using sq by (simp add: power2_eq_square)
      finally show ?thesis by (simp add: s_def)
    qed
    define S where "S = sin (t / 2)"
    define C where "C = cos (t / 2)"
    have dbl: "2 * S * C = s" using sin_double[of "t / 2"] st by (simp add: S_def C_def)
    have cdb: "1 - 2 * (S * S) = b"
      using cos_double_sin[of "t / 2"] ct by (simp add: S_def power2_eq_square)
    have vl: "vlength (Vec3 c 0 (- a)) = s" by (simp add: vlength_def s_def)
    have ne: "cross (Vec3 0 1 0) d \<noteq> Vec3 0 0 0" using False by (auto simp: cr)
    have "setFromUnitVectors (Vec3 0 1 0) d =
            setFromAxisAngle (normalize (cross (Vec3 0 1 0) d)) (arccos (dot (Vec3 0 1 0) d))"
      using ne by (simp only: setFromUnitVectors_def if_False)
    also have "\<dots> = Quat (c * (1 / s) * S) 0 (- a * (1 / s) * S) C"
      using spos
      by (simp add: cr dt setFromAxisAngle_def normalize_def vl multiplyScalar_def S_def C_def t_def)
    finally have q: "setFromUnitVectors (Vec3 0 1 0) d =
               Quat (c * (1 / s) * S) 0 (- a * (1 / s) * S) C" .
    have x: "2 * C * (a * (1 / s) * S) = a"
    proof -
      have "2 * C * (a * (1 / s) * S) = (2 * S * C) * a / s" by (simp add: field_simps)
      also have "\<dots> = a" using dbl spos by simp
      finally show ?thesis .
    qed
    have z: "2 * C * (c * (1 / s) * S) = c"
    proof -
      have "2 * C * (c * (1 / s) * S) = (2 * S * C) * c / s" by (simp add: field_simps)
      also have "\<dots> = c" using dbl spos by simp
      finally show ?thesis .
    qed
    have y: "1 - 2 * ((c * (1 / s) * S) * (c * (1 / s) * S) + (a * (1 / s) * S) * (a * (1 / s) * S)) = b"
    proof -
      have "(c * (1 / s) * S) * (c * (1 / s) * S) + (a * (1 / s) * S) * (a * (1 / s) * S)
            = (c * c + a * a) / (s * s) * (S * S)"
        by (simp add: field_simps add_divide_distrib)
      also have "\<dots> = S * S" using spos by (simp add: s2[symmetric])
      finally show ?thesis using cdb by simp
    qed
    have ap: "applyQuaternion (Vec3 0 1 0) (Quat p 0 r w) =
                Vec3 (2 * w * (- r)) (1 - 2 * (p * p + r * r)) (2 * w * p)" for p r w :: real
      by (simp add: applyQuaternion_def Let_def cross_def multiplyScalar_def addv_def algebra_simps)
    have "applyQuaternion (Vec3 0 1 0) (setFromUnitVectors (Vec3 0 1 0) d) =
            Vec3 (2 * C * (- (- a * (1 / s) * S)))
                 (1 - 2 * ((c * (1 / s) * S) * (c * (1 / s) * S) +
                           (- a * (1 / s) * S) * (- a * (1 / s) * S)))
                 (2 * C * (c * (1 / s) * S))"
      by (simp only: q ap)
    also have "\<dots> = Vec3 a b c"
      using x y z by simp
    finally show ?thesis by (simp add: d)
  qed
qed


lemma vlength_pos_iff: "0 < vlength v \<longleftrightarrow> v \<noteq> Vec3 0 0 0"
proof -
  obtain a b c where v: "v = Vec3 a b c" by (cases v)
  show ?thesis using sum_squares_pos_iff[of a b c] by (simp add: v vlength_def)
qed

lemma distanceTo_pos_iff: "0 < distanceTo a b \<longleftrightarrow> a \<noteq> b"
proof -
  obtain a1 a2 a3 where a: "a = Vec3 a1 a2 a3" by (cases a)
  obtain b1 b2 b3 where b: "b = Vec3 b1 b2 b3" by (cases b)
  show ?thesis
    using sum_squares_pos_iff[of "a1 - b1" "a2 - b2" "a3 - b3"]
    by (auto simp: a b distanceTo_def vlength_def subVectors_def)
qed

lemma distanceTo_scaled:
  "distanceTo (multiplyScalar a s) (multiplyScalar b s) = \<bar>s\<bar> * distanceTo a b"
proof -
  obtain a1 a2 a3 where a: "a = Vec3 a1 a2 a3" by (cases a)
  obtain b1 b2 b3 where b: "b = Vec3 b1 b2 b3" by (cases b)
  have "(a1 * s - b1 * s) * (a1 * s - b1 * s) + (a2 * s - b2 * s) * (a2 * s - b2 * s) +
        (a3 * s - b3 * s) * (a3 * s - b3 * s) =
        s\<^sup>2 * ((a1 - b1) * (a1 - b1) + (a2 - b2) * (a2 - b2) + (a3 - b3) * (a3 - b3))"
    by (simp add: power2_eq_square algebra_simps)
  then show ?thesis
    by (simp add: a b distanceTo_def vlength_def subVectors_def multiplyScalar_def
          real_sqrt_mult)
qed

lemma normalize_scaled:
  assumes "0 < k"
  shows "normalize (multiplyScalar v k) = normalize v"
proof -
  obtain a b c where v: "v = Vec3 a b c" by (cases v)
  have "a * k * (a * k) + b * k * (b * k) + c * k * (c * k) = k\<^sup>2 * (a * a + b * b + c * c)"
    by (simp add: power2_eq_square algebra_simps)
  then have l: "vlength (Vec3 (a * k) (b * k) (c * k)) = k * vlength (Vec3 a b c)"
    using assms by (simp add: vlength_def real_sqrt_mult)
  show ?thesis
  proof (cases "vlength (Vec3 a b c) = 0")
    case True
    then have "a = 0 \<and> b = 0 \<and> c = 0"
      using sum_squares_pos_iff[of a b c] by (auto simp: vlength_def)
    then show ?thesis
      by (simp add: v normalize_def multiplyScalar_def vlength_def)
  next
    case False
    then have "normalize (Vec3 (a * k) (b * k) (c * k)) =
                 Vec3 (a * k * (1 / (k * vlength (Vec3 a b c))))
                      (b * k * (1 / (k * vlength (Vec3 a b c))))
                      (c * k * (1 / (k * vlength (Vec3 a b c))))"
      using assms by (simp add: normalize_def l multiplyScalar_def)
    also have "\<dots> = normalize (Vec3 a b c)"
      using assms False by (simp add: normalize_def multiplyScalar_def)
    finally show ?thesis by (simp add: v multiplyScalar_def)
  qed
qed

lemma rotate_up_onto_direction:
  "a \<noteq> b \<Longrightarrow>
   applyQuaternion (Vec3 0 1 0) (setFromUnitVectors (Vec3 0 1 0) (normalize (subVectors b a))) =
     normalize (subVectors b a)"
proof -
  assume "a \<noteq> b"
  then have "0 < distanceTo b a" by (simp add: distanceTo_pos_iff)
  then have "0 < vlength (subVectors b a)" by (simp add: distanceTo_def)
  then show ?thesis by (intro rotate_up_onto vlength_normalize)
qed

section \<open>Segments of the skeleton renderer\<close>

lemma length_updateJoints: "length (updateJoints this js lms) = length js"
  by (induction this js lms rule: updateJoints.induct) simp_all

lemma nth_updateJoints:
  "i < length js \<Longrightarrow> i < length lms \<Longrightarrow>
   updateJoints this js lms ! i = updateJoint this (lms ! i) (js ! i)"
proof (induction this js lms arbitrary: i rule: updateJoints.induct)
  case (1 this lms)
  then show ?case by simp
next
  case (2 this j js)
  then show ?case by simp
next
  case (3 this j js lm lms)
  then show ?case by (cases i) simp_all
qed

lemma updateBone_in_range:
  assumes "bone_start b < length js" and "bone_end b < length js"
  shows "updateBone this js b =
     Inr (b\<lparr>bone_mesh :=
            if joint_visible (js ! bone_start b) \<and> joint_visible (js ! bone_end b)
            then alignMesh this (js ! bone_start b) (js ! bone_end b) (bone_mesh b)
            else (bone_mesh b)\<lparr>mesh_visible := False\<rparr>\<rparr>)"
  using assms by (simp add: updateBone_def nth_opt_def)

lemma updateBones_in_range:
  assumes "list_all (\<lambda>b. bone_start b < length js \<and> bone_end b < length js) bs"
  shows "\<exists>bs'. updateBones this js bs = Inr bs' \<and> length bs' = length bs \<and>
           (\<forall>k<length bs. updateBone this js (bs ! k) = Inr (bs' ! k))"
  using assms
proof (induction bs)
  case Nil
  then show ?case by simp
next
  case (Cons b bs)
  then obtain bs' where bs': "updateBones this js bs = Inr bs'" "length bs' = length bs"
    "\<forall>k<length bs. updateBone this js (bs ! k) = Inr (bs' ! k)" by auto
  from Cons.prems obtain b' where b': "updateBone this js b = Inr b'"
    by (auto simp: updateBone_in_range)
  have "\<forall>k<length (b # bs). updateBone this js ((b # bs) ! k) = Inr ((b' # bs') ! k)"
  proof (intro allI impI)
    fix k assume "k < length (b # bs)"
    then show "updateBone this js ((b # bs) ! k) = Inr ((b' # bs') ! k)"
      using b' bs'(3) by (cases k) simp_all
  qed
  with b' bs' show ?case by simp
qed

lemma updatePose_joint:
  assumes "sr_wf this" and "length lms = 33" and "i < 33"
  shows "sr_joint (updatePose this (Some lms)) i =
           Some (updateJoint this (lms ! i) (sr_joints this ! i))"
proof -
  let ?js = "updateJoints this (sr_joints this) lms"
  have len: "length ?js = 33" using assms(1) by (simp add: length_updateJoints sr_wf_def)
  have all: "list_all (\<lambda>b. bone_start b < length ?js \<and> bone_end b < length ?js) (sr_bones this)"
    using assms(1) len by (simp add: sr_wf_def)
  from updateBones_in_range[OF all, of this] obtain bs' where
    "updateBones this ?js (sr_bones this) = Inr bs'" by blast
  then show ?thesis
    using assms len
    by (simp add: updatePose_def sr_joint_def Let_def nth_opt_def nth_updateJoints sr_wf_def)
qed

lemma updatePose_mesh:
  assumes "sr_wf this" and "length lms = 33" and "k < length (sr_bones this)"
  shows "sr_mesh (updatePose this (Some lms)) k =
     (let b = sr_bones this ! k;
          js = updateJoints this (sr_joints this) lms;
          s = js ! bone_start b;
          e = js ! bone_end b
      in Some (if joint_visible s \<and> joint_visible e
               then alignMesh this s e (bone_mesh b)
               else (bone_mesh b)\<lparr>mesh_visible := False\<rparr>))"
proof -
  let ?js = "updateJoints this (sr_joints this) lms"
  have len: "length ?js = 33" using assms(1) by (simp add: length_updateJoints sr_wf_def)
  have all: "list_all (\<lambda>b. bone_start b < length ?js \<and> bone_end b < length ?js) (sr_bones this)"
    using assms(1) len by (simp add: sr_wf_def)
  from updateBones_in_range[OF all, of this] obtain bs' where
    bs': "updateBones this ?js (sr_bones this) = Inr bs'" "length bs' = length (sr_bones this)"
    "\<forall>k<length (sr_bones this). updateBone this ?js (sr_bones this ! k) = Inr (bs' ! k)" by blast
  from all assms(3) have rng: "bone_start (sr_bones this ! k) < length ?js"
    "bone_end (sr_bones this ! k) < length ?js"
    by (simp_all add: list_all_length)
  from bs'(3) assms(3) have "updateBone this ?js (sr_bones this ! k) = Inr (bs' ! k)" by blast
  then have "bs' ! k = (sr_bones this ! k)\<lparr>bone_mesh :=
            if joint_visible (?js ! bone_start (sr_bones this ! k)) \<and>
               joint_visible (?js ! bone_end (sr_bones this ! k))
            then alignMesh this (?js ! bone_start (sr_bones this ! k))
                   (?js ! bone_end (sr_bones this ! k)) (bone_mesh (sr_bones this ! k))
            else (bone_mesh (sr_bones this ! k))\<lparr>mesh_visible := False\<rparr>\<rparr>"
    by (simp add: updateBone_in_range[OF rng])
  then show ?thesis
    using bs'(1,2) assms(2,3)
    by (simp add: updatePose_def sr_mesh_def Let_def nth_opt_def)
qed

lemma updateJoint_visible:
  "joint_visible (updateJoint this lm j) \<longleftrightarrow> js_gt (lm_visibility lm) 0.3 \<and> sr_showJoints this"
  by (simp add: updateJoint_def Let_def)

lemma updateJoint_position:
  "js_gt (lm_visibility lm) 0.3 \<Longrightarrow>
   joint_position (updateJoint this lm j) = jointPosition this lm"
  by (simp add: updateJoint_def Let_def centred_def multiplyScalar_def jointPosition_def)

lemma alignMesh_visible:
  "mesh_visible (alignMesh this s e m) \<longleftrightarrow>
     sr_showBones this \<and> joint_position s \<noteq> joint_position e"
proof -
  obtain a b c where s: "joint_position s = Vec3 a b c" by (cases "joint_position s")
  obtain a' b' c' where e: "joint_position e = Vec3 a' b' c'" by (cases "joint_position e")
  show ?thesis
    using sum_squares_pos_iff[of "a' - a" "b' - b" "c' - c"]
    by (auto simp: alignMesh_def Let_def s e)
qed

lemma alignMesh_aligned:
  assumes "joint_position s \<noteq> joint_position e"
  shows "mesh_scale_y (alignMesh this s e m) = distanceTo (joint_position e) (joint_position s)"
    and "mesh_quaternion (alignMesh this s e m) =
           setFromUnitVectors (Vec3 0 1 0)
             (normalize (subVectors (joint_position e) (joint_position s)))"
proof -
  obtain a b c where s: "joint_position s = Vec3 a b c" by (cases "joint_position s")
  obtain a' b' c' where e: "joint_position e = Vec3 a' b' c'" by (cases "joint_position e")
  have pos: "0 < sqrt ((a' - a) * (a' - a) + (b' - b) * (b' - b) + (c' - c) * (c' - c))"
    using sum_squares_pos_iff[of "a' - a" "b' - b" "c' - c"] assms by (auto simp: s e)
  show "mesh_scale_y (alignMesh this s e m) = distanceTo (joint_position e) (joint_position s)"
    using pos by (simp add: alignMesh_def Let_def s e distanceTo_def vlength_def subVectors_def)
  show "mesh_quaternion (alignMesh this s e m) =
           setFromUnitVectors (Vec3 0 1 0)
             (normalize (subVectors (joint_position e) (joint_position s)))"
    using pos by (simp add: alignMesh_def Let_def s e subVectors_def)
qed

lemma skeleton_segment:
  assumes "sr_wf this" and "length lms = 33" and "k < length (sr_bones this)"
    and "s = bone_start (sr_bones this ! k)" and "e = bone_end (sr_bones this ! k)"
  shows "\<exists>m. sr_mesh (updatePose this (Some lms)) k = Some m \<and>
          (mesh_visible m \<longleftrightarrow>
             js_gt (lm_visibility (lms ! s)) 0.3 \<and> js_gt (lm_visibility (lms ! e)) 0.3 \<and>
             sr_showJoints this \<and> sr_showBones this \<and> 0 < segmentLength this (lms ! s) (lms ! e)) \<and>
          (js_gt (lm_visibility (lms ! s)) 0.3 \<and> js_gt (lm_visibility (lms ! e)) 0.3 \<and>
           sr_showJoints this \<and> 0 < segmentLength this (lms ! s) (lms ! e) \<longrightarrow>
             mesh_scale_y m = segmentLength this (lms ! s) (lms ! e) \<and>
             mesh_quaternion m =
               setFromUnitVectors (Vec3 0 1 0)
                 (normalize (subVectors (jointPosition this (lms ! e)) (jointPosition this (lms ! s)))) \<and>
             applyQuaternion (Vec3 0 1 0) (mesh_quaternion m) =
               normalize (subVectors (jointPosition this (lms ! e)) (jointPosition this (lms ! s))))"
proof -
  from assms(1,3) have rng: "s < 33" "e < 33"
    by (simp_all add: sr_wf_def list_all_length assms(4,5))
  from assms(1) have len: "length (sr_joints this) = 33" by (simp add: sr_wf_def)
  let ?js = "updateJoints this (sr_joints this) lms"
  have js: "?js ! s = updateJoint this (lms ! s) (sr_joints this ! s)"
    "?js ! e = updateJoint this (lms ! e) (sr_joints this ! e)"
    using rng len assms(2) by (simp_all add: nth_updateJoints)
  show ?thesis
    unfolding updatePose_mesh[OF assms(1-3)] Let_def assms(4,5)[symmetric] js
    by (auto simp: updateJoint_visible updateJoint_position alignMesh_visible alignMesh_aligned
          segmentLength_def distanceTo_pos_iff rotate_up_onto_direction)
qed

lemma segmentLength_scale:
  "segmentLength this a b = \<bar>sr_scale this\<bar> * distanceTo (centred b) (centred a)"
  by (simp add: segmentLength_def jointPosition_def distanceTo_scaled)

lemma init_wf: "sr_wf SkeletonRenderer_init"
  by (simp add: sr_wf_def SkeletonRenderer_init_def createSkeleton_def connections_def)

lemma init_bones:
  "2 < length (sr_bones SkeletonRenderer_init)"
  "bone_start (sr_bones SkeletonRenderer_init ! 2) = 11"
  "bone_end (sr_bones SkeletonRenderer_init ! 2) = 12"
  by (simp_all add: SkeletonRenderer_init_def createSkeleton_def connections_def)

lemma init_flags:
  "sr_showJoints SkeletonRenderer_init" "sr_showBones SkeletonRenderer_init"
  "sr_scale SkeletonRenderer_init = 1"
  by (simp_all add: SkeletonRenderer_init_def createSkeleton_def)

lemma demoFrame_nth:
  "length demoFrame = 33" "demoFrame ! 11 = demoLandmark 11" "demoFrame ! 12 = demoLandmark 12"
  by (simp_all add: demoFrame_def)

lemma demo_visible:
  "js_gt (lm_visibility (demoFrame ! 11)) 0.3" "js_gt (lm_visibility (demoFrame ! 12)) 0.3"
  by (simp_all add: demoFrame_nth demoLandmark_def)

lemma demo_distance: "distanceTo (centred (demoLandmark 12)) (centred (demoLandmark 11)) = 1"
  by (simp add: distanceTo_def centred_def demoLandmark_def vlength_def subVectors_def)





section \<open>Segments of the skeleton viewer\<close>

lemma updateSphere_fields:
  "joint_position (updateSphere world lm s) = viewerPosition world lm"
  "joint_visible (updateSphere world lm s) = js_gt (lm_visibility lm) 0.5"
  by (simp_all add: updateSphere_def viewerPosition_def)

lemma length_updateSpheres: "length (updateSpheres world ss lms) = length ss"
  by (induction world ss lms rule: updateSpheres.induct) simp_all

lemma nth_updateSpheres:
  "i < length ss \<Longrightarrow> i < length lms \<Longrightarrow>
   updateSpheres world ss lms ! i = updateSphere world (lms ! i) (ss ! i)"
proof (induction world ss lms arbitrary: i rule: updateSpheres.induct)
  case (1 world lms)
  then show ?case by simp
next
  case (2 world s ss)
  then show ?case by simp
next
  case (3 world s ss lm lms)
  then show ?case by (cases i) simp_all
qed

lemma segmentCylinder_in_range:
  assumes "fst c < length ss" and "snd c < length ss"
  shows "segmentCylinder ss c =
           Inr (if joint_visible (ss ! fst c) \<and> joint_visible (ss ! snd c)
                then makeCylinder (ss ! fst c) (ss ! snd c) else None)"
  using assms by (simp add: segmentCylinder_def nth_opt_def)

lemma segmentCylinders_in_range:
  assumes "list_all (\<lambda>c. fst c < length ss \<and> snd c < length ss) cs"
  shows "segmentCylinders ss cs =
           Inr (List.map_filter
                  (\<lambda>c. case segmentCylinder ss c of Inl e \<Rightarrow> None | Inr r \<Rightarrow> r) cs)"
  using assms
proof (induction cs)
  case Nil
  then show ?case by simp
next
  case (Cons c cs)
  then show ?case
    by (simp add: segmentCylinder_in_range split: option.splits)
qed

lemma map_filter_None: "List.map_filter (\<lambda>c. None) cs = []"
  by (induction cs) simp_all

lemma makeCylinder_eq:
  "makeCylinder s e =
     (if 0.01 < distanceTo (joint_position e) (joint_position s)
      then Some \<lparr>cyl_length = distanceTo (joint_position e) (joint_position s),
                 cyl_position = addv (joint_position s)
                    (multiplyScalar (subVectors (joint_position e) (joint_position s)) 0.5),
                 cyl_quaternion = setFromUnitVectors (Vec3 0 1 0)
                    (normalize (subVectors (joint_position e) (joint_position s)))\<rparr>
      else None)"
  using normalize_scaled[of "0.5" "subVectors (joint_position e) (joint_position s)"]
  by (simp add: makeCylinder_def Let_def distanceTo_def)

lemma viewer_segment:
  assumes "mv_wf viewer" and "pd_poses pd = Some (p # ps)"
    and "length (selectedLandmarks p) = 33" and "c \<in> set (mv_boneConnections viewer)"
    and "w = (0 < length (worldLandmarks p))"
    and "a = viewerPosition w (selectedLandmarks p ! fst c)"
    and "b = viewerPosition w (selectedLandmarks p ! snd c)"
  shows "\<exists>viewer'. updateVisualization viewer pd = Inr viewer' \<and>
           mv_boneCylinders viewer' =
             List.map_filter (mv_segment viewer') (mv_boneConnections viewer') \<and>
           mv_segment viewer' c =
             (if mv_showSkeleton viewer \<and>
                 js_gt (lm_visibility (selectedLandmarks p ! fst c)) 0.5 \<and>
                 js_gt (lm_visibility (selectedLandmarks p ! snd c)) 0.5 \<and>
                 0.01 < distanceTo b a
              then Some \<lparr>cyl_length = distanceTo b a,
                         cyl_position = addv a (multiplyScalar (subVectors b a) 0.5),
                         cyl_quaternion =
                           setFromUnitVectors (Vec3 0 1 0) (normalize (subVectors b a))\<rparr>
              else None)"
proof -
  let ?lms = "selectedLandmarks p"
  let ?ss = "updateSpheres w (mv_jointSpheres viewer) ?lms"
  let ?v1 = "viewer\<lparr>mv_jointSpheres := ?ss\<rparr>"
  have len: "length ?ss = 33" using assms(1) by (simp add: length_updateSpheres mv_wf_def)
  have all: "list_all (\<lambda>c. fst c < length ?ss \<and> snd c < length ?ss) (mv_boneConnections viewer)"
    using assms(1) len by (simp add: mv_wf_def)
  from all assms(4) have rng: "fst c < 33" "snd c < 33"
    using len by (auto simp: list_all_iff)
  have u: "updateVisualization viewer pd = mv_updateBones ?v1"
    using assms(2,5) by (simp add: updateVisualization_def Let_def selectedLandmarks_def)
  define viewer' where "viewer' =
      ?v1\<lparr>mv_boneCylinders :=
             (if mv_showSkeleton viewer
              then List.map_filter
                     (\<lambda>c. case segmentCylinder ?ss c of Inl e \<Rightarrow> None | Inr r \<Rightarrow> r)
                     (mv_boneConnections viewer)
              else [])\<rparr>"
  have r: "updateVisualization viewer pd = Inr viewer'"
    unfolding u viewer'_def
    by (simp add: mv_updateBones_def segmentCylinders_in_range[OF all])
  have seg: "mv_segment viewer' = (\<lambda>c. if mv_showSkeleton viewer
        then (case segmentCylinder ?ss c of Inl e \<Rightarrow> None | Inr r \<Rightarrow> r) else None)"
    by (rule ext) (simp add: mv_segment_def viewer'_def)
  have cyls: "mv_boneCylinders viewer' =
      List.map_filter (mv_segment viewer') (mv_boneConnections viewer')"
    unfolding seg by (simp add: viewer'_def map_filter_None)
  have nth: "?ss ! fst c = updateSphere w (?lms ! fst c) (mv_jointSpheres viewer ! fst c)"
    "?ss ! snd c = updateSphere w (?lms ! snd c) (mv_jointSpheres viewer ! snd c)"
    using rng assms(1,3) by (simp_all add: nth_updateSpheres mv_wf_def)
  have sc: "segmentCylinder ?ss c =
      Inr (if js_gt (lm_visibility (?lms ! fst c)) 0.5 \<and> js_gt (lm_visibility (?lms ! snd c)) 0.5
           then makeCylinder (?ss ! fst c) (?ss ! snd c) else None)"
    using rng len by (simp add: segmentCylinder_in_range nth updateSphere_fields)
  have "mv_segment viewer' c =
             (if mv_showSkeleton viewer \<and>
                 js_gt (lm_visibility (?lms ! fst c)) 0.5 \<and>
                 js_gt (lm_visibility (?lms ! snd c)) 0.5 \<and>
                 0.01 < distanceTo b a
              then Some \<lparr>cyl_length = distanceTo b a,
                         cyl_position = addv a (multiplyScalar (subVectors b a) 0.5),
                         cyl_quaternion =
                           setFromUnitVectors (Vec3 0 1 0) (normalize (subVectors b a))\<rparr>
              else None)"
    unfolding seg sc
    by (simp add: makeCylinder_eq nth updateSphere_fields assms(6,7))
  with r cyls show ?thesis by blast
qed

lemma viewer_init_wf: "mv_wf PoseModelViewer_init"
  by (simp add: mv_wf_def PoseModelViewer_init_def boneConnections_def)

lemma viewer_init_fields:
  "(11, 12) \<in> set (mv_boneConnections PoseModelViewer_init)"
  "mv_showSkeleton PoseModelViewer_init"
  by (simp_all add: PoseModelViewer_init_def boneConnections_def)

lemma boundary_pose:
  "pd_poses boundaryFrame =
     Some (\<lparr>personId = 0, landmarks = [], worldLandmarks = map boundaryLandmark [0 ..< 33]\<rparr> # [])"
  "selectedLandmarks \<lparr>personId = 0, landmarks = [], worldLandmarks = map boundaryLandmark [0 ..< 33]\<rparr>
     = map boundaryLandmark [0 ..< 33]"
  "0 < length (worldLandmarks
     \<lparr>personId = 0, landmarks = [], worldLandmarks = map boundaryLandmark [0 ..< 33]\<rparr>)"
  by (simp_all add: boundaryFrame_def frameOf_def selectedLandmarks_def)

lemma boundary_positions:
  "viewerPosition True (boundaryLandmark 11) = Vec3 0 1 0"
  "viewerPosition True (boundaryLandmark 12) = Vec3 0.01 1 0"
  "lm_visibility (boundaryLandmark 11) = Num 1"
  "lm_visibility (boundaryLandmark 12) = Num 1"
  by (simp_all add: viewerPosition_def boundaryLandmark_def wireLandmark_def)

lemma boundary_distance: "distanceTo (Vec3 (1 / 100) 1 0) (Vec3 0 1 0) = 1 / 100"
proof -
  have "sqrt ((1 / 100) * (1 / 100)) = (1 / 100 :: real)"
    by (simp only: real_sqrt_abs2; simp)
  then show ?thesis
    by (simp add: distanceTo_def vlength_def subVectors_def)
qed

section \<open>Limbs of the character viewer\<close>















lemma procedural_update:
  assumes "procedural viewer" and "pd_poses pd = Some (p # ps)"
    and "33 \<le> length (selectedLandmarks p)"
  shows "cv_bones (updateCharacterFromPose viewer pd) =
           updateProceduralRig (cv_bones viewer) (selectedLandmarks p)
             (getPos (0 < length (worldLandmarks p)) (selectedLandmarks p))"
  using assms
  by (auto simp: updateCharacterFromPose_def procedural_def selectedLandmarks_def Let_def)


section \<open>Visibility of the segments\<close>




lemma demo_segment:
  "2 < length (sr_bones SkeletonRenderer_init)"
  "js_gt (lm_visibility (demoFrame ! bone_start (sr_bones SkeletonRenderer_init ! 2))) 0.3"
  "js_gt (lm_visibility (demoFrame ! bone_end (sr_bones SkeletonRenderer_init ! 2))) 0.3"
  "segmentLength SkeletonRenderer_init (demoFrame ! bone_start (sr_bones SkeletonRenderer_init ! 2))
     (demoFrame ! bone_end (sr_bones SkeletonRenderer_init ! 2)) = 1"
proof -
  show "2 < length (sr_bones SkeletonRenderer_init)" by (rule init_bones(1))
  show "js_gt (lm_visibility (demoFrame ! bone_start (sr_bones SkeletonRenderer_init ! 2))) 0.3"
    unfolding init_bones by (rule demo_visible(1))
  show "js_gt (lm_visibility (demoFrame ! bone_end (sr_bones SkeletonRenderer_init ! 2))) 0.3"
    unfolding init_bones by (rule demo_visible(2))
  show "segmentLength SkeletonRenderer_init
          (demoFrame ! bone_start (sr_bones SkeletonRenderer_init ! 2))
          (demoFrame ! bone_end (sr_bones SkeletonRenderer_init ! 2)) = 1"
    unfolding init_bones segmentLength_scale demoFrame_nth demo_distance
    by (simp add: init_flags)
qed



section \<open>Orientation of the segments\<close>

text \<open>
  C3, as the spec states it, fails at the boundary: in the skeleton viewer two fully confident
  endpoints that lie exactly 0.01 apart, the viewer's epsilon, make a segment whose length is at
  least epsilon, yet the test is \<open>length > 0.01\<close> and no cylinder is drawn for it.
\<close>

theorem segment_orientation_counterexample:
  "distanceTo (viewerPosition True (boundaryLandmark 12)) (viewerPosition True (boundaryLandmark 11))
     = 0.01 \<and>
   lm_visibility (boundaryLandmark 11) = Num 1 \<and> lm_visibility (boundaryLandmark 12) = Num 1 \<and>
   mv_showSkeleton PoseModelViewer_init \<and>
   (case updateVisualization PoseModelViewer_init boundaryFrame of
      Inl e \<Rightarrow> False
    | Inr viewer' \<Rightarrow> mv_segment viewer' (11, 12) = None)"
proof -
  from viewer_segment[OF viewer_init_wf boundary_pose(1) _ viewer_init_fields(1) refl refl refl]
  obtain viewer' where "updateVisualization PoseModelViewer_init boundaryFrame = Inr viewer'"
    and "mv_segment viewer' (11, 12) = None"
    by (auto simp: boundary_pose boundary_positions boundary_distance)
  then show ?thesis
    by (simp add: boundary_positions boundary_distance viewer_init_fields)
qed

text \<open>
  C3, amended, over the reals and with the quaternion construction the spec describes. Skeleton
  renderer, for a segment whose two joints are visible: if its length is above zero, the
  orientation is what \<open>setFromUnitVectors\<close> gives for the up-axis \<open>(0, 1, 0)\<close> and the
  normalised vector from its start to its end, and it rotates the up-axis exactly onto that
  vector; if its length is zero, the segment is hidden. Skeleton viewer: the orientation of
  every cylinder that is drawn is formed in the same way and rotates the up-axis exactly onto the
  normalised vector from the start to the end of its connection, and no cylinder is drawn for
  endpoints that lie 0.01 or less apart.
\<close>

theorem segment_orientation:
  "(sr_wf this \<longrightarrow> length lms = 33 \<longrightarrow> k < length (sr_bones this) \<longrightarrow>
    js_gt (lm_visibility (lms ! bone_start (sr_bones this ! k))) 0.3 \<longrightarrow>
    js_gt (lm_visibility (lms ! bone_end (sr_bones this ! k))) 0.3 \<longrightarrow> sr_showJoints this \<longrightarrow>
      (\<exists>m. sr_mesh (updatePose this (Some lms)) k = Some m \<and>
         (0 < segmentLength this (lms ! bone_start (sr_bones this ! k))
                (lms ! bone_end (sr_bones this ! k)) \<longrightarrow>
            mesh_quaternion m =
              setFromUnitVectors (Vec3 0 1 0)
                (normalize (subVectors (jointPosition this (lms ! bone_end (sr_bones this ! k)))
                                       (jointPosition this (lms ! bone_start (sr_bones this ! k))))) \<and>
            applyQuaternion (Vec3 0 1 0) (mesh_quaternion m) =
              normalize (subVectors (jointPosition this (lms ! bone_end (sr_bones this ! k)))
                                    (jointPosition this (lms ! bone_start (sr_bones this ! k))))) \<and>
         (segmentLength this (lms ! bone_start (sr_bones this ! k))
                (lms ! bone_end (sr_bones this ! k)) = 0 \<longrightarrow> \<not> mesh_visible m))) \<and>
   (mv_wf viewer \<longrightarrow> pd_poses pd = Some (p # ps) \<longrightarrow> length (selectedLandmarks p) = 33 \<longrightarrow>
    c \<in> set (mv_boneConnections viewer) \<longrightarrow>
      (\<exists>viewer'. updateVisualization viewer pd = Inr viewer' \<and>
         (\<forall>cyl. mv_segment viewer' c = Some cyl \<longrightarrow>
            cyl_quaternion cyl =
              setFromUnitVectors (Vec3 0 1 0) (normalize (subVectors
                (viewerPosition (0 < length (worldLandmarks p)) (selectedLandmarks p ! snd c))
                (viewerPosition (0 < length (worldLandmarks p)) (selectedLandmarks p ! fst c)))) \<and>
            applyQuaternion (Vec3 0 1 0) (cyl_quaternion cyl) =
              normalize (subVectors
                (viewerPosition (0 < length (worldLandmarks p)) (selectedLandmarks p ! snd c))
                (viewerPosition (0 < length (worldLandmarks p)) (selectedLandmarks p ! fst c)))) \<and>
         (distanceTo
            (viewerPosition (0 < length (worldLandmarks p)) (selectedLandmarks p ! snd c))
            (viewerPosition (0 < length (worldLandmarks p)) (selectedLandmarks p ! fst c)) \<le> 0.01
          \<longrightarrow> mv_segment viewer' c = None)))"
proof (intro conjI impI)
  assume a: "sr_wf this" "length lms = 33" "k < length (sr_bones this)"
    and v: "js_gt (lm_visibility (lms ! bone_start (sr_bones this ! k))) 0.3"
      "js_gt (lm_visibility (lms ! bone_end (sr_bones this ! k))) 0.3" "sr_showJoints this"
  from skeleton_segment[OF a refl refl] v
  show "\<exists>m. sr_mesh (updatePose this (Some lms)) k = Some m \<and>
         (0 < segmentLength this (lms ! bone_start (sr_bones this ! k))
                (lms ! bone_end (sr_bones this ! k)) \<longrightarrow>
            mesh_quaternion m =
              setFromUnitVectors (Vec3 0 1 0)
                (normalize (subVectors (jointPosition this (lms ! bone_end (sr_bones this ! k)))
                                       (jointPosition this (lms ! bone_start (sr_bones this ! k))))) \<and>
            applyQuaternion (Vec3 0 1 0) (mesh_quaternion m) =
              normalize (subVectors (jointPosition this (lms ! bone_end (sr_bones this ! k)))
                                    (jointPosition this (lms ! bone_start (sr_bones this ! k))))) \<and>
         (segmentLength this (lms ! bone_start (sr_bones this ! k))
                (lms ! bone_end (sr_bones this ! k)) = 0 \<longrightarrow> \<not> mesh_visible m)"
    by auto
next
  let ?a = "viewerPosition (0 < length (worldLandmarks p)) (selectedLandmarks p ! fst c)"
  let ?b = "viewerPosition (0 < length (worldLandmarks p)) (selectedLandmarks p ! snd c)"
  assume a: "mv_wf viewer" "pd_poses pd = Some (p # ps)" "length (selectedLandmarks p) = 33"
    "c \<in> set (mv_boneConnections viewer)"
  from viewer_segment[OF a refl refl refl]
  obtain viewer' where v: "updateVisualization viewer pd = Inr viewer'"
    "mv_segment viewer' c =
       (if mv_showSkeleton viewer \<and>
           js_gt (lm_visibility (selectedLandmarks p ! fst c)) 0.5 \<and>
           js_gt (lm_visibility (selectedLandmarks p ! snd c)) 0.5 \<and>
           0.01 < distanceTo ?b ?a
        then Some \<lparr>cyl_length = distanceTo ?b ?a,
                   cyl_position = addv ?a (multiplyScalar (subVectors ?b ?a) 0.5),
                   cyl_quaternion = setFromUnitVectors (Vec3 0 1 0) (normalize (subVectors ?b ?a))\<rparr>
        else None)"
    by blast
  have rot: "0.01 < distanceTo ?b ?a \<Longrightarrow>
        applyQuaternion (Vec3 0 1 0) (setFromUnitVectors (Vec3 0 1 0) (normalize (subVectors ?b ?a)))
          = normalize (subVectors ?b ?a)"
  proof -
    assume "0.01 < distanceTo ?b ?a"
    then have "0 < distanceTo ?b ?a" by simp
    then have "?a \<noteq> ?b" by (auto simp: distanceTo_pos_iff)
    then show ?thesis by (rule rotate_up_onto_direction)
  qed
  show "\<exists>viewer'. updateVisualization viewer pd = Inr viewer' \<and>
         (\<forall>cyl. mv_segment viewer' c = Some cyl \<longrightarrow>
            cyl_quaternion cyl = setFromUnitVectors (Vec3 0 1 0) (normalize (subVectors ?b ?a)) \<and>
            applyQuaternion (Vec3 0 1 0) (cyl_quaternion cyl) = normalize (subVectors ?b ?a)) \<and>
         (distanceTo ?b ?a \<le> 0.01 \<longrightarrow> mv_segment viewer' c = None)"
    using rot by (intro exI[of _ viewer'] conjI v(1)) (auto simp: v(2) split: if_splits)
qed

theorem segment_orientation_witness:
  "(\<exists>m. sr_mesh (updatePose SkeletonRenderer_init (Some demoFrame)) 2 = Some m \<and>
        applyQuaternion (Vec3 0 1 0) (mesh_quaternion m) =
          normalize (subVectors
            (jointPosition SkeletonRenderer_init
               (demoFrame ! bone_end (sr_bones SkeletonRenderer_init ! 2)))
            (jointPosition SkeletonRenderer_init
               (demoFrame ! bone_start (sr_bones SkeletonRenderer_init ! 2))))) \<and>
   (\<exists>viewer'. updateVisualization PoseModelViewer_init boundaryFrame = Inr viewer' \<and>
               mv_segment viewer' (11, 12) = None)"
proof
  have pos: "0 < segmentLength SkeletonRenderer_init
                 (demoFrame ! bone_start (sr_bones SkeletonRenderer_init ! 2))
                 (demoFrame ! bone_end (sr_bones SkeletonRenderer_init ! 2))"
    unfolding demo_segment(4) by simp
  from segment_orientation[where this = SkeletonRenderer_init and lms = demoFrame and k = 2,
      THEN conjunct1, rule_format,
      OF init_wf demoFrame_nth(1) demo_segment(1) demo_segment(2) demo_segment(3) init_flags(1)]
  obtain m where "sr_mesh (updatePose SkeletonRenderer_init (Some demoFrame)) 2 = Some m"
    and "0 < segmentLength SkeletonRenderer_init
               (demoFrame ! bone_start (sr_bones SkeletonRenderer_init ! 2))
               (demoFrame ! bone_end (sr_bones SkeletonRenderer_init ! 2)) \<longrightarrow>
         mesh_quaternion m =
           setFromUnitVectors (Vec3 0 1 0)
             (normalize (subVectors
                (jointPosition SkeletonRenderer_init
                   (demoFrame ! bone_end (sr_bones SkeletonRenderer_init ! 2)))
                (jointPosition SkeletonRenderer_init
                   (demoFrame ! bone_start (sr_bones SkeletonRenderer_init ! 2))))) \<and>
         applyQuaternion (Vec3 0 1 0) (mesh_quaternion m) =
           normalize (subVectors
             (jointPosition SkeletonRenderer_init
                (demoFrame ! bone_end (sr_bones SkeletonRenderer_init ! 2)))
             (jointPosition SkeletonRenderer_init
                (demoFrame ! bone_start (sr_bones SkeletonRenderer_init ! 2))))"
    by blast
  with pos
  show "\<exists>m. sr_mesh (updatePose SkeletonRenderer_init (Some demoFrame)) 2 = Some m \<and>
        applyQuaternion (Vec3 0 1 0) (mesh_quaternion m) =
          normalize (subVectors
            (jointPosition SkeletonRenderer_init
               (demoFrame ! bone_end (sr_bones SkeletonRenderer_init ! 2)))
            (jointPosition SkeletonRenderer_init
               (demoFrame ! bone_start (sr_bones SkeletonRenderer_init ! 2))))"
    by blast
next
  have d: "distanceTo
      (viewerPosition (0 < length (worldLandmarks
         \<lparr>personId = 0, landmarks = [], worldLandmarks = map boundaryLandmark [0 ..< 33]\<rparr>))
         (selectedLandmarks
            \<lparr>personId = 0, landmarks = [], worldLandmarks = map boundaryLandmark [0 ..< 33]\<rparr>
          ! snd (11, 12)))
      (viewerPosition (0 < length (worldLandmarks
         \<lparr>personId = 0, landmarks = [], worldLandmarks = map boundaryLandmark [0 ..< 33]\<rparr>))
         (selectedLandmarks
            \<lparr>personId = 0, landmarks = [], worldLandmarks = map boundaryLandmark [0 ..< 33]\<rparr>
          ! fst (11, 12))) \<le> 0.01"
    by (simp add: boundary_pose boundary_positions boundary_distance)
  have l: "length (selectedLandmarks
      \<lparr>personId = 0, landmarks = [], worldLandmarks = map boundaryLandmark [0 ..< 33]\<rparr>) = 33"
    by (simp add: boundary_pose)
  from segment_orientation[where viewer = PoseModelViewer_init and c = "(11, 12)"
      and pd = boundaryFrame
      and p = "\<lparr>personId = 0, landmarks = [], worldLandmarks = map boundaryLandmark [0 ..< 33]\<rparr>"
      and ps = "[]"]
  show "\<exists>viewer'. updateVisualization PoseModelViewer_init boundaryFrame = Inr viewer' \<and>
               mv_segment viewer' (11, 12) = None"
    using viewer_init_wf viewer_init_fields(1) boundary_pose(1) l d by blast
qed

section \<open>Coordinate conversion\<close>

lemma centre_pose:
  "pd_poses (frameOf (replicate 33 (wireLandmark 0.5 0.5 0 (Num 1))) []) =
     Some (\<lparr>personId = 0, landmarks = replicate 33 (wireLandmark 0.5 0.5 0 (Num 1)),
            worldLandmarks = []\<rparr> # [])"
  "selectedLandmarks
     \<lparr>personId = 0, landmarks = replicate 33 (wireLandmark 0.5 0.5 0 (Num 1)), worldLandmarks = []\<rparr>
     = replicate 33 (wireLandmark 0.5 0.5 0 (Num 1))"
  "\<not> 0 < length (worldLandmarks
     \<lparr>personId = 0, landmarks = replicate 33 (wireLandmark 0.5 0.5 0 (Num 1)), worldLandmarks = []\<rparr>)"
  by (simp_all add: frameOf_def selectedLandmarks_def)

lemma init_procedural: "procedural CharacterPoseViewer_init"
  by (simp add: procedural_def init_fields)

lemma head_position:
  assumes "procedural viewer" and "pd_poses pd = Some (p # ps)"
    and "33 \<le> length (selectedLandmarks p)" and "cv_bones viewer ''head'' \<noteq> None"
    and "js_gt (lm_visibility (selectedLandmarks p ! NOSE)) 0.5"
  shows "map_option mesh_position (cv_bones (updateCharacterFromPose viewer pd) ''head'') =
           Some (getPos (0 < length (worldLandmarks p)) (selectedLandmarks p) NOSE)"
  using assms(4)
  by (auto simp: procedural_update[OF assms(1-3)] updateProceduralRig_head[OF assms(5)])

text \<open>
  C4, as the spec states it, fails for normalised input in the character viewer: its \<open>getPos\<close>
  adds the vertical offset 1.5 in that branch too, so a nose at the centre of the image
  (\<open>y = 0.5\<close>) puts the head at height 1.5, not at \<open>- (y - 0.5) * 2 = 0\<close>.
\<close>

theorem coordinate_conversion_counterexample:
  "map_option (vy \<circ> mesh_position)
     (cv_bones (updateCharacterFromPose CharacterPoseViewer_init
                  (frameOf (replicate 33 (wireLandmark 0.5 0.5 0 (Num 1))) [])) ''head'') = Some 1.5 \<and>
   - (lm_y (wireLandmark 0.5 0.5 0 (Num 1)) - 0.5) * 2 = 0"
proof -
  have "js_gt (lm_visibility (replicate 33 (wireLandmark 0.5 0.5 0 (Num 1)) ! NOSE)) 0.5"
    by (simp add: NOSE_def wireLandmark_def)
  from head_position[OF init_procedural centre_pose(1), unfolded centre_pose(2), OF _ _ this]
  have "map_option mesh_position
     (cv_bones (updateCharacterFromPose CharacterPoseViewer_init
                  (frameOf (replicate 33 (wireLandmark 0.5 0.5 0 (Num 1))) [])) ''head'') =
     Some (getPos False (replicate 33 (wireLandmark 0.5 0.5 0 (Num 1))) NOSE)"
    by (simp add: init_fields centre_pose(3))
  moreover have "getPos False (replicate 33 (wireLandmark 0.5 0.5 0 (Num 1))) NOSE = Vec3 0 1.5 0"
    by (simp add: getPos_def NOSE_def wireLandmark_def)
  ultimately show ?thesis
    by (auto simp: wireLandmark_def)
qed

text \<open>
  C4, amended. Skeleton renderer: a joint whose landmark has confidence above 0.3 is placed at
  \<open>((x - 0.5) * 2, - (y - 0.5) * 2, - z * 2)\<close> times the global scale (depth scale 2, no
  vertical offset). Character viewer: \<open>getPos\<close> maps a world landmark to
  \<open>(- x, - y + 1.5, - z)\<close> and a normalised landmark to
  \<open>((x - 0.5) * 2, - (y - 0.5) * 2 + 1.5, - z * 2)\<close>, the vertical offset 1.5 in both spaces,
  for every landmark; the head of the procedural rig is put there when the nose has confidence
  above 0.5.
\<close>

theorem coordinate_conversion:
  "(sr_wf this \<longrightarrow> length lms = 33 \<longrightarrow> i < 33 \<longrightarrow> js_gt (lm_visibility (lms ! i)) 0.3 \<longrightarrow>
      map_option joint_position (sr_joint (updatePose this (Some lms)) i) =
        Some (multiplyScalar
                (Vec3 ((lm_x (lms ! i) - 0.5) * 2) (- (lm_y (lms ! i) - 0.5) * 2)
                      (- lm_z (lms ! i) * 2))
                (sr_scale this))) \<and>
   getPos True wlms j = Vec3 (- lm_x (wlms ! j)) (- lm_y (wlms ! j) + 1.5) (- lm_z (wlms ! j)) \<and>
   getPos False wlms j =
     Vec3 ((lm_x (wlms ! j) - 0.5) * 2) (- (lm_y (wlms ! j) - 0.5) * 2 + 1.5)
          (- lm_z (wlms ! j) * 2) \<and>
   (procedural viewer \<longrightarrow> pd_poses pd = Some (p # ps) \<longrightarrow> 33 \<le> length (selectedLandmarks p) \<longrightarrow>
    cv_bones viewer ''head'' \<noteq> None \<longrightarrow> js_gt (lm_visibility (selectedLandmarks p ! NOSE)) 0.5 \<longrightarrow>
      map_option mesh_position (cv_bones (updateCharacterFromPose viewer pd) ''head'') =
        Some (getPos (0 < length (worldLandmarks p)) (selectedLandmarks p) NOSE))"
proof (intro conjI impI)
  assume a: "sr_wf this" "length lms = 33" "i < 33" and v: "js_gt (lm_visibility (lms ! i)) 0.3"
  show "map_option joint_position (sr_joint (updatePose this (Some lms)) i) =
        Some (multiplyScalar
                (Vec3 ((lm_x (lms ! i) - 0.5) * 2) (- (lm_y (lms ! i) - 0.5) * 2)
                      (- lm_z (lms ! i) * 2))
                (sr_scale this))"
    by (simp add: updatePose_joint[OF a] updateJoint_position[OF v] jointPosition_def centred_def)
next
  show "getPos True wlms j = Vec3 (- lm_x (wlms ! j)) (- lm_y (wlms ! j) + 1.5) (- lm_z (wlms ! j))"
    by (simp add: getPos_def Let_def)
next
  show "getPos False wlms j =
     Vec3 ((lm_x (wlms ! j) - 0.5) * 2) (- (lm_y (wlms ! j) - 0.5) * 2 + 1.5)
          (- lm_z (wlms ! j) * 2)"
    by (simp add: getPos_def Let_def)
next
  assume "procedural viewer" "pd_poses pd = Some (p # ps)" "33 \<le> length (selectedLandmarks p)"
    "cv_bones viewer ''head'' \<noteq> None" "js_gt (lm_visibility (selectedLandmarks p ! NOSE)) 0.5"
  then show "map_option mesh_position (cv_bones (updateCharacterFromPose viewer pd) ''head'') =
        Some (getPos (0 < length (worldLandmarks p)) (selectedLandmarks p) NOSE)"
    by (rule head_position)
qed

theorem coordinate_conversion_witness:
  "map_option joint_position (sr_joint (updatePose SkeletonRenderer_init (Some demoFrame)) 12) =
     Some (Vec3 1 0 0) \<and>
   getPos True [wireLandmark 1 2 3 (Num 1)] 0 = Vec3 (- 1) (- 0.5) (- 3) \<and>
   getPos False [wireLandmark 1 2 3 (Num 1)] 0 = Vec3 1 (- 1.5) (- 6)"
  using coordinate_conversion[where this = SkeletonRenderer_init and lms = demoFrame and i = 12
      and wlms = "[wireLandmark 1 2 3 (Num 1)]" and j = 0]
    init_wf demoFrame_nth(1) demo_visible(2)
  by (simp add: demoFrame_nth demoLandmark_def init_flags multiplyScalar_def wireLandmark_def)


section \<open>Properties of the skeleton renderer with rounding\<close>

subsection \<open>Without rounding it is the exact rendering\<close>

lemma updateJointR_exact: "updateJointR (\<lambda>x. x) this lm j = updateJoint this lm j"
  by (simp add: updateJointR_def updateJoint_def)

lemma updateJointsR_exact: "updateJointsR (\<lambda>x. x) this js lms = updateJoints this js lms"
  by (induction this js lms rule: updateJoints.induct) (simp_all add: updateJointR_exact)

lemma alignMeshR_exact: "alignMeshR (\<lambda>x. x) this s e m = alignMesh this s e m"
  by (simp add: alignMeshR_def alignMesh_def)

lemma updateBoneR_exact: "updateBoneR (\<lambda>x. x) this js b = updateBone this js b"
  by (simp add: updateBoneR_def updateBone_def alignMeshR_exact split: option.splits)

lemma updateBonesR_exact: "updateBonesR (\<lambda>x. x) this js bs = updateBones this js bs"
  by (induction bs) (simp_all add: updateBoneR_exact split: sum.splits)

lemma updatePoseR_exact: "updatePoseR (\<lambda>x. x) this arg = updatePose this arg"
  by (simp add: updatePoseR_def updatePose_def updateJointsR_exact updateBonesR_exact
        split: option.splits)

subsection \<open>Joints and segments\<close>

lemma length_updateJointsR: "length (updateJointsR rnd this js lms) = length js"
  by (induction rnd this js lms rule: updateJointsR.induct) simp_all

lemma nth_updateJointsR:
  "i < length js \<Longrightarrow> i < length lms \<Longrightarrow>
   updateJointsR rnd this js lms ! i = updateJointR rnd this (lms ! i) (js ! i)"
proof (induction rnd this js lms arbitrary: i rule: updateJointsR.induct)
  case (1 rnd this lms)
  then show ?case by simp
next
  case (2 rnd this j js)
  then show ?case by simp
next
  case (3 rnd this j js lm lms)
  then show ?case by (cases i) simp_all
qed

lemma updateBoneR_in_range:
  assumes "bone_start b < length js" and "bone_end b < length js"
  shows "updateBoneR rnd this js b =
     Inr (b\<lparr>bone_mesh :=
            if joint_visible (js ! bone_start b) \<and> joint_visible (js ! bone_end b)
            then alignMeshR rnd this (js ! bone_start b) (js ! bone_end b) (bone_mesh b)
            else (bone_mesh b)\<lparr>mesh_visible := False\<rparr>\<rparr>)"
  using assms by (simp add: updateBoneR_def nth_opt_def)

lemma updateBonesR_in_range:
  assumes "list_all (\<lambda>b. bone_start b < length js \<and> bone_end b < length js) bs"
  shows "\<exists>bs'. updateBonesR rnd this js bs = Inr bs' \<and> length bs' = length bs \<and>
           (\<forall>k<length bs. updateBoneR rnd this js (bs ! k) = Inr (bs' ! k))"
  using assms
proof (induction bs)
  case Nil
  then show ?case by simp
next
  case (Cons b bs)
  then obtain bs' where bs': "updateBonesR rnd this js bs = Inr bs'" "length bs' = length bs"
    "\<forall>k<length bs. updateBoneR rnd this js (bs ! k) = Inr (bs' ! k)" by auto
  from Cons.prems obtain b' where b': "updateBoneR rnd this js b = Inr b'"
    by (auto simp: updateBoneR_in_range)
  have "\<forall>k<length (b # bs). updateBoneR rnd this js ((b # bs) ! k) = Inr ((b' # bs') ! k)"
  proof (intro allI impI)
    fix k assume "k < length (b # bs)"
    then show "updateBoneR rnd this js ((b # bs) ! k) = Inr ((b' # bs') ! k)"
      using b' bs'(3) by (cases k) simp_all
  qed
  with b' bs' show ?case by simp
qed

lemma updatePoseR_mesh:
  assumes "sr_wf this" and "length lms = 33" and "k < length (sr_bones this)"
  shows "sr_mesh (updatePoseR rnd this (Some lms)) k =
     (let b = sr_bones this ! k;
          js = jointsOf rnd this lms;
          s = js ! bone_start b;
          e = js ! bone_end b
      in Some (if joint_visible s \<and> joint_visible e
               then alignMeshR rnd this s e (bone_mesh b)
               else (bone_mesh b)\<lparr>mesh_visible := False\<rparr>))"
proof -
  let ?js = "updateJointsR rnd this (sr_joints this) lms"
  have len: "length ?js = 33" using assms(1) by (simp add: length_updateJointsR sr_wf_def)
  have all: "list_all (\<lambda>b. bone_start b < length ?js \<and> bone_end b < length ?js) (sr_bones this)"
    using assms(1) len by (simp add: sr_wf_def)
  from updateBonesR_in_range[OF all, of rnd this] obtain bs' where
    bs': "updateBonesR rnd this ?js (sr_bones this) = Inr bs'" "length bs' = length (sr_bones this)"
    "\<forall>k<length (sr_bones this). updateBoneR rnd this ?js (sr_bones this ! k) = Inr (bs' ! k)"
    by blast
  from all assms(3) have rng: "bone_start (sr_bones this ! k) < length ?js"
    "bone_end (sr_bones this ! k) < length ?js"
    by (simp_all add: list_all_length)
  from bs'(3) assms(3) have "updateBoneR rnd this ?js (sr_bones this ! k) = Inr (bs' ! k)" by blast
  then have "bs' ! k = (sr_bones this ! k)\<lparr>bone_mesh :=
            if joint_visible (?js ! bone_start (sr_bones this ! k)) \<and>
               joint_visible (?js ! bone_end (sr_bones this ! k))
            then alignMeshR rnd this (?js ! bone_start (sr_bones this ! k))
                   (?js ! bone_end (sr_bones this ! k)) (bone_mesh (sr_bones this ! k))
            else (bone_mesh (sr_bones this ! k))\<lparr>mesh_visible := False\<rparr>\<rparr>"
    by (simp add: updateBoneR_in_range[OF rng])
  then show ?thesis
    using bs'(1,2) assms(2,3)
    by (simp add: updatePoseR_def sr_mesh_def Let_def nth_opt_def jointsOf_def)
qed

lemma updateJointR_visible:
  "joint_visible (updateJointR rnd this lm j) \<longleftrightarrow>
     js_gt (lm_visibility lm) (rnd 0.3) \<and> sr_showJoints this"
  by (simp add: updateJointR_def Let_def)

lemma updateJointR_position:
  "js_gt (lm_visibility lm) (rnd 0.3) \<Longrightarrow>
   joint_position (updateJointR rnd this lm j) = jointPositionR rnd this lm"
  by (simp add: updateJointR_def Let_def jointPositionR_def)

lemma alignMeshR_fields:
  "mesh_geometry (alignMeshR rnd this s e m) = mesh_geometry m"
  "mesh_visible (alignMeshR rnd this s e m) \<longleftrightarrow>
     sr_showBones this \<and> 0 < measuredLength rnd (joint_position s) (joint_position e)"
  "mesh_visible (alignMeshR rnd this s e m) \<Longrightarrow>
     mesh_scale_y (alignMeshR rnd this s e m) =
       measuredLength rnd (joint_position s) (joint_position e)"
  by (simp_all add: alignMeshR_def measuredLength_def Let_def split: if_splits)

lemma skeleton_segmentR:
  assumes "sr_wf this" and "length lms = 33" and "k < length (sr_bones this)"
    and "s = bone_start (sr_bones this ! k)" and "e = bone_end (sr_bones this ! k)"
  shows "\<exists>m. sr_mesh (updatePoseR rnd this (Some lms)) k = Some m \<and>
          mesh_geometry m = mesh_geometry (bone_mesh (sr_bones this ! k)) \<and>
          (mesh_visible m \<longleftrightarrow>
             js_gt (lm_visibility (lms ! s)) (rnd 0.3) \<and> js_gt (lm_visibility (lms ! e)) (rnd 0.3) \<and>
             sr_showJoints this \<and> sr_showBones this \<and>
             0 < measuredLength rnd (jointPositionR rnd this (lms ! s))
                   (jointPositionR rnd this (lms ! e))) \<and>
          (mesh_visible m \<longrightarrow>
             mesh_scale_y m =
               measuredLength rnd (jointPositionR rnd this (lms ! s))
                 (jointPositionR rnd this (lms ! e)))"
proof -
  from assms(1,3) have rng: "s < 33" "e < 33"
    by (simp_all add: sr_wf_def list_all_length assms(4,5))
  from assms(1) have len: "length (sr_joints this) = 33" by (simp add: sr_wf_def)
  have js: "jointsOf rnd this lms ! s = updateJointR rnd this (lms ! s) (sr_joints this ! s)"
    "jointsOf rnd this lms ! e = updateJointR rnd this (lms ! e) (sr_joints this ! e)"
    using rng len assms(2) by (simp_all add: nth_updateJointsR jointsOf_def)
  show ?thesis
    unfolding updatePoseR_mesh[OF assms(1-3)] Let_def assms(4,5)[symmetric] js
    by (auto simp: updateJointR_visible updateJointR_position alignMeshR_fields)
qed


subsection \<open>Translation of the landmarks\<close>

lemma jointPosition_translate:
  "jointPosition this (translate t l) = addv (jointPosition this l) (jointShift this t)"
  by (simp add: jointPosition_def centred_def translate_def multiplyScalar_def addv_def
        jointShift_def algebra_simps)

lemma updateJointR_translate:
  assumes "jointPositionR rnd this l = jointPosition this l"
    and "jointPositionR rnd this (translate t l) = jointPosition this (translate t l)"
  shows "shifted (jointShift this t) (updateJointR rnd this l j)
           (updateJointR rnd this (translate t l) j)"
proof (cases "js_gt (lm_visibility l) (rnd 0.3)")
  case True
  then have v: "js_gt (lm_visibility (translate t l)) (rnd 0.3)"
    by (simp add: translate_def)
  have p1: "joint_position (updateJointR rnd this l j) = jointPosition this l"
    using updateJointR_position[where rnd = rnd and lm = l, OF True] assms(1) by simp
  have p2: "joint_position (updateJointR rnd this (translate t l) j) =
              addv (jointPosition this l) (jointShift this t)"
    using updateJointR_position[where rnd = rnd and lm = "translate t l", OF v] assms(2)
    by (simp add: jointPosition_translate)
  show ?thesis
    unfolding shifted_def updateJointR_visible p1 p2 using True v by simp
next
  case False
  then have v: "\<not> js_gt (lm_visibility (translate t l)) (rnd 0.3)"
    by (simp add: translate_def)
  show ?thesis
    unfolding shifted_def updateJointR_visible using False v by simp
qed

lemma updateJointsR_translate:
  assumes "list_all (\<lambda>lm. jointPositionR rnd this lm = jointPosition this lm) lms"
    and "list_all (\<lambda>lm. jointPositionR rnd this lm = jointPosition this lm) (map (translate t) lms)"
  shows "list_all2 (shifted (jointShift this t))
     (updateJointsR rnd this js lms) (updateJointsR rnd this js (map (translate t) lms))"
  using assms
proof (induction rnd this js lms rule: updateJointsR.induct)
  case (1 rnd this lms)
  then show ?case by simp
next
  case (2 rnd this j js)
  then show ?case by (simp add: shifted_def)
next
  case (3 rnd this j js lm lms)
  then show ?case by (simp add: updateJointR_translate)
qed

lemma alignMeshR_shift:
  assumes "joint_position s2 = addv (joint_position s1) d"
    and "joint_position e2 = addv (joint_position e1) d"
  shows "mesh_quaternion (alignMeshR rnd this s2 e2 m) = mesh_quaternion (alignMeshR rnd this s1 e1 m)"
    and "mesh_scale_y (alignMeshR rnd this s2 e2 m) = mesh_scale_y (alignMeshR rnd this s1 e1 m)"
    and "mesh_visible (alignMeshR rnd this s2 e2 m) = mesh_visible (alignMeshR rnd this s1 e1 m)"
  using assms by (simp_all add: alignMeshR_def Let_def addv_def)

lemma nth_opt_all2:
  "list_all2 R xs ys \<Longrightarrow>
   (nth_opt xs i = None \<and> nth_opt ys i = None) \<or>
   (\<exists>x y. nth_opt xs i = Some x \<and> nth_opt ys i = Some y \<and> R x y)"
  by (auto simp: nth_opt_def list_all2_conv_all_nth)

lemma updateBoneR_shift:
  assumes "list_all2 (shifted d) js1 js2"
  shows "(updateBoneR rnd this js1 b = Inl TypeError \<and> updateBoneR rnd this js2 b = Inl TypeError) \<or>
         (\<exists>b1 b2. updateBoneR rnd this js1 b = Inr b1 \<and> updateBoneR rnd this js2 b = Inr b2 \<and>
                   segmentOutput b1 = segmentOutput b2)"
proof -
  from nth_opt_all2[OF assms, of "bone_start b"] nth_opt_all2[OF assms, of "bone_end b"]
  show ?thesis
    by (auto simp: updateBoneR_def shifted_def segmentOutput_def alignMeshR_shift)
qed

lemma updateBonesR_shift:
  assumes "list_all2 (shifted d) js1 js2"
  shows "(\<exists>e. updateBonesR rnd this js1 bs = Inl e \<and> updateBonesR rnd this js2 bs = Inl e) \<or>
         (\<exists>bs1 bs2. updateBonesR rnd this js1 bs = Inr bs1 \<and> updateBonesR rnd this js2 bs = Inr bs2 \<and>
                   map segmentOutput bs1 = map segmentOutput bs2)"
proof (induction bs)
  case Nil
  then show ?case by simp
next
  case (Cons b bs)
  from updateBoneR_shift[OF assms, of rnd this b] Cons show ?case
    by (elim disjE exE conjE) (simp_all)
qed

lemma shifted_outputs:
  assumes "list_all2 (shifted d) (jointsOf rnd this lms) (jointsOf rnd this lms')"
    and "length lms' = length lms"
  shows "segmentOutputs (updatePoseR rnd this (Some lms')) =
         segmentOutputs (updatePoseR rnd this (Some lms))"
proof (cases "length lms = 33")
  case False
  then show ?thesis using assms(2) by (simp add: updatePoseR_def)
next
  case True
  from updateBonesR_shift[OF assms(1)[unfolded jointsOf_def], of rnd this "sr_bones this"]
  show ?thesis using True assms(2)
    by (elim disjE exE conjE) (simp_all add: updatePoseR_def segmentOutputs_def Let_def)
qed

subsection \<open>Values of the rounding\<close>

lemma round64_0: "round64 0 = 0"
  by (simp add: round64_def)

lemma round64_values:
  "round64 (1 / 10) = 3602879701896397 / 2 ^ 55"
  "round64 (3 / 10) = 5404319552844595 / 2 ^ 54"
  "round64 (2 ^ 53 + 1) = 2 ^ 53"
  "round64 (2 ^ 53 + 3) = 2 ^ 53 + 4"
  "round64 (- (1 / 3)) = - (6004799503160661 / 2 ^ 54)"
  by code_simp+

lemma sqrt_pow2: "sqrt (1 / 2 ^ 106) = 1 / 2 ^ 53" "sqrt (1 / 2 ^ 104) = 1 / 2 ^ 52"
proof -
  have "(1 / 2 ^ 53) ^ 2 = (1 / 2 ^ 106 :: real)" by (simp add: power_divide)
  then show "sqrt (1 / 2 ^ 106) = 1 / 2 ^ 53" by (intro real_sqrt_unique) simp_all
  have "(1 / 2 ^ 52) ^ 2 = (1 / 2 ^ 104 :: real)" by (simp add: power_divide)
  then show "sqrt (1 / 2 ^ 104) = 1 / 2 ^ 52" by (intro real_sqrt_unique) simp_all
qed

subsection \<open>Two frames a rounding error apart\<close>

lemma closeFrame_length:
  "length closeFrame = 33"
  "length (map (translate (Vec3 (1 / 2 ^ 55) 0 0)) closeFrame) = 33"
  by (simp_all add: closeFrame_def)

lemma closeFrame_visible:
  "js_gt (lm_visibility (closeFrame ! 11)) (round64 0.3)"
  "js_gt (lm_visibility (closeFrame ! 12)) (round64 0.3)"
  "js_gt (lm_visibility (map (translate (Vec3 (1 / 2 ^ 55) 0 0)) closeFrame ! 11)) (round64 0.3)"
  "js_gt (lm_visibility (map (translate (Vec3 (1 / 2 ^ 55) 0 0)) closeFrame ! 12)) (round64 0.3)"
  by code_simp+

lemma closeFrame_joints:
  "jointPositionR round64 SkeletonRenderer_init (closeFrame ! 11) = Vec3 (- 3 / 4) 0 0"
  "jointPositionR round64 SkeletonRenderer_init (closeFrame ! 12) =
     Vec3 (- 3 / 4 + 1 / 2 ^ 53) 0 0"
  "jointPositionR round64 SkeletonRenderer_init
     (map (translate (Vec3 (1 / 2 ^ 55) 0 0)) closeFrame ! 11) = Vec3 (- 3 / 4) 0 0"
  "jointPositionR round64 SkeletonRenderer_init
     (map (translate (Vec3 (1 / 2 ^ 55) 0 0)) closeFrame ! 12) = Vec3 (- 3 / 4 + 1 / 2 ^ 52) 0 0"
  by code_simp+

lemma closeFrame_lengths:
  "measuredLength round64 (Vec3 (- 3 / 4) 0 0) (Vec3 (- 3 / 4 + 1 / 2 ^ 53) 0 0) = 1 / 2 ^ 53"
  "measuredLength round64 (Vec3 (- 3 / 4) 0 0) (Vec3 (- 3 / 4 + 1 / 2 ^ 52) 0 0) = 1 / 2 ^ 52"
proof -
  have d0: "round64 (0 - 0) = 0" by code_simp
  have d1: "round64 (- 3 / 4 + 1 / 2 ^ 53 - - 3 / 4) = 1 / 2 ^ 53" by code_simp
  have q1: "round64 (round64 (round64 (1 / 2 ^ 53 * (1 / 2 ^ 53)) + round64 (0 * 0)) + round64 (0 * 0))
              = 1 / 2 ^ 106" by code_simp
  have r1: "round64 (1 / 2 ^ 53) = 1 / 2 ^ 53" by code_simp
  show "measuredLength round64 (Vec3 (- 3 / 4) 0 0) (Vec3 (- 3 / 4 + 1 / 2 ^ 53) 0 0) = 1 / 2 ^ 53"
    unfolding measuredLength_def Let_def vec3.sel d0 d1 q1 sqrt_pow2 r1 ..
  have d2: "round64 (- 3 / 4 + 1 / 2 ^ 52 - - 3 / 4) = 1 / 2 ^ 52" by code_simp
  have q2: "round64 (round64 (round64 (1 / 2 ^ 52 * (1 / 2 ^ 52)) + round64 (0 * 0)) + round64 (0 * 0))
              = 1 / 2 ^ 104" by code_simp
  have r2: "round64 (1 / 2 ^ 52) = 1 / 2 ^ 52" by code_simp
  show "measuredLength round64 (Vec3 (- 3 / 4) 0 0) (Vec3 (- 3 / 4 + 1 / 2 ^ 52) 0 0) = 1 / 2 ^ 52"
    unfolding measuredLength_def Let_def vec3.sel d0 d2 q2 sqrt_pow2 r2 ..
qed

lemma shoulder_segment:
  assumes "sr_wf this" and "2 < length (sr_bones this)"
    and "bone_start (sr_bones this ! 2) = 11" and "bone_end (sr_bones this ! 2) = 12"
    and "sr_showJoints this" and "sr_showBones this" and "length lms = 33"
    and "js_gt (lm_visibility (lms ! 11)) (rnd 0.3)"
    and "js_gt (lm_visibility (lms ! 12)) (rnd 0.3)"
    and "jointPositionR rnd this (lms ! 11) = a"
    and "jointPositionR rnd this (lms ! 12) = b"
    and "measuredLength rnd a b = l" and "0 < l"
  shows "map_option mesh_visible (sr_mesh (updatePoseR rnd this (Some lms)) 2) = Some True"
    and "map_option mesh_scale_y (sr_mesh (updatePoseR rnd this (Some lms)) 2) = Some l"
proof -
  from skeleton_segmentR[OF assms(1,7,2) assms(3)[symmetric] assms(4)[symmetric], of rnd]
  obtain m where m: "sr_mesh (updatePoseR rnd this (Some lms)) 2 = Some m"
    and v: "mesh_visible m \<longleftrightarrow>
             js_gt (lm_visibility (lms ! 11)) (rnd 0.3) \<and>
             js_gt (lm_visibility (lms ! 12)) (rnd 0.3) \<and>
             sr_showJoints this \<and> sr_showBones this \<and>
             0 < measuredLength rnd (jointPositionR rnd this (lms ! 11))
                   (jointPositionR rnd this (lms ! 12))"
    and s: "mesh_visible m \<longrightarrow>
             mesh_scale_y m =
               measuredLength rnd (jointPositionR rnd this (lms ! 11))
                 (jointPositionR rnd this (lms ! 12))"
    by blast
  from v have vis: "mesh_visible m"
    unfolding assms(10,11,12) using assms(5,6,8,9,13) by blast
  with s have "mesh_scale_y m = l" unfolding assms(10,11,12) by blast
  with vis m show "map_option mesh_visible (sr_mesh (updatePoseR rnd this (Some lms)) 2) = Some True"
    and "map_option mesh_scale_y (sr_mesh (updatePoseR rnd this (Some lms)) 2) = Some l"
    by simp_all
qed

text \<open>
  C6, as the spec states it, fails: the script centres each landmark before it takes the
  difference of two joints, and the centring is rounded. In the frame \<open>closeFrame\<close> the two
  shoulders lie \<open>2 ^ - 54\<close> apart; the segment between them is shown with the scale
  \<open>2 ^ - 53\<close>. In the same frame with every landmark moved by \<open>2 ^ - 55\<close> along \<open>x\<close> the two
  centred shoulders are rounded apart, and the segment is shown with the scale \<open>2 ^ - 52\<close>.
\<close>

theorem translation_invariance_counterexample:
  "map_option mesh_visible
     (sr_mesh (updatePoseR round64 SkeletonRenderer_init (Some closeFrame)) 2) = Some True \<and>
   map_option mesh_scale_y
     (sr_mesh (updatePoseR round64 SkeletonRenderer_init (Some closeFrame)) 2) = Some (1 / 2 ^ 53) \<and>
   map_option mesh_visible
     (sr_mesh (updatePoseR round64 SkeletonRenderer_init
        (Some (map (translate (Vec3 (1 / 2 ^ 55) 0 0)) closeFrame))) 2) = Some True \<and>
   map_option mesh_scale_y
     (sr_mesh (updatePoseR round64 SkeletonRenderer_init
        (Some (map (translate (Vec3 (1 / 2 ^ 55) 0 0)) closeFrame))) 2) = Some (1 / 2 ^ 52)"
proof -
  have p: "0 < (1 / 2 ^ 53 :: real)" "0 < (1 / 2 ^ 52 :: real)" by simp_all
  note a = shoulder_segment[OF init_wf init_bones init_flags(1,2) closeFrame_length(1)
      closeFrame_visible(1,2) closeFrame_joints(1,2) closeFrame_lengths(1) p(1)]
  note b = shoulder_segment[OF init_wf init_bones init_flags(1,2) closeFrame_length(2)
      closeFrame_visible(3,4) closeFrame_joints(3,4) closeFrame_lengths(2) p(2)]
  show ?thesis by (rule conjI[OF a(1) conjI[OF a(2) conjI[OF b(1) b(2)]]])
qed

lemma list_all_map_upt:
  "(\<And>i. P (f i)) \<Longrightarrow> list_all P (map f [0 ..< n])"
  by (simp add: list_all_iff)

lemma demoFrame_exact:
  "exactConversion round64 SkeletonRenderer_init demoFrame"
  "exactConversion round64 SkeletonRenderer_init
     (map (translate (Vec3 (1 / 4) (1 / 8) (1 / 2))) demoFrame)"
proof -
  have a: "jointPositionR round64 SkeletonRenderer_init (demoLandmark 12) =
             jointPosition SkeletonRenderer_init (demoLandmark 12)"
    by code_simp
  have b: "jointPositionR round64 SkeletonRenderer_init (demoLandmark 0) =
             jointPosition SkeletonRenderer_init (demoLandmark 0)"
    by code_simp
  have c: "jointPositionR round64 SkeletonRenderer_init
             (translate (Vec3 (1 / 4) (1 / 8) (1 / 2)) (demoLandmark 12)) =
           jointPosition SkeletonRenderer_init
             (translate (Vec3 (1 / 4) (1 / 8) (1 / 2)) (demoLandmark 12))"
    by code_simp
  have d: "jointPositionR round64 SkeletonRenderer_init
             (translate (Vec3 (1 / 4) (1 / 8) (1 / 2)) (demoLandmark 0)) =
           jointPosition SkeletonRenderer_init
             (translate (Vec3 (1 / 4) (1 / 8) (1 / 2)) (demoLandmark 0))"
    by code_simp
  have other: "demoLandmark i = demoLandmark 0" if "i \<noteq> 12" for i
    using that by (simp add: demoLandmark_def)
  have 1: "jointPositionR round64 SkeletonRenderer_init (demoLandmark i) =
             jointPosition SkeletonRenderer_init (demoLandmark i)" for i
  proof (cases "i = 12")
    case True
    show ?thesis unfolding True by (rule a)
  next
    case False
    show ?thesis unfolding other[OF False] by (rule b)
  qed
  have 2: "jointPositionR round64 SkeletonRenderer_init
             (translate (Vec3 (1 / 4) (1 / 8) (1 / 2)) (demoLandmark i)) =
           jointPosition SkeletonRenderer_init
             (translate (Vec3 (1 / 4) (1 / 8) (1 / 2)) (demoLandmark i))" for i
  proof (cases "i = 12")
    case True
    show ?thesis unfolding True by (rule c)
  next
    case False
    show ?thesis unfolding other[OF False] by (rule d)
  qed
  show "exactConversion round64 SkeletonRenderer_init demoFrame"
    unfolding exactConversion_def demoFrame_def by (rule list_all_map_upt) (rule 1)
  show "exactConversion round64 SkeletonRenderer_init
     (map (translate (Vec3 (1 / 4) (1 / 8) (1 / 2))) demoFrame)"
    unfolding exactConversion_def demoFrame_def map_map comp_def
    by (rule list_all_map_upt) (rule 2)
qed

text \<open>
  C6, amended. A frame and the same frame with every point moved by one fixed vector give every
  segment of the skeleton renderer the same orientation, the same scale and the same visibility
  whenever the joints the renderer computes for the two frames lie apart by one fixed vector
  (and are equally visible): the outputs of a segment depend on the difference of its two joints
  only, and the rounding of that difference is the same in both frames. This is the case in
  particular when the centring and scaling of both frames is free of rounding errors. Where the
  centring is rounded the outputs can differ.
\<close>

theorem translation_invariance:
  "(list_all2 (shifted d) (jointsOf rnd this lms) (jointsOf rnd this (map (translate t) lms)) \<longrightarrow>
      segmentOutputs (updatePoseR rnd this (Some (map (translate t) lms))) =
      segmentOutputs (updatePoseR rnd this (Some lms))) \<and>
   (exactConversion rnd this lms \<longrightarrow> exactConversion rnd this (map (translate t) lms) \<longrightarrow>
      list_all2 (shifted (jointShift this t))
        (jointsOf rnd this lms) (jointsOf rnd this (map (translate t) lms)) \<and>
      segmentOutputs (updatePoseR rnd this (Some (map (translate t) lms))) =
      segmentOutputs (updatePoseR rnd this (Some lms)))"
proof (intro conjI impI)
  assume "list_all2 (shifted d) (jointsOf rnd this lms) (jointsOf rnd this (map (translate t) lms))"
  then show "segmentOutputs (updatePoseR rnd this (Some (map (translate t) lms))) =
      segmentOutputs (updatePoseR rnd this (Some lms))"
    by (rule shifted_outputs) simp
next
  assume a: "exactConversion rnd this lms" "exactConversion rnd this (map (translate t) lms)"
  from a show s: "list_all2 (shifted (jointShift this t))
        (jointsOf rnd this lms) (jointsOf rnd this (map (translate t) lms))"
    unfolding exactConversion_def jointsOf_def by (rule updateJointsR_translate)
  then show "segmentOutputs (updatePoseR rnd this (Some (map (translate t) lms))) =
      segmentOutputs (updatePoseR rnd this (Some lms))"
    by (rule shifted_outputs) simp
qed

theorem translation_invariance_witness:
  "exactConversion round64 SkeletonRenderer_init demoFrame \<and>
   exactConversion round64 SkeletonRenderer_init
     (map (translate (Vec3 (1 / 4) (1 / 8) (1 / 2))) demoFrame) \<and>
   segmentOutputs (updatePoseR round64 SkeletonRenderer_init
     (Some (map (translate (Vec3 (1 / 4) (1 / 8) (1 / 2))) demoFrame))) =
   segmentOutputs (updatePoseR round64 SkeletonRenderer_init (Some demoFrame))"
proof -
  from translation_invariance[where rnd = round64 and this = SkeletonRenderer_init
      and lms = demoFrame and t = "Vec3 (1 / 4) (1 / 8) (1 / 2)", THEN conjunct2, rule_format,
      OF demoFrame_exact, THEN conjunct2]
  have "segmentOutputs (updatePoseR round64 SkeletonRenderer_init
     (Some (map (translate (Vec3 (1 / 4) (1 / 8) (1 / 2))) demoFrame))) =
   segmentOutputs (updatePoseR round64 SkeletonRenderer_init (Some demoFrame))" .
  then show ?thesis by (rule conjI[OF demoFrame_exact(1) conjI[OF demoFrame_exact(2)]])
qed

section \<open>Scale of the segments\<close>



















end
